theory Spec2Isabelle
  imports Complex_Main
begin

section \<open>JavaScript values\<close>

text \<open>
  The repository holds two variants of the same React component: \<^verbatim>\<open>src/App.tsx\<close>
  (below: the App variant, names suffixed \<open>_App\<close> where they differ) and the unnamed
  file \<^verbatim>\<open>part_000\<close> (the variant with the not-found retry counter, names unsuffixed).
  Both read untyped JSON from the backend, so the fields they copy are modelled as
  JavaScript values. Numbers are rationals (JSON numbers are finite), strings are lists
  of code units below 256.
\<close>

datatype jsval =
    Undefined
  | Null
  | JBool bool
  | JNum rat
  | JStr string
  | JArr "jsval list"
  | JObj "(string \<times> jsval) list"

text \<open>ToBoolean, as \<^verbatim>\<open>||\<close>, \<^verbatim>\<open>&&\<close>, \<^verbatim>\<open>?:\<close> and \<^verbatim>\<open>if\<close> apply it.\<close>

fun truthy :: "jsval \<Rightarrow> bool" where
  "truthy Undefined = False"
| "truthy Null = False"
| "truthy (JBool b) = b"
| "truthy (JNum n) = (n \<noteq> 0)"
| "truthy (JStr s) = (s \<noteq> [])"
| "truthy (JArr xs) = True"
| "truthy (JObj kvs) = True"

text \<open>\<^verbatim>\<open>a || b\<close>\<close>

definition js_or :: "jsval \<Rightarrow> jsval \<Rightarrow> jsval" where
  "js_or a b = (if truthy a then a else b)"

text \<open>
  \<^verbatim>\<open>v?.k\<close> for a key that no prototype defines: the own property of an object, and
  \<^verbatim>\<open>undefined\<close> on \<^verbatim>\<open>null\<close>, \<^verbatim>\<open>undefined\<close>, primitives and arrays.
\<close>

fun opt_prop :: "jsval \<Rightarrow> string \<Rightarrow> jsval" where
  "opt_prop (JObj kvs) k = (case map_of kvs k of Some v \<Rightarrow> v | None \<Rightarrow> Undefined)"
| "opt_prop v k = Undefined"

text \<open>
  What the source reads from the browser when a handler runs: the clock, the page's
  origin, Number's decimal printing (used by template literals and property keys), and
  the message the engine gives the TypeError it throws when \<^verbatim>\<open>null\<close> or \<^verbatim>\<open>undefined\<close>
  is destructured (it differs between engines and names the value).
\<close>

record env =
  now_iso :: string
  now_ms :: rat
  origin :: string
  numstr :: "rat \<Rightarrow> string"
  typeError_message :: "jsval \<Rightarrow> string"

fun join_with :: "string \<Rightarrow> string list \<Rightarrow> string" where
  "join_with sep [] = []"
| "join_with sep [w] = w"
| "join_with sep (w # v # ws) = w @ sep @ join_with sep (v # ws)"

text \<open>ToString, as a template literal applies it.\<close>

fun toString :: "env \<Rightarrow> jsval \<Rightarrow> string" where
  "toString e Undefined = ''undefined''"
| "toString e Null = ''null''"
| "toString e (JBool b) = (if b then ''true'' else ''false'')"
| "toString e (JNum n) = numstr e n"
| "toString e (JStr s) = s"
| "toString e (JArr xs) =
     join_with '','' (map (\<lambda>x. if x = Undefined \<or> x = Null then [] else toString e x) xs)"
| "toString e (JObj kvs) = ''[object Object]''"

section \<open>Strings: trim, split, lower case\<close>

text \<open>The code units below 256 that \<^verbatim>\<open>\s\<close> and \<^verbatim>\<open>trim\<close> treat as white space.\<close>

definition isWhiteSpace :: "char \<Rightarrow> bool" where
  "isWhiteSpace c = (of_char c \<in> {9, 10, 11, 12, 13, 32, 160 :: nat})"

definition trim :: "string \<Rightarrow> string" where
  "trim s = rev (dropWhile isWhiteSpace (rev (dropWhile isWhiteSpace s)))"

text \<open>
  \<^verbatim>\<open>s.split(/\s+/)\<close>: the pieces between the maximal runs of white space; a run at
  either end of the string leaves an empty piece there, and the empty string splits
  into one empty piece.
\<close>

function split_ws :: "string \<Rightarrow> string list" where
  "split_ws [] = [[]]"
| "split_ws (c # cs) =
     (if isWhiteSpace c then [] # split_ws (dropWhile isWhiteSpace cs)
      else (case split_ws cs of w # ws \<Rightarrow> (c # w) # ws | [] \<Rightarrow> [[c]]))"
  by pat_completeness auto
termination
  by (relation "measure length") (auto simp: length_dropWhile_le less_Suc_eq_le)

definition toLowerCase_char :: "char \<Rightarrow> char" where
  "toLowerCase_char c =
     (let n = (of_char c :: nat) in
      if (65 \<le> n \<and> n \<le> 90) \<or> (192 \<le> n \<and> n \<le> 222 \<and> n \<noteq> 215)
      then char_of (n + 32) else c)"

definition toLowerCase :: "string \<Rightarrow> string" where
  "toLowerCase s = map toLowerCase_char s"

section \<open>getVideoFilename\<close>

text \<open>The class \<^verbatim>\<open>[a-z0-9_]\<close> under the flag \<^verbatim>\<open>i\<close>: letters of both cases.\<close>

definition in_class_i :: "char \<Rightarrow> bool" where
  "in_class_i c =
     (let n = (of_char c :: nat) in
      (97 \<le> n \<and> n \<le> 122) \<or> (65 \<le> n \<and> n \<le> 90) \<or> (48 \<le> n \<and> n \<le> 57) \<or> n = 95)"

text \<open>\<^verbatim>\<open>name.replace(/[^a-z0-9_]/gi, '_')\<close>\<close>

definition replace_unsafe :: "string \<Rightarrow> string" where
  "replace_unsafe name = map (\<lambda>c. if in_class_i c then c else CHR ''_'') name"

definition getVideoFilename :: "string \<Rightarrow> string" where
  "getVideoFilename promptText =
     (let ws = filter (\<lambda>w. w \<noteq> []) (split_ws (trim promptText));
          name = (if length ws > 0 then toLowerCase (join_with ''_'' (take 2 ws)) else ''video'');
          safeName = replace_unsafe name
      in safeName @ ''.mp4'')"

section \<open>The filename derivation as the specification words it\<close>

text \<open>The white-space separated tokens of a string: its maximal runs of other characters.\<close>

function tokens :: "string \<Rightarrow> string list" where
  "tokens [] = []"
| "tokens (c # cs) =
     (if isWhiteSpace c then tokens cs
      else takeWhile (\<lambda>x. \<not> isWhiteSpace x) (c # cs)
           # tokens (dropWhile (\<lambda>x. \<not> isWhiteSpace x) cs))"
  by pat_completeness auto
termination
  by (relation "measure length") (auto simp: length_dropWhile_le less_Suc_eq_le)

text \<open>The class \<^verbatim>\<open>[a-z0-9_]\<close> read case-sensitively, as the specification writes it.\<close>

definition in_class :: "char \<Rightarrow> bool" where
  "in_class c =
     (let n = (of_char c :: nat) in
      (97 \<le> n \<and> n \<le> 122) \<or> (48 \<le> n \<and> n \<le> 57) \<or> n = 95)"

text \<open>
  The specification's wording: first two tokens, lower case, joined by an underscore,
  characters outside the class stripped, \<^verbatim>\<open>.mp4\<close> appended.
\<close>

definition deriveFilename :: "string \<Rightarrow> string" where
  "deriveFilename p =
     (let ts = take 2 (tokens p) in
      (if ts = [] then ''video''
       else filter in_class (join_with ''_'' (map toLowerCase ts))) @ ''.mp4'')"

text \<open>The same wording with each character outside the class replaced by an underscore.\<close>

definition deriveFilename_replacing :: "string \<Rightarrow> string" where
  "deriveFilename_replacing p =
     (let ts = take 2 (tokens p) in
      (if ts = [] then ''video''
       else map (\<lambda>c. if in_class c then c else CHR ''_'') (join_with ''_'' (map toLowerCase ts)))
      @ ''.mp4'')"

section \<open>The Job record and the component's state\<close>

record genDetails =
  gd_prompt :: string
  gd_duration :: rat
  gd_resolution :: string
  gd_createdAt :: string

text \<open>
  \<^verbatim>\<open>VideoJob\<close>. A key the object does not have reads as \<open>Undefined\<close>; the only
  operations of the source on a job are property reads and the spread \<^verbatim>\<open>{...prev, k: v}\<close>,
  which is a record update. The field \<open>jid\<close> is the source's \<^verbatim>\<open>id\<close>.
\<close>

record videoJob =
  jid :: jsval
  status :: jsval
  error :: jsval
  videoUrl :: jsval
  progress :: jsval
  openAiStatus :: jsval
  openAiResponse :: jsval
  result :: jsval
  generationDetails :: "genDetails option"
  prompt :: jsval
  duration :: jsval
  resolution :: jsval
  createdAt :: jsval

record formValues =
  fv_prompt :: string
  fv_duration :: rat
  fv_resolution :: string

datatype emoji = Hourglass | Arrows | CheckMark | CrossMark | Gear

text \<open>A timer of the browser whose callback polls the job \<open>target\<close>.\<close>

record timer =
  tid :: nat
  delay :: nat
  target :: jsval

text \<open>
  The requests the component sends. The body of the create request carries the prompt,
  the duration and the width and height parsed from the resolution string; the model
  keeps the string.
\<close>

datatype request = PostGenerate string string rat | GetJob jsval

text \<open>
  What a \<^verbatim>\<open>catch\<close> block reads of the value it caught: \<^verbatim>\<open>message\<close>, and the status
  code and body of \<^verbatim>\<open>response\<close> when the server answered.
\<close>

record js_error =
  message :: jsval
  response :: "(nat \<times> jsval) option"

datatype 'a settled = Fulfilled 'a | Rejected js_error

text \<open>
  A value stored in \<^verbatim>\<open>retryCount.current\<close>: a number, or a string that is not a number
  (what \<^verbatim>\<open>+ 1\<close> makes of a function or an object).
\<close>

datatype counter = Count nat | NotANumber

text \<open>
  The component: whether it is mounted, its React state (\<open>error_state\<close> is the source's
  state \<^verbatim>\<open>error\<close>, \<open>openAiStatus_state\<close> the App variant's state \<^verbatim>\<open>openAiStatus\<close>), its
  refs (\<open>pollingInterval\<close>, and the own properties of the object \<open>retryCount\<close>, keyed
  by strings), the form, the browser's active timers and the requests sent so far.
\<close>

record world =
  mounted :: bool
  job :: "videoJob option"
  isLoading :: bool
  isGenerating :: bool
  error_state :: jsval
  statusEmoji :: emoji
  showDownloadModal :: bool
  openAiStatus_state :: jsval
  pollingInterval :: "nat option"
  retryCount :: "string \<Rightarrow> counter option"
  form :: formValues
  formErrors :: "(string \<times> string) list"
  intervals :: "timer list"
  timeouts :: "timer list"
  nextTimer :: nat
  sent :: "request list"

definition initial_world :: world where
  "initial_world =
     \<lparr>mounted = True, job = None, isLoading = False, isGenerating = False, error_state = Null,
      statusEmoji = Hourglass, showDownloadModal = False, openAiStatus_state = JStr [],
      pollingInterval = None, retryCount = Map.empty,
      form = \<lparr>fv_prompt = [], fv_duration = 5, fv_resolution = ''854x480''\<rparr>,
      formErrors = [], intervals = [], timeouts = [], nextTimer = 0, sent = []\<rparr>"

section \<open>Timers\<close>

text \<open>Timer ids are positive and never reused; \<^verbatim>\<open>clearInterval\<close> of an unknown id does nothing.\<close>

definition setInterval :: "jsval \<Rightarrow> nat \<Rightarrow> world \<Rightarrow> nat \<times> world" where
  "setInterval j ms w =
     (let t = Suc (nextTimer w) in
      (t, w\<lparr>intervals := intervals w @ [\<lparr>tid = t, delay = ms, target = j\<rparr>], nextTimer := t\<rparr>))"

definition setTimeout :: "jsval \<Rightarrow> nat \<Rightarrow> world \<Rightarrow> nat \<times> world" where
  "setTimeout j ms w =
     (let t = Suc (nextTimer w) in
      (t, w\<lparr>timeouts := timeouts w @ [\<lparr>tid = t, delay = ms, target = j\<rparr>], nextTimer := t\<rparr>))"

definition clearInterval :: "nat \<Rightarrow> world \<Rightarrow> world" where
  "clearInterval t w =
     w\<lparr>intervals := filter (\<lambda>x. tid x \<noteq> t) (intervals w),
       timeouts := filter (\<lambda>x. tid x \<noteq> t) (timeouts w)\<rparr>"

text \<open>
  \<^verbatim>\<open>if (pollingInterval.current !== null) { clearInterval(pollingInterval.current);
  pollingInterval.current = null; }\<close>
\<close>

definition clear_if_not_null :: "world \<Rightarrow> world" where
  "clear_if_not_null w =
     (case pollingInterval w of
        None \<Rightarrow> w
      | Some t \<Rightarrow> (clearInterval t w)\<lparr>pollingInterval := None\<rparr>)"

text \<open>The same with the test \<^verbatim>\<open>if (pollingInterval.current)\<close>: the id 0 is falsy.\<close>

definition clear_if_truthy :: "world \<Rightarrow> world" where
  "clear_if_truthy w =
     (case pollingInterval w of
        None \<Rightarrow> w
      | Some t \<Rightarrow> if t \<noteq> 0 then (clearInterval t w)\<lparr>pollingInterval := None\<rparr> else w)"

section \<open>Validation\<close>

definition MIN_VIDEO_DURATION :: rat where "MIN_VIDEO_DURATION = 1"
definition MAX_VIDEO_DURATION :: rat where "MAX_VIDEO_DURATION = 10"

text \<open>\<^verbatim>\<open>supportedResolutions\<close> of part_000, as (value, label).\<close>

definition supportedResolutions :: "(string \<times> string) list" where
  "supportedResolutions =
     [(''480x480'', ''480x480 (1:1)''),
      (''480x854'', ''480x854 (9:16 Portrait)''),
      (''854x480'', ''854x480 (16:9)''),
      (''720x720'', ''720x720 (1:1)''),
      (''1080x1080'', ''1080x1080 (1:1 Square)'')]"

definition validate_prompt :: "string \<Rightarrow> string option" where
  "validate_prompt v = (if length (trim v) > 0 then None else Some ''Prompt is required'')"

definition validate_duration :: "rat \<Rightarrow> string option" where
  "validate_duration v =
     (if v \<ge> MIN_VIDEO_DURATION \<and> v \<le> MAX_VIDEO_DURATION then None
      else Some ''Duration must be between 1 and 10 seconds'')"

definition validate_resolution :: "string \<Rightarrow> string option" where
  "validate_resolution v =
     (let isValid = list_ex (\<lambda>res. fst res = v) supportedResolutions in
      if isValid then None else Some ''Please select a valid resolution'')"

definition field_error :: "string \<Rightarrow> string option \<Rightarrow> (string \<times> string) list" where
  "field_error k r = (case r of None \<Rightarrow> [] | Some m \<Rightarrow> [(k, m)])"

text \<open>The rules of \<^verbatim>\<open>useForm\<close> in part_000 applied to the form's values: the errors found.\<close>

definition validate :: "formValues \<Rightarrow> (string \<times> string) list" where
  "validate v =
     field_error ''prompt'' (validate_prompt (fv_prompt v)) @
     field_error ''duration'' (validate_duration (fv_duration v)) @
     field_error ''resolution'' (validate_resolution (fv_resolution v))"

text \<open>The App variant has no rule for the resolution.\<close>

definition validate_App :: "formValues \<Rightarrow> (string \<times> string) list" where
  "validate_App v =
     field_error ''prompt'' (validate_prompt (fv_prompt v)) @
     field_error ''duration'' (validate_duration (fv_duration v))"

section \<open>Polling in part_000\<close>

text \<open>
  Line 152: the fields \<^verbatim>\<open>checkJobStatus\<close> destructures from the response body. On a
  body that is not an object every one of them is \<^verbatim>\<open>undefined\<close>.
\<close>

record pollFields =
  r_status :: jsval
  r_result :: jsval
  r_error :: jsval
  r_progress :: jsval
  r_openai_status :: jsval
  r_openai_response :: jsval

definition destructure :: "jsval \<Rightarrow> pollFields" where
  "destructure responseData =
     \<lparr>r_status = opt_prop responseData ''status'',
      r_result = opt_prop responseData ''result'',
      r_error = opt_prop responseData ''error'',
      r_progress = opt_prop responseData ''progress'',
      r_openai_status = opt_prop responseData ''openai_status'',
      r_openai_response = opt_prop responseData ''openai_response''\<rparr>"

text \<open>
  Destructuring \<^verbatim>\<open>null\<close> or \<^verbatim>\<open>undefined\<close> throws a TypeError, caught by the handler's own
  \<^verbatim>\<open>catch\<close>; its message is the engine's.
\<close>

definition typeError :: "env \<Rightarrow> jsval \<Rightarrow> js_error" where
  "typeError e responseData =
     \<lparr>message = JStr (typeError_message e responseData), response = None\<rparr>"

text \<open>Lines 159-168: the updater of \<^verbatim>\<open>setJob\<close> on an existing job.\<close>

definition mergeJob :: "pollFields \<Rightarrow> videoJob \<Rightarrow> videoJob" where
  "mergeJob r prev =
     prev\<lparr>status := js_or (r_status r) (status prev),
          progress := (if r_progress r \<noteq> Undefined then r_progress r else progress prev),
          error := js_or (r_error r) (error prev),
          openAiStatus := js_or (r_openai_status r) (openAiStatus prev),
          openAiResponse := js_or (r_openai_response r) (openAiResponse prev),
          result := js_or (r_result r) (result prev),
          videoUrl := js_or (opt_prop (r_result r) ''video_url'') (videoUrl prev)\<rparr>"

definition MAX_RETRIES :: nat where "MAX_RETRIES = 5"
definition RETRY_DELAY :: nat where "RETRY_DELAY = 2000"

text \<open>\<^verbatim>\<open>checkJobStatus\<close> up to its \<^verbatim>\<open>await\<close>: the status request is sent.\<close>

definition checkJobStatus_call :: "jsval \<Rightarrow> world \<Rightarrow> world" where
  "checkJobStatus_call jobId w = w\<lparr>sent := sent w @ [GetJob jobId]\<rparr>"

text \<open>
  \<^verbatim>\<open>retryCount.current\<close> is a plain object, so it inherits the members of
  \<^verbatim>\<open>Object.prototype\<close>: functions, and the accessor \<^verbatim>\<open>__proto__\<close>.
\<close>

definition prototype_members :: "string list" where
  "prototype_members =
     [''constructor'', ''hasOwnProperty'', ''isPrototypeOf'', ''propertyIsEnumerable'',
      ''toLocaleString'', ''toString'', ''valueOf'', ''__proto__'',
      ''__defineGetter__'', ''__defineSetter__'', ''__lookupGetter__'', ''__lookupSetter__'']"

text \<open>
  \<^verbatim>\<open>retryCount.current[key]\<close>, read: the own property, else the inherited member
  (not a number), else \<^verbatim>\<open>undefined\<close>.
\<close>

definition retry_read :: "world \<Rightarrow> string \<Rightarrow> counter option" where
  "retry_read w k =
     (case retryCount w k of
        Some c \<Rightarrow> Some c
      | None \<Rightarrow> if k \<in> set prototype_members then Some NotANumber else None)"

text \<open>
  \<^verbatim>\<open>retryCount.current[key] = c\<close> for a number or a string \<open>c\<close>: an own property is
  written, except that the setter of \<^verbatim>\<open>__proto__\<close> ignores such a value.
\<close>

definition retry_write :: "string \<Rightarrow> counter \<Rightarrow> world \<Rightarrow> world" where
  "retry_write k c w =
     (if k = ''__proto__'' then w else w\<lparr>retryCount := (retryCount w)(k \<mapsto> c)\<rparr>)"

text \<open>
  \<^verbatim>\<open>(retryCount.current[key] || 0) + 1\<close>: on a number the next number; on anything
  else that is truthy \<^verbatim>\<open>+\<close> concatenates, and the result is a string that is not a number.
\<close>

definition next_retry :: "world \<Rightarrow> string \<Rightarrow> counter" where
  "next_retry w k =
     (case retry_read w k of
        None \<Rightarrow> Count 1
      | Some (Count n) \<Rightarrow> Count (n + 1)
      | Some NotANumber \<Rightarrow> NotANumber)"

text \<open>\<^verbatim>\<open>retryCount.current[key] >= MAX_RETRIES\<close>: false on what is not a number.\<close>

definition retries_used_up :: "world \<Rightarrow> string \<Rightarrow> bool" where
  "retries_used_up w k =
     (case retry_read w k of Some (Count n) \<Rightarrow> n \<ge> MAX_RETRIES | _ \<Rightarrow> False)"

text \<open>Lines 204-208: the updater of \<^verbatim>\<open>setJob\<close> once the retries are used up.\<close>

definition finalizing :: "videoJob \<Rightarrow> videoJob" where
  "finalizing prev =
     prev\<lparr>status := JStr ''processing'',
          openAiStatus := JStr ''Finalizing video... (this may take a few more moments)''\<rparr>"

text \<open>Lines 223-226: the updater of \<^verbatim>\<open>setJob\<close> on any other error.\<close>

definition record_error :: "js_error \<Rightarrow> videoJob \<Rightarrow> videoJob" where
  "record_error err prev =
     prev\<lparr>error := js_or (message err) (JStr ''Failed to check job status'')\<rparr>"

text \<open>
  Lines 194-230: the \<^verbatim>\<open>catch\<close> block. The key of the counter is the job id as a string.
\<close>

definition checkJobStatus_catch :: "env \<Rightarrow> jsval \<Rightarrow> js_error \<Rightarrow> world \<Rightarrow> world" where
  "checkJobStatus_catch e jobId err w =
     (let w' =
        (if map_option fst (response err) = Some 404 then
           (let k = toString e jobId;
                w1 = retry_write k (next_retry w k) w
            in
            if retries_used_up w1 k then
              (let w2 = w1\<lparr>job := map_option finalizing (job w1)\<rparr>
               in (case pollingInterval w2 of
                     None \<Rightarrow> w2
                   | Some t \<Rightarrow>
                       if t \<noteq> 0 then
                         (let (t', w3) = setInterval jobId 5000 (clearInterval t w2)
                          in w3\<lparr>pollingInterval := Some t'\<rparr>)
                       else w2))
            else snd (setTimeout jobId RETRY_DELAY w1))
         else
           w\<lparr>job := map_option (record_error err) (job w), pollingInterval := None\<rparr>)
      in w'\<lparr>isLoading := False\<rparr>)"

text \<open>Lines 150-169: the counter is reset and the response merged into the job.\<close>

definition merged :: "env \<Rightarrow> jsval \<Rightarrow> jsval \<Rightarrow> world \<Rightarrow> world" where
  "merged e jobId responseData w =
     (let r = destructure responseData;
          w1 = retry_write (toString e jobId) (Count 0) w
      in w1\<lparr>job := map_option (mergeJob r) (job w1)\<rparr>)"

text \<open>Lines 150-193: the \<^verbatim>\<open>try\<close> block after the response arrived.\<close>

definition checkJobStatus_try :: "env \<Rightarrow> jsval \<Rightarrow> jsval \<Rightarrow> world \<Rightarrow> world" where
  "checkJobStatus_try e jobId responseData w =
     (let r = destructure responseData;
          w2 = merged e jobId responseData w
      in if r_status r = JStr ''completed'' then
           (clear_if_truthy w2)
             \<lparr>isLoading := False, isGenerating := False, statusEmoji := CheckMark,
              showDownloadModal := True\<rparr>
         else if r_status r = JStr ''failed'' then
           (clear_if_truthy w2)
             \<lparr>isLoading := False, isGenerating := False, statusEmoji := CrossMark,
              error_state := js_or (r_error r) (JStr ''Video generation failed'')\<rparr>
         else w2\<lparr>statusEmoji := Gear\<rparr>)"

text \<open>\<^verbatim>\<open>checkJobStatus\<close> from its \<^verbatim>\<open>await\<close> on, for a request that settled.\<close>

definition checkJobStatus_settled ::
    "env \<Rightarrow> jsval \<Rightarrow> jsval settled \<Rightarrow> world \<Rightarrow> world" where
  "checkJobStatus_settled e jobId outcome w =
     (case outcome of
        Rejected err \<Rightarrow> checkJobStatus_catch e jobId err w
      | Fulfilled responseData \<Rightarrow>
          if responseData = Undefined \<or> responseData = Null
          then checkJobStatus_catch e jobId (typeError e responseData) w
          else checkJobStatus_try e jobId responseData w)"

text \<open>
  Lines 112-140. \<open>form_values\<close> is \<^verbatim>\<open>form.values\<close> as the closure holds it: the values of
  the render in which the form was submitted, whatever the form holds when the create
  response arrives.
\<close>

definition startJobPolling ::
    "env \<Rightarrow> jsval \<Rightarrow> videoJob \<Rightarrow> formValues \<Rightarrow> world \<Rightarrow> world" where
  "startJobPolling e jobId initialJob form_values w =
     (let w1 = clear_if_not_null w;
          initialJobWithDetails =
            initialJob\<lparr>jid := jobId, status := JStr ''pending'',
              prompt := JStr (fv_prompt form_values),
              duration := JNum (fv_duration form_values),
              resolution := JStr (fv_resolution form_values),
              createdAt := JStr (now_iso e),
              progress := JNum 0,
              generationDetails :=
                Some \<lparr>gd_prompt = fv_prompt form_values, gd_duration = fv_duration form_values,
                      gd_resolution = fv_resolution form_values, gd_createdAt = now_iso e\<rparr>\<rparr>;
          w2 = w1\<lparr>job := Some initialJobWithDetails\<rparr>;
          (t, w3) = setInterval jobId 2000 w2
      in w3\<lparr>pollingInterval := Some t\<rparr>)"

text \<open>
  The component unmounts: the cleanup of the effect runs (lines 233-239; it leaves the
  handle as it is), and the component is mounted no more.
\<close>

definition unmount :: "world \<Rightarrow> world" where
  "unmount w =
     (case pollingInterval w of
        None \<Rightarrow> w
      | Some t \<Rightarrow> if t \<noteq> 0 then clearInterval t w else w)\<lparr>mounted := False\<rparr>"

text \<open>
  React discards the state updates of a component that is not mounted: of what a
  handler does to \<open>w\<close> then, only the refs, the timers and the requests sent remain.
\<close>

definition frozen :: "world \<Rightarrow> world \<Rightarrow> world" where
  "frozen w w' =
     w\<lparr>pollingInterval := pollingInterval w', retryCount := retryCount w',
       intervals := intervals w', timeouts := timeouts w', nextTimer := nextTimer w',
       sent := sent w'\<rparr>"

text \<open>The continuation of a handler after its \<^verbatim>\<open>await\<close> runs, mounted or not.\<close>

definition settle :: "(world \<Rightarrow> world) \<Rightarrow> world \<Rightarrow> world" where
  "settle handler w = (if mounted w then handler w else frozen w (handler w))"

section \<open>Submission in part_000\<close>

text \<open>Lines 247-262.\<close>

definition initialJob :: "env \<Rightarrow> formValues \<Rightarrow> videoJob" where
  "initialJob e vs =
     \<lparr>jid = JStr [], status = JStr ''pending'', error = Undefined, videoUrl = Undefined,
      progress = JNum 0, openAiStatus = JStr ''Sending request to OpenAI...'',
      openAiResponse = Undefined, result = Undefined,
      generationDetails =
        Some \<lparr>gd_prompt = fv_prompt vs, gd_duration = fv_duration vs,
              gd_resolution = fv_resolution vs, gd_createdAt = now_iso e\<rparr>,
      prompt = JStr (fv_prompt vs), duration = JNum (fv_duration vs),
      resolution = JStr (fv_resolution vs), createdAt = JStr (now_iso e)\<rparr>"

text \<open>\<^verbatim>\<open>handleSubmit\<close> up to its \<^verbatim>\<open>await\<close>: lines 242-272.\<close>

definition handleSubmit_call :: "env \<Rightarrow> formValues \<Rightarrow> world \<Rightarrow> world" where
  "handleSubmit_call e vs w =
     w\<lparr>isLoading := True, isGenerating := True, error_state := Null, statusEmoji := Arrows,
       job := Some (initialJob e vs),
       sent := sent w @ [PostGenerate (fv_prompt vs) (fv_resolution vs) (fv_duration vs)]\<rparr>"

text \<open>\<^verbatim>\<open>err.response?.data?.detail\<close>\<close>

definition detail_of :: "js_error \<Rightarrow> jsval" where
  "detail_of err = (case response err of None \<Rightarrow> Undefined | Some (code, body) \<Rightarrow> opt_prop body ''detail'')"

text \<open>\<^verbatim>\<open>err.response?.data?.detail || err.message || 'Failed to start video generation'\<close>\<close>

definition submit_errorMsg :: "js_error \<Rightarrow> jsval" where
  "submit_errorMsg err =
     js_or (detail_of err) (js_or (message err) (JStr ''Failed to start video generation''))"

text \<open>Line 289: the updater of \<^verbatim>\<open>setJob\<close> after a failed submission.\<close>

definition annotate_error :: "env \<Rightarrow> jsval \<Rightarrow> videoJob \<Rightarrow> videoJob" where
  "annotate_error e errorMsg prev = prev\<lparr>openAiStatus := JStr (''Error: '' @ toString e errorMsg)\<rparr>"

text \<open>Lines 283-290.\<close>

definition handleSubmit_catch :: "env \<Rightarrow> js_error \<Rightarrow> world \<Rightarrow> world" where
  "handleSubmit_catch e err w =
     (let errorMsg = submit_errorMsg err
      in w\<lparr>error_state := errorMsg, statusEmoji := CrossMark, isLoading := False,
           job := map_option (annotate_error e errorMsg) (job w)\<rparr>)"

definition noJobId :: js_error where
  "noJobId = \<lparr>message = JStr ''No job ID received in response'', response = None\<rparr>"

text \<open>
  \<^verbatim>\<open>handleSubmit\<close> from its \<^verbatim>\<open>await\<close> on: lines 274-290. \<open>e0\<close> is the environment
  when the handler was called (the closure holds the \<^verbatim>\<open>initialJob\<close> built then).
\<close>

definition handleSubmit_settled ::
    "env \<Rightarrow> env \<Rightarrow> formValues \<Rightarrow> jsval settled \<Rightarrow> world \<Rightarrow> world" where
  "handleSubmit_settled e0 e vs outcome w =
     (case outcome of
        Rejected err \<Rightarrow> handleSubmit_catch e err w
      | Fulfilled body \<Rightarrow>
          if truthy body \<and> truthy (opt_prop body ''id'') then
            startJobPolling e (opt_prop body ''id'')
              ((initialJob e0 vs)
                 \<lparr>openAiStatus := JStr ''Request received. Processing video generation...''\<rparr>)
              vs w
          else handleSubmit_catch e noJobId w)"

text \<open>
  \<^verbatim>\<open>form.onSubmit(handleSubmit)\<close>: the form library validates the values, records the
  errors, and calls the handler only when there is none.
\<close>

definition onSubmit :: "env \<Rightarrow> world \<Rightarrow> world" where
  "onSubmit e w =
     (let errs = validate (form w) in
      if errs = [] then handleSubmit_call e (form w) (w\<lparr>formErrors := []\<rparr>)
      else w\<lparr>formErrors := errs\<rparr>)"

section \<open>Events of part_000\<close>

text \<open>A recurring timer fires: its callback calls \<^verbatim>\<open>checkJobStatus\<close>. A cleared timer does not fire.\<close>

definition interval_fires :: "nat \<Rightarrow> world \<Rightarrow> world" where
  "interval_fires t w =
     (case find (\<lambda>x. tid x = t) (intervals w) of
        None \<Rightarrow> w
      | Some x \<Rightarrow> checkJobStatus_call (target x) w)"

definition timeout_fires :: "nat \<Rightarrow> world \<Rightarrow> world" where
  "timeout_fires t w =
     (case find (\<lambda>x. tid x = t) (timeouts w) of
        None \<Rightarrow> w
      | Some x \<Rightarrow> checkJobStatus_call (target x) (w\<lparr>timeouts := filter (\<lambda>y. tid y \<noteq> t) (timeouts w)\<rparr>))"

text \<open>
  What can happen to the component. A settled request is any response at any time: the
  runs below include every interleaving of the real ones. Once the component is
  unmounted the user can do nothing to it; timers that were not cleared still fire and
  requests still settle.
\<close>

datatype event =
    EditForm formValues
  | SubmitForm env
  | CreateSettled env env formValues "jsval settled"
  | IntervalFires nat
  | TimeoutFires nat
  | PollSettled env jsval "jsval settled"
  | Unmount

fun step :: "world \<Rightarrow> event \<Rightarrow> world" where
  "step w (EditForm vs) = (if mounted w then w\<lparr>form := vs\<rparr> else w)"
| "step w (SubmitForm e) = (if mounted w then onSubmit e w else w)"
| "step w (CreateSettled e0 e vs outcome) = settle (handleSubmit_settled e0 e vs outcome) w"
| "step w (IntervalFires t) = interval_fires t w"
| "step w (TimeoutFires t) = timeout_fires t w"
| "step w (PollSettled e jobId outcome) = settle (checkJobStatus_settled e jobId outcome) w"
| "step w Unmount = (if mounted w then unmount w else w)"

definition run :: "world \<Rightarrow> event list \<Rightarrow> world" where
  "run w evs = foldl step w evs"

section \<open>The App variant (src/App.tsx)\<close>

text \<open>\<^verbatim>\<open>supportedResolutions\<close> of the App variant: the values its select offers.\<close>

definition supportedResolutions_App :: "(string \<times> string) list" where
  "supportedResolutions_App =
     [(''480x480'', ''480x480 (1:1)''),
      (''480x854'', ''480x854 (9:16 Portrait)''),
      (''854x480'', ''854x480 (16:9)''),
      (''720x720'', ''720x720 (1:1)''),
      (''1080x1080'', ''1080x1080 (1:1 Square)''),
      (''1080x1920'', ''1080x1920 (9:16 Portrait)''),
      (''1920x1080'', ''1920x1080 (16:9)'')]"

text \<open>Lines 135-139: the video URL of the response, or one built from its video id.\<close>

definition videoUrl_App :: "env \<Rightarrow> pollFields \<Rightarrow> jsval" where
  "videoUrl_App e r =
     (if truthy (opt_prop (r_result r) ''video_url'') then opt_prop (r_result r) ''video_url''
      else if truthy (opt_prop (r_result r) ''video_id'') then
        JStr (origin e @ ''/api/v1/videos/'' @ toString e (opt_prop (r_result r) ''video_id'')
              @ ''?t='' @ numstr e (now_ms e))
      else Undefined)"

text \<open>Lines 141-157: the job the updater builds when there is none.\<close>

definition newJob_App :: "env \<Rightarrow> jsval \<Rightarrow> pollFields \<Rightarrow> videoJob" where
  "newJob_App e jobId r =
     \<lparr>jid = jobId, status = js_or (r_status r) (JStr ''pending''),
      error = r_error r, videoUrl = videoUrl_App e r,
      progress = js_or (r_progress r) (JNum 0),
      openAiStatus = r_openai_status r, openAiResponse = r_openai_response r,
      result = Undefined,
      generationDetails =
        Some \<lparr>gd_prompt = [], gd_duration = 0, gd_resolution = [], gd_createdAt = now_iso e\<rparr>,
      prompt = Undefined, duration = Undefined, resolution = Undefined, createdAt = Undefined\<rparr>"

text \<open>Lines 159-167: the updater on an existing job.\<close>

definition mergeJob_App :: "env \<Rightarrow> pollFields \<Rightarrow> videoJob \<Rightarrow> videoJob" where
  "mergeJob_App e r prev =
     prev\<lparr>status := js_or (r_status r) (status prev),
          progress := (if r_progress r \<noteq> Undefined then r_progress r else progress prev),
          error := js_or (r_error r) (error prev),
          openAiStatus := js_or (r_openai_status r) (openAiStatus prev),
          openAiResponse := js_or (r_openai_response r) (openAiResponse prev),
          videoUrl := js_or (videoUrl_App e r) (videoUrl prev)\<rparr>"

definition setJob_App :: "env \<Rightarrow> jsval \<Rightarrow> pollFields \<Rightarrow> videoJob option \<Rightarrow> videoJob option" where
  "setJob_App e jobId r prev =
     (case prev of None \<Rightarrow> Some (newJob_App e jobId r) | Some p \<Rightarrow> Some (mergeJob_App e r p))"

text \<open>\<^verbatim>\<open>poll\<close> up to its \<^verbatim>\<open>await\<close>: the status request is sent.\<close>

definition poll_call :: "jsval \<Rightarrow> world \<Rightarrow> world" where
  "poll_call jobId w = w\<lparr>sent := sent w @ [GetJob jobId]\<rparr>"

text \<open>
  Lines 197-210: the \<^verbatim>\<open>catch\<close> block of \<^verbatim>\<open>poll\<close>. It clears the timer on every error,
  a 404 included.
\<close>

definition poll_errorMsg :: "js_error \<Rightarrow> jsval" where
  "poll_errorMsg err =
     (let errorMessage = js_or (message err) (JStr ''Unknown error'')
      in js_or (detail_of err) (js_or errorMessage (JStr ''Failed to check job status'')))"

definition poll_catch :: "env \<Rightarrow> js_error \<Rightarrow> world \<Rightarrow> world" where
  "poll_catch e err w =
     (let errorMsg = poll_errorMsg err;
          w1 = w\<lparr>error_state := JStr (''Error: '' @ toString e errorMsg),
                 statusEmoji := CrossMark,
                 openAiStatus_state := JStr ''Failed to check job status''\<rparr>
      in (clear_if_truthy w1)\<lparr>isLoading := False\<rparr>)"

text \<open>Lines 125-168: the provider's status is shown and the response merged into the job.\<close>

definition merged_App :: "env \<Rightarrow> jsval \<Rightarrow> jsval \<Rightarrow> world \<Rightarrow> world" where
  "merged_App e jobId responseData w =
     (let r = destructure responseData;
          w1 = (if truthy (r_openai_status r)
                then w\<lparr>openAiStatus_state :=
                         JStr (''OpenAI Status: '' @ toString e (r_openai_status r))\<rparr>
                else w)
      in w1\<lparr>job := setJob_App e jobId r (job w1)\<rparr>)"

text \<open>Lines 123-196: the \<^verbatim>\<open>try\<close> block once the body is parsed.\<close>

definition poll_try :: "env \<Rightarrow> jsval \<Rightarrow> jsval \<Rightarrow> world \<Rightarrow> world" where
  "poll_try e jobId responseData w =
     (let r = destructure responseData;
          w2 = merged_App e jobId responseData w
      in if r_status r = JStr ''completed'' then
           (clear_if_not_null w2)
             \<lparr>isLoading := False, statusEmoji := CheckMark,
              openAiStatus_state := JStr ''Video generation completed successfully!'',
              showDownloadModal := True\<rparr>
         else if r_status r = JStr ''failed'' then
           (let errorMsg = js_or (r_error r) (JStr ''Video generation failed'') in
            (clear_if_not_null w2)
              \<lparr>isLoading := False, statusEmoji := CrossMark, error_state := errorMsg,
               openAiStatus_state := JStr (''Error: '' @ toString e errorMsg)\<rparr>)
         else
           w2\<lparr>statusEmoji := Gear,
              openAiStatus_state :=
                js_or (r_openai_status r)
                  (JStr (''Processing'' @
                     (if truthy (r_progress r)
                      then '' - '' @ toString e (r_progress r) @ ''%'' else ''...'')))\<rparr>)"

definition invalidFormat :: js_error where
  "invalidFormat = \<lparr>message = JStr ''Invalid response format from server'', response = None\<rparr>"

text \<open>
  \<^verbatim>\<open>poll\<close> from its \<^verbatim>\<open>await\<close> on. The body of a fulfilled request is what
  \<^verbatim>\<open>JSON.parse\<close> made of it, \<open>None\<close> when it threw.
\<close>

definition poll_settled :: "env \<Rightarrow> jsval \<Rightarrow> jsval option settled \<Rightarrow> world \<Rightarrow> world" where
  "poll_settled e jobId outcome w =
     (case outcome of
        Rejected err \<Rightarrow> poll_catch e err w
      | Fulfilled None \<Rightarrow> poll_catch e invalidFormat w
      | Fulfilled (Some responseData) \<Rightarrow>
          if responseData = Undefined \<or> responseData = Null
          then poll_catch e (typeError e responseData) w
          else poll_try e jobId responseData w)"

text \<open>Lines 99-217: clear the old timer, poll once at once, then every 2 seconds.\<close>

definition startJobPolling_App :: "jsval \<Rightarrow> world \<Rightarrow> world" where
  "startJobPolling_App jobId w =
     (let w1 = clear_if_not_null w;
          w2 = poll_call jobId w1;
          (t, w3) = setInterval jobId 2000 w2
      in w3\<lparr>pollingInterval := Some t\<rparr>)"

text \<open>
  The component unmounts: the cleanup of the effect runs (lines 219-226), and the
  component is mounted no more.
\<close>

definition unmount_App :: "world \<Rightarrow> world" where
  "unmount_App w = (clear_if_not_null w)\<lparr>mounted := False\<rparr>"

text \<open>\<^verbatim>\<open>handleGenerate\<close> up to its \<^verbatim>\<open>await\<close>: lines 230-242.\<close>

definition handleGenerate_call :: "formValues \<Rightarrow> world \<Rightarrow> world" where
  "handleGenerate_call vs w =
     w\<lparr>isLoading := True, error_state := Null, statusEmoji := Arrows,
       openAiStatus_state := JStr ''Sending request to OpenAI...'',
       sent := sent w @ [PostGenerate (fv_prompt vs) (fv_resolution vs) (fv_duration vs)]\<rparr>"

text \<open>Lines 264-270.\<close>

definition handleGenerate_catch :: "env \<Rightarrow> js_error \<Rightarrow> world \<Rightarrow> world" where
  "handleGenerate_catch e err w =
     (let errorMsg = submit_errorMsg err
      in w\<lparr>error_state := JStr (''Error: '' @ toString e errorMsg), isLoading := False,
           statusEmoji := CrossMark\<rparr>)"

text \<open>Lines 248-258: the job \<^verbatim>\<open>handleGenerate\<close> sets once the create response has an id.\<close>

definition createdJob_App :: "env \<Rightarrow> jsval \<Rightarrow> formValues \<Rightarrow> videoJob" where
  "createdJob_App e jobId vs =
     \<lparr>jid = jobId, status = JStr ''pending'', error = Undefined, videoUrl = Undefined,
      progress = JNum 0, openAiStatus = Undefined, openAiResponse = Undefined,
      result = Undefined,
      generationDetails =
        Some \<lparr>gd_prompt = fv_prompt vs, gd_duration = fv_duration vs,
              gd_resolution = fv_resolution vs, gd_createdAt = now_iso e\<rparr>,
      prompt = Undefined, duration = Undefined, resolution = Undefined, createdAt = Undefined\<rparr>"

text \<open>\<^verbatim>\<open>handleGenerate\<close> from its \<^verbatim>\<open>await\<close> on: lines 244-270.\<close>

definition handleGenerate_settled ::
    "env \<Rightarrow> formValues \<Rightarrow> jsval settled \<Rightarrow> world \<Rightarrow> world" where
  "handleGenerate_settled e vs outcome w =
     (case outcome of
        Rejected err \<Rightarrow> handleGenerate_catch e err w
      | Fulfilled body \<Rightarrow>
          if truthy body \<and> truthy (opt_prop body ''id'') then
            startJobPolling_App (opt_prop body ''id'')
              (w\<lparr>job := Some (createdJob_App e (opt_prop body ''id'') vs),
                 openAiStatus_state := JStr ''Request received. Processing video generation...''\<rparr>)
          else handleGenerate_catch e noJobId w)"

definition onSubmit_App :: "world \<Rightarrow> world" where
  "onSubmit_App w =
     (let errs = validate_App (form w) in
      if errs = [] then handleGenerate_call (form w) (w\<lparr>formErrors := []\<rparr>)
      else w\<lparr>formErrors := errs\<rparr>)"

text \<open>The select of the App variant sets the resolution to one of the values it offers.\<close>

datatype event_App =
    EditPrompt string
  | EditDuration rat
  | SelectResolution string
  | SubmitForm_App
  | CreateSettled_App env formValues "jsval settled"
  | IntervalFires_App nat
  | PollSettled_App env jsval "jsval option settled"
  | Unmount_App

definition interval_fires_App :: "nat \<Rightarrow> world \<Rightarrow> world" where
  "interval_fires_App t w =
     (case find (\<lambda>x. tid x = t) (intervals w) of
        None \<Rightarrow> w
      | Some x \<Rightarrow> poll_call (target x) w)"

fun step_App :: "world \<Rightarrow> event_App \<Rightarrow> world" where
  "step_App w (EditPrompt p) =
     (if mounted w then w\<lparr>form := (form w)\<lparr>fv_prompt := p\<rparr>\<rparr> else w)"
| "step_App w (EditDuration d) =
     (if mounted w then w\<lparr>form := (form w)\<lparr>fv_duration := d\<rparr>\<rparr> else w)"
| "step_App w (SelectResolution v) =
     (if mounted w \<and> v \<in> set (map fst supportedResolutions_App)
      then w\<lparr>form := (form w)\<lparr>fv_resolution := v\<rparr>\<rparr> else w)"
| "step_App w SubmitForm_App = (if mounted w then onSubmit_App w else w)"
| "step_App w (CreateSettled_App e vs outcome) = settle (handleGenerate_settled e vs outcome) w"
| "step_App w (IntervalFires_App t) = interval_fires_App t w"
| "step_App w (PollSettled_App e jobId outcome) = settle (poll_settled e jobId outcome) w"
| "step_App w Unmount_App = (if mounted w then unmount_App w else w)"

definition run_App :: "world \<Rightarrow> event_App list \<Rightarrow> world" where
  "run_App w evs = foldl step_App w evs"

section \<open>Vocabulary of the properties\<close>

text \<open>
  The handle \<^verbatim>\<open>pollingInterval.current\<close> tracks the recurring timers: no handle and no
  active timer, or a handle and exactly the timer it names.
\<close>

fun tracks :: "nat option \<Rightarrow> timer list \<Rightarrow> bool" where
  "tracks None ts = (ts = [])"
| "tracks (Some t) ts = (t \<noteq> 0 \<and> map tid ts = [t])"

definition tracked :: "world \<Rightarrow> bool" where
  "tracked w = tracks (pollingInterval w) (intervals w)"

text \<open>The job ids of the status requests among the requests sent.\<close>

fun polls :: "request list \<Rightarrow> jsval list" where
  "polls [] = []"
| "polls (GetJob j # rs) = j # polls rs"
| "polls (PostGenerate p r d # rs) = polls rs"

text \<open>The events that start a poll loop: a create response that carries a job id.\<close>

fun starts_loop :: "event \<Rightarrow> bool" where
  "starts_loop (CreateSettled e0 e vs (Fulfilled body)) =
     (truthy body \<and> truthy (opt_prop body ''id''))"
| "starts_loop ev = False"

fun starts_loop_App :: "event_App \<Rightarrow> bool" where
  "starts_loop_App (CreateSettled_App e vs (Fulfilled body)) =
     (truthy body \<and> truthy (opt_prop body ''id''))"
| "starts_loop_App ev = False"

text \<open>The browser's recurring timers without the one the handle names.\<close>

definition without_handle :: "world \<Rightarrow> timer list" where
  "without_handle w =
     (case pollingInterval w of
        None \<Rightarrow> intervals w
      | Some t \<Rightarrow> filter (\<lambda>x. tid x \<noteq> t) (intervals w))"

text \<open>No recurring timer is active and the handle is null.\<close>

definition idle :: "world \<Rightarrow> bool" where
  "idle w = (intervals w = [] \<and> pollingInterval w = None)"

text \<open>A failed submission: the create request was rejected, or its response has no id.\<close>

fun create_failure :: "jsval settled \<Rightarrow> js_error option" where
  "create_failure (Rejected err) = Some err"
| "create_failure (Fulfilled body) =
     (if truthy body \<and> truthy (opt_prop body ''id'') then None else Some noJobId)"

text \<open>Every active recurring timer has the 5-second cadence.\<close>

definition slow :: "world \<Rightarrow> bool" where
  "slow w = list_all (\<lambda>x. delay x = 5000) (intervals w)"

section \<open>Example inputs\<close>

function show_nat :: "nat \<Rightarrow> string" where
  "show_nat n =
     (if n < 10 then [char_of (48 + n)] else show_nat (n div 10) @ [char_of (48 + n mod 10)])"
  by pat_completeness auto
termination
  by (relation "measure id") auto

text \<open>
  An environment for the examples; it prints the integers, and the examples print no
  other number. The TypeError message is that of V8.
\<close>

definition env0 :: env where
  "env0 =
     \<lparr>now_iso = ''2025-01-01T00:00:00.000Z'', now_ms = 1735689600000,
      origin = ''http://localhost:5173'',
      numstr = (\<lambda>n. if n < 0 then CHR ''-'' # show_nat (nat \<lfloor>- n\<rfloor>) else show_nat (nat \<lfloor>n\<rfloor>)),
      typeError_message =
        (\<lambda>v. ''Cannot destructure property '' @ [CHR 0x27] @ ''status'' @ [CHR 0x27] @ '' of ''
               @ [CHR 0x27] @ ''responseData'' @ [CHR 0x27] @ '' as it is ''
               @ (if v = Null then ''null'' else ''undefined'') @ ''.'')\<rparr>"

definition example_values :: formValues where
  "example_values =
     \<lparr>fv_prompt = ''cat on a skateboard'', fv_duration = 5, fv_resolution = ''854x480''\<rparr>"

definition created :: "jsval settled" where
  "created = Fulfilled (JObj [(''id'', JStr ''job-1'')])"

text \<open>part_000 after the form was filled in and submitted and the create response arrived.\<close>

definition polling_world :: world where
  "polling_world =
     run initial_world
       [EditForm example_values, SubmitForm env0, CreateSettled env0 env0 example_values created]"

text \<open>The same for the App variant.\<close>

definition polling_world_App :: world where
  "polling_world_App =
     run_App initial_world
       [EditPrompt ''cat on a skateboard'', SubmitForm_App,
        CreateSettled_App env0 example_values created]"

definition not_found :: js_error where
  "not_found = \<lparr>message = JStr ''Request failed with status code 404'', response = Some (404, JObj [(''detail'', JStr ''Job not found'')])\<rparr>"

definition server_error :: js_error where
  "server_error = \<lparr>message = JStr ''Request failed with status code 500'', response = Some (500, JStr ''Internal Server Error'')\<rparr>"

definition network_error :: js_error where
  "network_error = \<lparr>message = JStr ''Network Error'', response = None\<rparr>"

text \<open>part_000 after four status polls in a row were answered with 404.\<close>

definition four_not_found :: world where
  "four_not_found =
     run polling_world (replicate 4 (PollSettled env0 (JStr ''job-1'') (Rejected not_found)))"

text \<open>The form filled in with a duration of 10 seconds, nothing submitted yet.\<close>

definition ten_seconds :: world where
  "ten_seconds = step initial_world (EditForm (example_values\<lparr>fv_duration := 10\<rparr>))"

definition completed_response :: jsval where
  "completed_response =
     JObj [(''status'', JStr ''completed''),
           (''result'', JObj [(''video_url'', JStr ''https://x/y.mp4'')])]"

definition failed_response :: jsval where
  "failed_response = JObj [(''status'', JStr ''failed'')]"

definition stale_response :: jsval where
  "stale_response = JObj [(''status'', JStr ''processing''), (''progress'', JNum 10)]"

text \<open>Both variants after the form was submitted and the create request failed.\<close>

definition create_failed :: world where
  "create_failed =
     run initial_world
       [EditForm example_values, SubmitForm env0,
        CreateSettled env0 env0 example_values (Rejected network_error)]"

definition create_failed_App :: world where
  "create_failed_App =
     run_App initial_world
       [EditPrompt ''cat on a skateboard'', SubmitForm_App,
        CreateSettled_App env0 example_values (Rejected network_error)]"

text \<open>
  The App variant asks for the raw body, so the body of its errors is a string. Its state
  after the first status poll was answered with 404.
\<close>

definition not_found_raw :: js_error where
  "not_found_raw = \<lparr>message = JStr ''Request failed with status code 404'', response = Some (404, JStr ''Job not found'')\<rparr>"

definition first_not_found_App :: world where
  "first_not_found_App =
     run_App polling_world_App [PollSettled_App env0 (JStr ''job-1'') (Rejected not_found_raw)]"

text \<open>A timer tick of part_000 whose status request is answered with 404.\<close>

definition not_found_round :: "jsval \<Rightarrow> event list" where
  "not_found_round jobId = [IntervalFires 1, PollSettled env0 jobId (Rejected not_found)]"

text \<open>
  part_000 polling a job that the server named "constructor", after five ticks in a row
  were answered with 404.
\<close>

definition not_found_constructor :: world where
  "not_found_constructor =
     run initial_world
       ([EditForm example_values, SubmitForm env0,
         CreateSettled env0 env0 example_values (Fulfilled (JObj [(''id'', JStr ''constructor'')]))]
        @ concat (replicate 5 (not_found_round (JStr ''constructor''))))"

text \<open>part_000 after a tick was answered with a status 500.\<close>

definition after_server_error :: world where
  "after_server_error =
     run polling_world [IntervalFires 1, PollSettled env0 (JStr ''job-1'') (Rejected server_error)]"

text \<open>The same after five more ticks in a row were answered with 404.\<close>

definition not_found_after_error :: world where
  "not_found_after_error =
     run after_server_error (concat (replicate 5 (not_found_round (JStr ''job-1''))))"

text \<open>
  part_000: a tick is answered with 404, which schedules the retry 2; the next tick is
  answered with the completed job.
\<close>

definition completed_before_retry :: world where
  "completed_before_retry =
     run polling_world
       [IntervalFires 1, PollSettled env0 (JStr ''job-1'') (Rejected not_found),
        IntervalFires 1, PollSettled env0 (JStr ''job-1'') (Fulfilled completed_response)]"

text \<open>The same with the failed job.\<close>

definition failed_before_retry :: world where
  "failed_before_retry =
     run polling_world
       [IntervalFires 1, PollSettled env0 (JStr ''job-1'') (Rejected not_found),
        IntervalFires 1, PollSettled env0 (JStr ''job-1'') (Fulfilled failed_response)]"

text \<open>part_000: a tick is answered with a status 500, the next tick with the completed job.\<close>

definition completed_after_error :: world where
  "completed_after_error =
     run after_server_error
       [IntervalFires 1, PollSettled env0 (JStr ''job-1'') (Fulfilled completed_response)]"

text \<open>The App variant: a tick is answered with the completed job.\<close>

definition completed_tick_App :: world where
  "completed_tick_App =
     run_App polling_world_App
       [IntervalFires_App 1,
        PollSettled_App env0 (JStr ''job-1'') (Fulfilled (Some completed_response))]"

text \<open>
  part_000: the form is submitted again while the job is polled, and the create response
  names the same job.
\<close>

definition submitted_twice :: world where
  "submitted_twice =
     run polling_world [SubmitForm env0, CreateSettled env0 env0 example_values created]"

text \<open>The same after a tick was answered with a status 500.\<close>

definition resubmitted_after_error :: world where
  "resubmitted_after_error =
     run after_server_error [SubmitForm env0, CreateSettled env0 env0 example_values created]"

text \<open>The App variant at the same input.\<close>

definition resubmitted_after_error_App :: world where
  "resubmitted_after_error_App =
     run_App polling_world_App
       [IntervalFires_App 1, PollSettled_App env0 (JStr ''job-1'') (Rejected server_error),
        SubmitForm_App, CreateSettled_App env0 example_values created]"

text \<open>
  part_000: two ticks send two status requests; the second is answered first, with the
  completed job, and the timer is cleared. The answer to the first is still to come.
\<close>

definition completed_first :: world where
  "completed_first =
     run polling_world
       [IntervalFires 1, IntervalFires 1,
        PollSettled env0 (JStr ''job-1'') (Fulfilled completed_response)]"

text \<open>Then the form is submitted again and the create response names the job "job-2".\<close>

definition submitted_next :: world where
  "submitted_next =
     run completed_first
       [SubmitForm env0,
        CreateSettled env0 env0 example_values (Fulfilled (JObj [(''id'', JStr ''job-2'')]))]"

text \<open>The same two states of the App variant.\<close>

definition completed_first_App :: world where
  "completed_first_App =
     run_App polling_world_App
       [IntervalFires_App 1, IntervalFires_App 1,
        PollSettled_App env0 (JStr ''job-1'') (Fulfilled (Some completed_response))]"

definition submitted_next_App :: world where
  "submitted_next_App =
     run_App completed_first_App
       [SubmitForm_App,
        CreateSettled_App env0 example_values (Fulfilled (JObj [(''id'', JStr ''job-2'')]))]"

text \<open>
  part_000: four ticks in a row were answered with 404; the fifth tick sends its
  request, and the component unmounts before the answer arrives.
\<close>

definition unmounted_polling :: world where
  "unmounted_polling =
     run polling_world
       (concat (replicate 4 (not_found_round (JStr ''job-1''))) @ [IntervalFires 1, Unmount])"

section \<open>Facts about the string functions\<close>

lemma tokens_dropWhile_ws: "tokens (dropWhile isWhiteSpace s) = tokens s"
  by (induction s) auto

lemma tokens_unfold:
  "tokens s = (if takeWhile (\<lambda>x. \<not> isWhiteSpace x) s = [] then []
               else [takeWhile (\<lambda>x. \<not> isWhiteSpace x) s])
              @ tokens (dropWhile (\<lambda>x. \<not> isWhiteSpace x) s)"
  by (cases s) auto

lemma split_ws_nonempty: "split_ws s \<noteq> []"
  by (cases s) (auto split: list.splits)

text \<open>
  The first piece of a split is the leading run of other characters; the non-empty
  pieces after it are the tokens of the rest.
\<close>

lemma split_ws_hd_tl:
  "hd (split_ws s) = takeWhile (\<lambda>x. \<not> isWhiteSpace x) s \<and>
   filter (\<lambda>w. w \<noteq> []) (tl (split_ws s)) = tokens (dropWhile (\<lambda>x. \<not> isWhiteSpace x) s)"
proof (induction s rule: split_ws.induct)
  case 1
  show ?case by simp
next
  case (2 c cs)
  show ?case
  proof (cases "isWhiteSpace c")
    case True
    let ?r = "dropWhile isWhiteSpace cs"
    from True 2 have ih: "hd (split_ws ?r) = takeWhile (\<lambda>x. \<not> isWhiteSpace x) ?r"
      "filter (\<lambda>w. w \<noteq> []) (tl (split_ws ?r)) = tokens (dropWhile (\<lambda>x. \<not> isWhiteSpace x) ?r)"
      by auto
    have "split_ws ?r = hd (split_ws ?r) # tl (split_ws ?r)"
      using split_ws_nonempty by simp
    then have "filter (\<lambda>w. w \<noteq> []) (split_ws ?r) =
        filter (\<lambda>w. w \<noteq> []) (hd (split_ws ?r) # tl (split_ws ?r))" by simp
    also have "\<dots> = tokens ?r"
      using ih tokens_unfold [of ?r] by simp
    finally have "filter (\<lambda>w. w \<noteq> []) (split_ws ?r) = tokens cs"
      by (simp add: tokens_dropWhile_ws)
    with True show ?thesis by simp
  next
    case False
    with 2 have ih: "hd (split_ws cs) = takeWhile (\<lambda>x. \<not> isWhiteSpace x) cs"
      "filter (\<lambda>w. w \<noteq> []) (tl (split_ws cs)) = tokens (dropWhile (\<lambda>x. \<not> isWhiteSpace x) cs)"
      by auto
    obtain w ws where sp: "split_ws cs = w # ws"
      using split_ws_nonempty [of cs] by (cases "split_ws cs") auto
    with False ih show ?thesis by simp
  qed
qed

lemma filter_split_ws: "filter (\<lambda>w. w \<noteq> []) (split_ws s) = tokens s"
proof -
  have "split_ws s = hd (split_ws s) # tl (split_ws s)"
    using split_ws_nonempty by simp
  then have "filter (\<lambda>w. w \<noteq> []) (split_ws s) =
      filter (\<lambda>w. w \<noteq> []) (hd (split_ws s) # tl (split_ws s))" by simp
  also have "\<dots> = tokens s"
    using split_ws_hd_tl [of s] tokens_unfold [of s] by simp
  finally show ?thesis .
qed

lemma takeWhile_append_ws:
  "list_all isWhiteSpace t \<Longrightarrow>
   takeWhile (\<lambda>x. \<not> isWhiteSpace x) (cs @ t) = takeWhile (\<lambda>x. \<not> isWhiteSpace x) cs"
  by (induction cs) (cases t, auto)

lemma dropWhile_append_ws:
  "list_all isWhiteSpace t \<Longrightarrow>
   dropWhile (\<lambda>x. \<not> isWhiteSpace x) (cs @ t) = dropWhile (\<lambda>x. \<not> isWhiteSpace x) cs @ t"
  by (induction cs) (cases t, auto)

lemma tokens_append_ws:
  "list_all isWhiteSpace t \<Longrightarrow> tokens (s @ t) = tokens s"
proof (induction s rule: tokens.induct)
  case 1
  then show ?case by (induction t) auto
next
  case (2 c cs)
  show ?case
  proof (cases "isWhiteSpace c")
    case True
    with 2 show ?thesis by simp
  next
    case False
    from False 2 show ?thesis
      by (simp add: takeWhile_append_ws dropWhile_append_ws)
  qed
qed

lemma tokens_trim: "tokens (trim s) = tokens s"
proof -
  let ?d = "dropWhile isWhiteSpace s"
  have "rev ?d = takeWhile isWhiteSpace (rev ?d) @ dropWhile isWhiteSpace (rev ?d)"
    by simp
  then have "?d = rev (dropWhile isWhiteSpace (rev ?d)) @ rev (takeWhile isWhiteSpace (rev ?d))"
    by (metis rev_append rev_rev_ident)
  moreover have "list_all isWhiteSpace (rev (takeWhile isWhiteSpace (rev ?d)))"
    by (simp add: list_all_iff) (meson set_takeWhileD)
  ultimately have "tokens ?d = tokens (rev (dropWhile isWhiteSpace (rev ?d)))"
    using tokens_append_ws by metis
  then show ?thesis by (simp add: trim_def tokens_dropWhile_ws)
qed

lemma toLowerCase_char_not_upper:
  "\<not> (65 \<le> (of_char (toLowerCase_char c) :: nat) \<and> (of_char (toLowerCase_char c) :: nat) \<le> 90)"
  by (auto simp: toLowerCase_char_def Let_def of_char_of)

lemma in_class_i_lower: "in_class_i (toLowerCase_char c) = in_class (toLowerCase_char c)"
  using toLowerCase_char_not_upper [of c] by (auto simp: in_class_i_def in_class_def Let_def)

lemma toLowerCase_underscore: "toLowerCase ''_'' = ''_''"
  by (simp add: toLowerCase_def toLowerCase_char_def)

lemma map_join_with:
  "map f (join_with sep ws) = join_with (map f sep) (map (map f) ws)"
  by (induction sep ws rule: join_with.induct) simp_all

lemma toLowerCase_join:
  "toLowerCase (join_with ''_'' ws) = join_with ''_'' (map toLowerCase ws)"
proof -
  have "toLowerCase (join_with ''_'' ws) = join_with (toLowerCase ''_'') (map toLowerCase ws)"
    unfolding toLowerCase_def by (rule map_join_with)
  then show ?thesis by (simp only: toLowerCase_underscore)
qed

lemma replace_unsafe_lower:
  "replace_unsafe (toLowerCase s) = map (\<lambda>c. if in_class c then c else CHR ''_'') (toLowerCase s)"
  by (simp add: replace_unsafe_def toLowerCase_def in_class_i_lower)

lemma replace_unsafe_video: "replace_unsafe ''video'' = ''video''"
  by (simp add: replace_unsafe_def in_class_i_def)

lemma getVideoFilename_eq: "getVideoFilename p = deriveFilename_replacing p"
  by (simp add: getVideoFilename_def deriveFilename_replacing_def Let_def filter_split_ws
      tokens_trim toLowerCase_join [symmetric] replace_unsafe_lower replace_unsafe_video)

lemma getVideoFilename_sunset: "getVideoFilename ''A beautiful sunset'' = ''a_beautiful.mp4''"
  by code_simp

lemma getVideoFilename_empty: "getVideoFilename [] = ''video.mp4''"
  by code_simp

lemma getVideoFilename_hello: "getVideoFilename ''Hello, World!!'' = ''hello__world__.mp4''"
  by code_simp

lemma deriveFilename_hello: "deriveFilename ''Hello, World!!'' = ''hello_world.mp4''"
  by code_simp

section \<open>Facts about the handlers\<close>

lemma polls_append: "polls (xs @ ys) = polls xs @ polls ys"
  by (induction xs rule: polls.induct) simp_all

lemma tracks_length: "tracks h ts \<Longrightarrow> length ts \<le> 1"
proof (cases h)
  case None
  assume "tracks h ts"
  with None show ?thesis by simp
next
  case (Some t)
  assume "tracks h ts"
  with Some have "length (map tid ts) = length [t]" by simp
  then show ?thesis by simp
qed

lemma tracked_initial: "tracked initial_world"
  by (simp add: tracked_def initial_world_def)

lemma mounted_initial: "mounted initial_world"
  by (simp add: initial_world_def)

subsection \<open>Clearing the timer\<close>

lemma job_clear_if_truthy: "job (clear_if_truthy w) = job w"
  by (simp add: clear_if_truthy_def clearInterval_def split: option.splits)

lemma job_clear_if_not_null: "job (clear_if_not_null w) = job w"
  by (simp add: clear_if_not_null_def clearInterval_def split: option.splits)

lemma sent_clear_if_truthy: "sent (clear_if_truthy w) = sent w"
  by (simp add: clear_if_truthy_def clearInterval_def split: option.splits)

lemma sent_clear_if_not_null: "sent (clear_if_not_null w) = sent w"
  by (simp add: clear_if_not_null_def clearInterval_def split: option.splits)

lemma tracked_clear_not_null: "tracked w \<Longrightarrow> tracked (clear_if_not_null w)"
  by (auto simp: tracked_def clear_if_not_null_def clearInterval_def split: option.splits)

lemma tracked_clear_truthy: "tracked w \<Longrightarrow> tracked (clear_if_truthy w)"
  by (auto simp: tracked_def clear_if_truthy_def clearInterval_def split: option.splits)

lemma cleared_not_null:
  "tracked w \<Longrightarrow> intervals (clear_if_not_null w) = [] \<and> pollingInterval (clear_if_not_null w) = None"
  by (auto simp: tracked_def clear_if_not_null_def clearInterval_def split: option.splits)

lemma cleared_truthy:
  "tracked w \<Longrightarrow> intervals (clear_if_truthy w) = [] \<and> pollingInterval (clear_if_truthy w) = None"
  by (auto simp: tracked_def clear_if_truthy_def clearInterval_def split: option.splits)

lemma no_timer_clear_if_truthy:
  "intervals w = [] \<Longrightarrow> intervals (clear_if_truthy w) = []"
  by (simp add: clear_if_truthy_def clearInterval_def split: option.splits)

lemma no_timer_clear_if_not_null:
  "intervals w = [] \<Longrightarrow> intervals (clear_if_not_null w) = []"
  by (simp add: clear_if_not_null_def clearInterval_def split: option.splits)

lemma slow_clear_if_truthy: "slow w \<Longrightarrow> slow (clear_if_truthy w)"
  by (auto simp add: slow_def clear_if_truthy_def clearInterval_def list_all_iff split: option.splits)

subsection \<open>The counter of not-found responses\<close>

lemma retry_write_frame:
  "intervals (retry_write k c w) = intervals w"
  "timeouts (retry_write k c w) = timeouts w"
  "pollingInterval (retry_write k c w) = pollingInterval w"
  "nextTimer (retry_write k c w) = nextTimer w"
  "sent (retry_write k c w) = sent w"
  "job (retry_write k c w) = job w"
  "error_state (retry_write k c w) = error_state w"
  "form (retry_write k c w) = form w"
  "mounted (retry_write k c w) = mounted w"
  by (simp_all add: retry_write_def)

lemma retry_write_own:
  "k \<noteq> ''__proto__'' \<Longrightarrow> retryCount (retry_write k c w) k = Some c"
  by (simp add: retry_write_def)

lemma not_member_not_proto: "k \<notin> set prototype_members \<Longrightarrow> k \<noteq> ''__proto__''"
  by (auto simp: prototype_members_def)

lemma retry_read_own: "k \<notin> set prototype_members \<Longrightarrow> retry_read w k = retryCount w k"
  by (simp add: retry_read_def split: option.splits)

lemma next_retry_first:
  "k \<notin> set prototype_members \<Longrightarrow> retryCount w k = None \<Longrightarrow> next_retry w k = Count 1"
  by (simp add: next_retry_def retry_read_own)

lemma next_retry_count: "retryCount w k = Some (Count n) \<Longrightarrow> next_retry w k = Count (n + 1)"
  by (simp add: next_retry_def retry_read_def)

lemma used_up_after_write:
  "k \<noteq> ''__proto__'' \<Longrightarrow>
   retries_used_up (retry_write k (Count n) w) k = (5 \<le> n)"
  by (simp add: retries_used_up_def retry_read_def retry_write_def MAX_RETRIES_def)

subsection \<open>State updates of an unmounted component\<close>

lemma frozen_frame:
  "intervals (frozen w w') = intervals w'"
  "timeouts (frozen w w') = timeouts w'"
  "pollingInterval (frozen w w') = pollingInterval w'"
  "nextTimer (frozen w w') = nextTimer w'"
  "sent (frozen w w') = sent w'"
  "retryCount (frozen w w') = retryCount w'"
  "job (frozen w w') = job w"
  "error_state (frozen w w') = error_state w"
  "form (frozen w w') = form w"
  "mounted (frozen w w') = mounted w"
  by (simp_all add: frozen_def)

lemma settle_mounted: "mounted w \<Longrightarrow> settle handler w = handler w"
  by (simp add: settle_def)

lemma settle_unmounted: "\<not> mounted w \<Longrightarrow> settle handler w = frozen w (handler w)"
  by (simp add: settle_def)

lemma settle_frame:
  "intervals (settle handler w) = intervals (handler w)"
  "timeouts (settle handler w) = timeouts (handler w)"
  "pollingInterval (settle handler w) = pollingInterval (handler w)"
  "nextTimer (settle handler w) = nextTimer (handler w)"
  "sent (settle handler w) = sent (handler w)"
  "retryCount (settle handler w) = retryCount (handler w)"
  by (simp_all add: settle_def frozen_def)

lemma tracked_settle: "tracked (settle handler w) = tracked (handler w)"
  by (simp add: tracked_def settle_frame)

lemma slow_settle: "slow (settle handler w) = slow (handler w)"
  by (simp add: slow_def settle_frame)

subsection \<open>The merge\<close>

lemma merge_fields:
  "status (mergeJob r prev) = (if truthy (r_status r) then r_status r else status prev)"
  "progress (mergeJob r prev) = (if r_progress r \<noteq> Undefined then r_progress r else progress prev)"
  "error (mergeJob r prev) = (if truthy (r_error r) then r_error r else error prev)"
  "openAiStatus (mergeJob r prev) =
     (if truthy (r_openai_status r) then r_openai_status r else openAiStatus prev)"
  "openAiResponse (mergeJob r prev) =
     (if truthy (r_openai_response r) then r_openai_response r else openAiResponse prev)"
  "result (mergeJob r prev) = (if truthy (r_result r) then r_result r else result prev)"
  "videoUrl (mergeJob r prev) =
     (if truthy (opt_prop (r_result r) ''video_url'') then opt_prop (r_result r) ''video_url''
      else videoUrl prev)"
  "jid (mergeJob r prev) = jid prev"
  "generationDetails (mergeJob r prev) = generationDetails prev"
  "prompt (mergeJob r prev) = prompt prev"
  "duration (mergeJob r prev) = duration prev"
  "resolution (mergeJob r prev) = resolution prev"
  "createdAt (mergeJob r prev) = createdAt prev"
  by (simp_all add: mergeJob_def js_or_def)

lemma merge_App_fields:
  "status (mergeJob_App e r prev) = (if truthy (r_status r) then r_status r else status prev)"
  "progress (mergeJob_App e r prev) =
     (if r_progress r \<noteq> Undefined then r_progress r else progress prev)"
  "error (mergeJob_App e r prev) = (if truthy (r_error r) then r_error r else error prev)"
  "openAiStatus (mergeJob_App e r prev) =
     (if truthy (r_openai_status r) then r_openai_status r else openAiStatus prev)"
  "openAiResponse (mergeJob_App e r prev) =
     (if truthy (r_openai_response r) then r_openai_response r else openAiResponse prev)"
  "result (mergeJob_App e r prev) = result prev"
  "videoUrl (mergeJob_App e r prev) =
     (if truthy (videoUrl_App e r) then videoUrl_App e r else videoUrl prev)"
  "jid (mergeJob_App e r prev) = jid prev"
  "generationDetails (mergeJob_App e r prev) = generationDetails prev"
  "prompt (mergeJob_App e r prev) = prompt prev"
  "duration (mergeJob_App e r prev) = duration prev"
  "resolution (mergeJob_App e r prev) = resolution prev"
  "createdAt (mergeJob_App e r prev) = createdAt prev"
  by (simp_all add: mergeJob_App_def js_or_def)

lemma videoUrl_App_absent: "r_result r = Undefined \<Longrightarrow> videoUrl_App e r = Undefined"
  by (simp add: videoUrl_App_def)

lemma merged_frame:
  "intervals (merged e jobId d w) = intervals w"
  "timeouts (merged e jobId d w) = timeouts w"
  "pollingInterval (merged e jobId d w) = pollingInterval w"
  "sent (merged e jobId d w) = sent w"
  "error_state (merged e jobId d w) = error_state w"
  "form (merged e jobId d w) = form w"
  "job (merged e jobId d w) = map_option (mergeJob (destructure d)) (job w)"
  "nextTimer (merged e jobId d w) = nextTimer w"
  "mounted (merged e jobId d w) = mounted w"
  "retryCount (merged e jobId d w) = retryCount (retry_write (toString e jobId) (Count 0) w)"
  by (simp_all add: merged_def Let_def retry_write_frame)

lemma merged_App_frame:
  "intervals (merged_App e jobId d w) = intervals w"
  "timeouts (merged_App e jobId d w) = timeouts w"
  "pollingInterval (merged_App e jobId d w) = pollingInterval w"
  "sent (merged_App e jobId d w) = sent w"
  "error_state (merged_App e jobId d w) = error_state w"
  "form (merged_App e jobId d w) = form w"
  "job (merged_App e jobId d w) = setJob_App e jobId (destructure d) (job w)"
  by (simp_all add: merged_App_def Let_def)

lemma job_checkJobStatus_try:
  "job (checkJobStatus_try e jobId d w) = map_option (mergeJob (destructure d)) (job w)"
  by (simp add: checkJobStatus_try_def Let_def job_clear_if_truthy merged_frame)

lemma job_poll_try:
  "job (poll_try e jobId d w) = setJob_App e jobId (destructure d) (job w)"
  by (simp add: poll_try_def Let_def job_clear_if_not_null merged_App_frame)

lemma try_completed:
  "r_status (destructure d) = JStr ''completed'' \<Longrightarrow>
   checkJobStatus_try e jobId d w =
     (clear_if_truthy (merged e jobId d w))
       \<lparr>isLoading := False, isGenerating := False, statusEmoji := CheckMark,
        showDownloadModal := True\<rparr>"
  by (simp add: checkJobStatus_try_def Let_def)

lemma try_failed:
  "r_status (destructure d) = JStr ''failed'' \<Longrightarrow>
   checkJobStatus_try e jobId d w =
     (clear_if_truthy (merged e jobId d w))
       \<lparr>isLoading := False, isGenerating := False, statusEmoji := CrossMark,
        error_state := js_or (r_error (destructure d)) (JStr ''Video generation failed'')\<rparr>"
  by (simp add: checkJobStatus_try_def Let_def)

lemma try_other:
  "r_status (destructure d) \<noteq> JStr ''completed'' \<Longrightarrow>
   r_status (destructure d) \<noteq> JStr ''failed'' \<Longrightarrow>
   checkJobStatus_try e jobId d w = (merged e jobId d w)\<lparr>statusEmoji := Gear\<rparr>"
  by (simp add: checkJobStatus_try_def Let_def)

lemma poll_try_completed:
  "r_status (destructure d) = JStr ''completed'' \<Longrightarrow>
   poll_try e jobId d w =
     (clear_if_not_null (merged_App e jobId d w))
       \<lparr>isLoading := False, statusEmoji := CheckMark,
        openAiStatus_state := JStr ''Video generation completed successfully!'',
        showDownloadModal := True\<rparr>"
  by (simp add: poll_try_def Let_def)

lemma poll_try_failed:
  "r_status (destructure d) = JStr ''failed'' \<Longrightarrow>
   poll_try e jobId d w =
     (clear_if_not_null (merged_App e jobId d w))
       \<lparr>isLoading := False, statusEmoji := CrossMark,
        error_state := js_or (r_error (destructure d)) (JStr ''Video generation failed''),
        openAiStatus_state :=
          JStr (''Error: '' @ toString e
                  (js_or (r_error (destructure d)) (JStr ''Video generation failed'')))\<rparr>"
  by (simp add: poll_try_def Let_def)

lemma status_not_null:
  "r_status (destructure d) = JStr s \<Longrightarrow> d \<noteq> Undefined \<and> d \<noteq> Null"
  by (auto simp: destructure_def)

lemma settled_rejected:
  "checkJobStatus_settled e jobId (Rejected err) w = checkJobStatus_catch e jobId err w"
  by (simp add: checkJobStatus_settled_def)

lemma settled_fulfilled:
  "d \<noteq> Undefined \<Longrightarrow> d \<noteq> Null \<Longrightarrow>
   checkJobStatus_settled e jobId (Fulfilled d) w = checkJobStatus_try e jobId d w"
  by (simp add: checkJobStatus_settled_def)

lemma poll_settled_fulfilled:
  "d \<noteq> Undefined \<Longrightarrow> d \<noteq> Null \<Longrightarrow>
   poll_settled e jobId (Fulfilled (Some d)) w = poll_try e jobId d w"
  by (simp add: poll_settled_def)

subsection \<open>The catch block of part_000\<close>

lemma catch_404_below:
  assumes "map_option fst (response err) = Some 404"
    and "\<not> retries_used_up (retry_write (toString e jobId) (next_retry w (toString e jobId)) w)
           (toString e jobId)"
  shows "checkJobStatus_catch e jobId err w =
      (retry_write (toString e jobId) (next_retry w (toString e jobId)) w)
       \<lparr>timeouts := timeouts w @ [\<lparr>tid = Suc (nextTimer w), delay = 2000, target = jobId\<rparr>],
        nextTimer := Suc (nextTimer w), isLoading := False\<rparr>"
  using assms
  by (simp add: checkJobStatus_catch_def Let_def setTimeout_def retry_write_frame RETRY_DELAY_def)

lemma catch_404_reached:
  assumes "map_option fst (response err) = Some 404"
    and "retries_used_up (retry_write (toString e jobId) (next_retry w (toString e jobId)) w)
           (toString e jobId)"
    and "pollingInterval w = Some t" "t \<noteq> 0"
  shows "checkJobStatus_catch e jobId err w =
      (retry_write (toString e jobId) (next_retry w (toString e jobId)) w)
       \<lparr>job := map_option finalizing (job w),
        intervals := filter (\<lambda>x. tid x \<noteq> t) (intervals w)
                     @ [\<lparr>tid = Suc (nextTimer w), delay = 5000, target = jobId\<rparr>],
        timeouts := filter (\<lambda>x. tid x \<noteq> t) (timeouts w),
        nextTimer := Suc (nextTimer w), pollingInterval := Some (Suc (nextTimer w)),
        isLoading := False\<rparr>"
  using assms
  by (simp add: checkJobStatus_catch_def Let_def setInterval_def clearInterval_def
      retry_write_frame)

lemma catch_404_reached_no_timer:
  assumes "map_option fst (response err) = Some 404"
    and "retries_used_up (retry_write (toString e jobId) (next_retry w (toString e jobId)) w)
           (toString e jobId)"
    and "pollingInterval w = None \<or> pollingInterval w = Some 0"
  shows "checkJobStatus_catch e jobId err w =
      (retry_write (toString e jobId) (next_retry w (toString e jobId)) w)
       \<lparr>job := map_option finalizing (job w), isLoading := False\<rparr>"
  using assms by (auto simp add: checkJobStatus_catch_def Let_def retry_write_frame)

lemma catch_other:
  assumes "map_option fst (response err) \<noteq> Some 404"
  shows "checkJobStatus_catch e jobId err w =
      w\<lparr>job := map_option (record_error err) (job w), pollingInterval := None,
        isLoading := False\<rparr>"
  using assms by (simp add: checkJobStatus_catch_def Let_def)

subsection \<open>The 5-second cadence stays\<close>

lemma slow_catch: "slow w \<Longrightarrow> slow (checkJobStatus_catch e jobId err w)"
  by (auto simp add: slow_def checkJobStatus_catch_def Let_def setInterval_def setTimeout_def
      clearInterval_def list_all_iff retry_write_frame split: option.splits)

lemma slow_try: "slow w \<Longrightarrow> slow (checkJobStatus_try e jobId d w)"
proof -
  assume "slow w"
  then have "slow (merged e jobId d w)" by (simp add: slow_def merged_frame)
  then have "slow (clear_if_truthy (merged e jobId d w))" by (rule slow_clear_if_truthy)
  with \<open>slow (merged e jobId d w)\<close> show ?thesis
    by (simp add: checkJobStatus_try_def Let_def slow_def)
qed

lemma slow_settled: "slow w \<Longrightarrow> slow (checkJobStatus_settled e jobId outcome w)"
  by (simp add: checkJobStatus_settled_def slow_catch slow_try split: settled.splits)

lemma slow_handleSubmit_catch: "slow w \<Longrightarrow> slow (handleSubmit_catch e err w)"
  by (simp add: slow_def handleSubmit_catch_def Let_def)

lemma slow_step: "slow w \<Longrightarrow> \<not> starts_loop ev \<Longrightarrow> slow (step w ev)"
proof (cases ev)
  case (CreateSettled e0 e vs outcome)
  assume "slow w" "\<not> starts_loop ev"
  with CreateSettled show ?thesis
    by (cases outcome) (auto simp: slow_settle handleSubmit_settled_def slow_handleSubmit_catch)
next
  case (PollSettled e jobId outcome)
  assume "slow w"
  with PollSettled show ?thesis by (simp add: slow_settle slow_settled)
qed (auto simp: slow_def onSubmit_def handleSubmit_call_def Let_def interval_fires_def
      timeout_fires_def checkJobStatus_call_def unmount_def clearInterval_def list_all_iff
      split: option.splits)

lemma slow_run: "slow w \<Longrightarrow> list_all (\<lambda>ev. \<not> starts_loop ev) evs \<Longrightarrow> slow (run w evs)"
  unfolding run_def by (induction evs arbitrary: w) (simp_all add: slow_step)

subsection \<open>The handle tracks the timers in the App variant\<close>

lemma tracked_start_App: "tracked w \<Longrightarrow> tracked (startJobPolling_App jobId w)"
  using cleared_not_null [of w]
  by (simp add: startJobPolling_App_def Let_def setInterval_def poll_call_def tracked_def)

lemma tracked_poll_catch: "tracked w \<Longrightarrow> tracked (poll_catch e err w)"
proof -
  assume t: "tracked w"
  let ?w1 = "w\<lparr>error_state := JStr (''Error: '' @ toString e (poll_errorMsg err)),
                 statusEmoji := CrossMark,
                 openAiStatus_state := JStr ''Failed to check job status''\<rparr>"
  have "tracked ?w1" using t by (simp add: tracked_def)
  then have "tracked (clear_if_truthy ?w1)" by (rule tracked_clear_truthy)
  then show ?thesis by (simp add: poll_catch_def Let_def tracked_def)
qed

lemma tracked_merged_App: "tracked w \<Longrightarrow> tracked (merged_App e jobId d w)"
  by (simp add: tracked_def merged_App_frame)

lemma tracked_merged: "tracked w \<Longrightarrow> tracked (merged e jobId d w)"
  by (simp add: tracked_def merged_frame)

lemma tracked_poll_try: "tracked w \<Longrightarrow> tracked (poll_try e jobId d w)"
proof -
  assume "tracked w"
  then have m: "tracked (merged_App e jobId d w)" by (rule tracked_merged_App)
  then have "tracked (clear_if_not_null (merged_App e jobId d w))"
    by (rule tracked_clear_not_null)
  with m show ?thesis by (simp add: poll_try_def Let_def tracked_def)
qed

lemma tracked_poll_settled: "tracked w \<Longrightarrow> tracked (poll_settled e jobId outcome w)"
  by (simp add: poll_settled_def tracked_poll_catch tracked_poll_try
      split: settled.splits option.splits)

lemma tracked_handleGenerate_settled:
  "tracked w \<Longrightarrow> tracked (handleGenerate_settled e vs outcome w)"
proof (cases outcome)
  case (Fulfilled body)
  assume t: "tracked w"
  have "tracked (w\<lparr>job := Some (createdJob_App e (opt_prop body ''id'') vs),
                 openAiStatus_state := JStr ''Request received. Processing video generation...''\<rparr>)"
    using t by (simp add: tracked_def)
  then show ?thesis using t Fulfilled
    by (simp add: handleGenerate_settled_def tracked_start_App)
       (simp add: handleGenerate_catch_def Let_def tracked_def)
next
  case (Rejected err)
  assume "tracked w"
  then show ?thesis using Rejected
    by (simp add: handleGenerate_settled_def handleGenerate_catch_def Let_def tracked_def)
qed

lemma tracked_step_App: "tracked w \<Longrightarrow> tracked (step_App w ev)"
proof (cases ev)
  case (CreateSettled_App e vs outcome)
  assume "tracked w"
  then show ?thesis using CreateSettled_App
    by (simp add: tracked_settle tracked_handleGenerate_settled)
next
  case (PollSettled_App e jobId outcome)
  assume "tracked w"
  then show ?thesis using PollSettled_App by (simp add: tracked_settle tracked_poll_settled)
next
  case Unmount_App
  assume "tracked w"
  then have "tracked (clear_if_not_null w)" by (rule tracked_clear_not_null)
  then have "tracked ((clear_if_not_null w)\<lparr>mounted := False\<rparr>)" by (simp add: tracked_def)
  with \<open>tracked w\<close> show ?thesis using Unmount_App by (simp add: unmount_App_def)
qed (auto simp: tracked_def onSubmit_App_def handleGenerate_call_def Let_def
      interval_fires_App_def poll_call_def split: option.splits)

lemma tracked_run_App: "tracked w \<Longrightarrow> tracked (run_App w evs)"
  unfolding run_App_def by (induction evs arbitrary: w) (simp_all add: tracked_step_App)

subsection \<open>Starting the poll loop\<close>

lemma intervals_clear_if_not_null: "intervals (clear_if_not_null w) = without_handle w"
  by (simp add: clear_if_not_null_def clearInterval_def without_handle_def split: option.splits)

lemma nextTimer_clear_if_not_null: "nextTimer (clear_if_not_null w) = nextTimer w"
  by (simp add: clear_if_not_null_def clearInterval_def split: option.splits)

lemma without_handle_tracked: "tracked w \<Longrightarrow> without_handle w = []"
  using cleared_not_null [of w] by (simp add: intervals_clear_if_not_null)

lemma start_cancels_first:
  "intervals (startJobPolling e jobId ij fv w) =
     without_handle w @ [\<lparr>tid = Suc (nextTimer w), delay = 2000, target = jobId\<rparr>] \<and>
   pollingInterval (startJobPolling e jobId ij fv w) = Some (Suc (nextTimer w))"
  by (simp add: startJobPolling_def Let_def setInterval_def intervals_clear_if_not_null
      nextTimer_clear_if_not_null)

lemma start_App_cancels_first:
  "intervals (startJobPolling_App jobId w) =
     without_handle w @ [\<lparr>tid = Suc (nextTimer w), delay = 2000, target = jobId\<rparr>] \<and>
   pollingInterval (startJobPolling_App jobId w) = Some (Suc (nextTimer w))"
  by (simp add: startJobPolling_App_def Let_def setInterval_def poll_call_def
      intervals_clear_if_not_null nextTimer_clear_if_not_null)

subsection \<open>The example errors\<close>

lemma not_found_404: "map_option fst (response not_found) = Some 404"
  by (simp add: not_found_def)

subsection \<open>A status poll answered with 404\<close>

lemma retryCount_clear_if_truthy: "retryCount (clear_if_truthy w) = retryCount w"
  by (simp add: clear_if_truthy_def clearInterval_def split: option.splits)

lemma retry_reset_on_success:
  "d \<noteq> Undefined \<Longrightarrow> d \<noteq> Null \<Longrightarrow> toString e jobId \<noteq> ''__proto__'' \<Longrightarrow>
   retryCount (checkJobStatus_settled e jobId (Fulfilled d) w) (toString e jobId) = Some (Count 0)"
  by (simp add: settled_fulfilled checkJobStatus_try_def Let_def retryCount_clear_if_truthy
      merged_frame retry_write_own)

lemma find_fresh:
  "\<forall>x\<in>set xs. tid x \<noteq> t \<Longrightarrow> find (\<lambda>x. tid x = t) (xs @ [y]) = (if tid y = t then Some y else None)"
  by (induction xs) simp_all

lemma filter_fresh: "\<forall>x\<in>set xs. tid x \<noteq> t \<Longrightarrow> filter (\<lambda>x. tid x \<noteq> t) xs = xs"
  by (induction xs) simp_all

text \<open>The first 404s of a job: the counter goes up and a one-off retry is scheduled.\<close>

lemma not_found_below:
  assumes "map_option fst (response err) = Some 404"
    and "toString e jobId \<notin> set prototype_members"
    and "next_retry w (toString e jobId) = Count m" "m < 5"
  shows "checkJobStatus_catch e jobId err w =
      (retry_write (toString e jobId) (Count m) w)
       \<lparr>timeouts := timeouts w @ [\<lparr>tid = Suc (nextTimer w), delay = 2000, target = jobId\<rparr>],
        nextTimer := Suc (nextTimer w), isLoading := False\<rparr>"
  using assms catch_404_below [of err e jobId w]
  by (simp add: used_up_after_write not_member_not_proto)

lemma not_found_reached:
  assumes "map_option fst (response err) = Some 404"
    and "toString e jobId \<notin> set prototype_members"
    and "next_retry w (toString e jobId) = Count m" "5 \<le> m"
  shows "retries_used_up (retry_write (toString e jobId) (next_retry w (toString e jobId)) w)
           (toString e jobId)"
  using assms by (simp add: used_up_after_write not_member_not_proto)

lemma timeout_fires_fresh:
  assumes "timeouts w = ts @ [\<lparr>tid = t, delay = ms, target = jobId\<rparr>]" "\<forall>x\<in>set ts. tid x \<noteq> t"
  shows "sent (timeout_fires t w) = sent w @ [GetJob jobId]"
    "timeouts (timeout_fires t w) = ts"
  using assms by (simp_all add: timeout_fires_def find_fresh filter_fresh checkJobStatus_call_def)

lemma interval_fires_fresh:
  assumes "intervals w = ts @ [\<lparr>tid = t, delay = ms, target = jobId\<rparr>]" "\<forall>x\<in>set ts. tid x \<noteq> t"
  shows "sent (interval_fires t w) = sent w @ [GetJob jobId]"
  using assms by (simp add: interval_fires_def find_fresh checkJobStatus_call_def)

lemma settle_state:
  "job (handler w) = job w \<Longrightarrow> job (settle handler w) = job w"
  "error_state (handler w) = error_state w \<Longrightarrow> error_state (settle handler w) = error_state w"
  by (simp_all add: settle_def frozen_def)

lemma tracked_slow_after_reached:
  assumes "map_option fst (response err) = Some 404"
    and "retries_used_up (retry_write (toString e jobId) (next_retry w (toString e jobId)) w)
           (toString e jobId)"
    and "tracked w"
  shows "slow (checkJobStatus_catch e jobId err w)"
proof (cases "pollingInterval w")
  case None
  with assms show ?thesis
    by (simp add: catch_404_reached_no_timer tracked_def slow_def retry_write_frame)
next
  case (Some t)
  with assms have t: "t \<noteq> 0" "map tid (intervals w) = [t]" by (simp_all add: tracked_def)
  then have "filter (\<lambda>x. tid x \<noteq> t) (intervals w) = []"
    by (cases "intervals w") auto
  with assms Some t show ?thesis
    by (simp add: catch_404_reached slow_def)
qed

lemma below_step:
  assumes "map_option fst (response err) = Some 404"
    and "toString e jobId \<notin> set prototype_members"
    and "next_retry w (toString e jobId) = Count m" "m < 5"
  shows "retryCount (step w (PollSettled e jobId (Rejected err))) (toString e jobId) = Some (Count m)"
    "timeouts (step w (PollSettled e jobId (Rejected err))) =
       timeouts w @ [\<lparr>tid = Suc (nextTimer w), delay = 2000, target = jobId\<rparr>]"
    "intervals (step w (PollSettled e jobId (Rejected err))) = intervals w"
    "pollingInterval (step w (PollSettled e jobId (Rejected err))) = pollingInterval w"
    "sent (step w (PollSettled e jobId (Rejected err))) = sent w"
    "job (step w (PollSettled e jobId (Rejected err))) = job w"
    "error_state (step w (PollSettled e jobId (Rejected err))) = error_state w"
  using assms
  by (simp_all add: settle_frame settle_state settled_rejected not_found_below retry_write_frame
      retry_write_own not_member_not_proto)

lemma reached_step:
  assumes "map_option fst (response err) = Some 404"
    and "toString e jobId \<notin> set prototype_members"
    and "next_retry w (toString e jobId) = Count m" "5 \<le> m"
  shows "retryCount (step w (PollSettled e jobId (Rejected err))) (toString e jobId) = Some (Count m)"
    "sent (step w (PollSettled e jobId (Rejected err))) = sent w"
    "error_state (step w (PollSettled e jobId (Rejected err))) = error_state w"
    "mounted w \<Longrightarrow> job (step w (PollSettled e jobId (Rejected err))) = map_option finalizing (job w)"
    "\<not> mounted w \<Longrightarrow> job (step w (PollSettled e jobId (Rejected err))) = job w"
    "pollingInterval w = Some t \<Longrightarrow> t \<noteq> 0 \<Longrightarrow>
       intervals (step w (PollSettled e jobId (Rejected err))) =
         filter (\<lambda>x. tid x \<noteq> t) (intervals w)
           @ [\<lparr>tid = Suc (nextTimer w), delay = 5000, target = jobId\<rparr>] \<and>
       pollingInterval (step w (PollSettled e jobId (Rejected err))) = Some (Suc (nextTimer w))"
    "pollingInterval w = None \<or> pollingInterval w = Some 0 \<Longrightarrow>
       intervals (step w (PollSettled e jobId (Rejected err))) = intervals w \<and>
       pollingInterval (step w (PollSettled e jobId (Rejected err))) = pollingInterval w \<and>
       timeouts (step w (PollSettled e jobId (Rejected err))) = timeouts w"
    "tracked w \<Longrightarrow> slow (step w (PollSettled e jobId (Rejected err)))"
proof -
  note u = not_found_reached [OF assms]
  have c: "pollingInterval w = None \<or> pollingInterval w = Some 0 \<or>
           (\<exists>t. pollingInterval w = Some t \<and> t \<noteq> 0)"
    by (cases "pollingInterval w") auto
  show "retryCount (step w (PollSettled e jobId (Rejected err))) (toString e jobId) = Some (Count m)"
    using c assms
    by (auto simp add: settle_frame settled_rejected catch_404_reached [OF assms(1) u]
        catch_404_reached_no_timer [OF assms(1) u] retry_write_own not_member_not_proto)
  show "sent (step w (PollSettled e jobId (Rejected err))) = sent w"
    using c
    by (auto simp add: settle_frame settled_rejected catch_404_reached [OF assms(1) u]
        catch_404_reached_no_timer [OF assms(1) u] retry_write_frame)
  show "error_state (step w (PollSettled e jobId (Rejected err))) = error_state w"
    using c
    by (auto simp add: settle_state settled_rejected catch_404_reached [OF assms(1) u]
        catch_404_reached_no_timer [OF assms(1) u] retry_write_frame)
  show "mounted w \<Longrightarrow> job (step w (PollSettled e jobId (Rejected err))) = map_option finalizing (job w)"
    using c
    by (auto simp add: settle_mounted settled_rejected catch_404_reached [OF assms(1) u]
        catch_404_reached_no_timer [OF assms(1) u] retry_write_frame)
  show "\<not> mounted w \<Longrightarrow> job (step w (PollSettled e jobId (Rejected err))) = job w"
    by (simp add: settle_unmounted frozen_frame)
  show "pollingInterval w = Some t \<Longrightarrow> t \<noteq> 0 \<Longrightarrow>
       intervals (step w (PollSettled e jobId (Rejected err))) =
         filter (\<lambda>x. tid x \<noteq> t) (intervals w)
           @ [\<lparr>tid = Suc (nextTimer w), delay = 5000, target = jobId\<rparr>] \<and>
       pollingInterval (step w (PollSettled e jobId (Rejected err))) = Some (Suc (nextTimer w))"
    by (simp add: settle_frame settled_rejected catch_404_reached [OF assms(1) u])
  show "pollingInterval w = None \<or> pollingInterval w = Some 0 \<Longrightarrow>
       intervals (step w (PollSettled e jobId (Rejected err))) = intervals w \<and>
       pollingInterval (step w (PollSettled e jobId (Rejected err))) = pollingInterval w \<and>
       timeouts (step w (PollSettled e jobId (Rejected err))) = timeouts w"
    by (simp add: settle_frame settled_rejected catch_404_reached_no_timer [OF assms(1) u]
        retry_write_frame)
  show "tracked w \<Longrightarrow> slow (step w (PollSettled e jobId (Rejected err)))"
    using tracked_slow_after_reached [OF assms(1) u]
    by (simp add: slow_settle settled_rejected)
qed

lemma App_any_error:
  assumes "tracked v"
  shows "intervals (step_App v (PollSettled_App e jobId (Rejected err))) = []"
    "pollingInterval (step_App v (PollSettled_App e jobId (Rejected err))) = None"
    "retryCount (step_App v (PollSettled_App e jobId (Rejected err))) = retryCount v"
    "mounted v \<Longrightarrow> error_state (step_App v (PollSettled_App e jobId (Rejected err))) =
       JStr (''Error: '' @ toString e (poll_errorMsg err))"
proof -
  let ?w1 = "v\<lparr>error_state := JStr (''Error: '' @ toString e (poll_errorMsg err)),
                 statusEmoji := CrossMark,
                 openAiStatus_state := JStr ''Failed to check job status''\<rparr>"
  have t: "tracked ?w1" using assms by (simp add: tracked_def)
  have eq: "poll_settled e jobId (Rejected err) v = (clear_if_truthy ?w1)\<lparr>isLoading := False\<rparr>"
    by (simp add: poll_settled_def poll_catch_def Let_def)
  from cleared_truthy [OF t]
  show "intervals (step_App v (PollSettled_App e jobId (Rejected err))) = []"
    "pollingInterval (step_App v (PollSettled_App e jobId (Rejected err))) = None"
    by (simp_all add: settle_frame eq)
  show "retryCount (step_App v (PollSettled_App e jobId (Rejected err))) = retryCount v"
    by (simp add: settle_frame eq retryCount_clear_if_truthy)
  show "mounted v \<Longrightarrow> error_state (step_App v (PollSettled_App e jobId (Rejected err))) =
       JStr (''Error: '' @ toString e (poll_errorMsg err))"
    by (simp add: settle_mounted eq clear_if_truthy_def clearInterval_def split: option.splits)
qed
section \<open>C1: not-found resilience\<close>

text \<open>
  C1. In part_000, for a job id whose string form is not the name of a member of
  \<^verbatim>\<open>Object.prototype\<close>, a status poll answered with 404 adds one to the counter of the
  id (a first 404 makes it 1); a successful response sets it back to 0. While the new
  count is below 5 a one-off retry is scheduled after 2000 ms, which sends one more
  status request when it fires, and the job, the error shown and the recurring timer are
  as before. When the new count is 5 or more the job is not failed: its status becomes
  "processing" with the message "Finalizing video... (this may take a few more
  moments)", no error is shown, and if the handle is not null the timer it names is
  replaced by a recurring timer of 5000 ms that polls the job; with a null handle no
  timer is started or stopped. From a state where the handle names the only recurring
  timer, every recurring timer then has the 5000 ms cadence until a create response
  starts a new poll loop. The App variant has no not-found handling: any polling
  error, a 404 included, stops the timer and shows "Error: ..." with the error's message.
\<close>

theorem not_found_retry_then_slow_poll:
  assumes "map_option fst (response err) = Some 404"
    and "toString e jobId \<notin> set prototype_members"
  shows
   "(retryCount w (toString e jobId) = None \<longrightarrow> retryCount (step w (PollSettled e jobId (Rejected err))) (toString e jobId) = Some (Count 1)) \<and>
    (\<forall>n. retryCount w (toString e jobId) = Some (Count n) \<longrightarrow>
        retryCount (step w (PollSettled e jobId (Rejected err))) (toString e jobId) = Some (Count (n + 1))) \<and>
    (retryCount w (toString e jobId) = None \<or> (\<exists>n. retryCount w (toString e jobId) = Some (Count n) \<and> n + 1 < 5) \<longrightarrow>
        timeouts (step w (PollSettled e jobId (Rejected err))) =
          timeouts w @ [\<lparr>tid = Suc (nextTimer w), delay = 2000, target = jobId\<rparr>] \<and>
        intervals (step w (PollSettled e jobId (Rejected err))) = intervals w \<and>
        pollingInterval (step w (PollSettled e jobId (Rejected err))) = pollingInterval w \<and>
        job (step w (PollSettled e jobId (Rejected err))) = job w \<and>
        error_state (step w (PollSettled e jobId (Rejected err))) = error_state w \<and>
        sent (step w (PollSettled e jobId (Rejected err))) = sent w \<and>
        ((\<forall>x\<in>set (timeouts w). tid x \<noteq> Suc (nextTimer w)) \<longrightarrow>
           sent (step (step w (PollSettled e jobId (Rejected err))) (TimeoutFires (Suc (nextTimer w)))) = sent w @ [GetJob jobId] \<and>
           timeouts (step (step w (PollSettled e jobId (Rejected err))) (TimeoutFires (Suc (nextTimer w)))) = timeouts w)) \<and>
    ((\<exists>n. retryCount w (toString e jobId) = Some (Count n) \<and> 5 \<le> n + 1) \<longrightarrow>
        (mounted w \<longrightarrow>
           job (step w (PollSettled e jobId (Rejected err))) =
             map_option (\<lambda>prev. prev\<lparr>status := JStr ''processing'', openAiStatus := JStr ''Finalizing video... (this may take a few more moments)''\<rparr>) (job w)) \<and>
        (\<not> mounted w \<longrightarrow> job (step w (PollSettled e jobId (Rejected err))) = job w) \<and>
        error_state (step w (PollSettled e jobId (Rejected err))) = error_state w \<and>
        sent (step w (PollSettled e jobId (Rejected err))) = sent w \<and>
        (\<forall>t. pollingInterval w = Some t \<and> t \<noteq> 0 \<longrightarrow>
           intervals (step w (PollSettled e jobId (Rejected err))) =
             filter (\<lambda>x. tid x \<noteq> t) (intervals w)
               @ [\<lparr>tid = Suc (nextTimer w), delay = 5000, target = jobId\<rparr>] \<and>
           pollingInterval (step w (PollSettled e jobId (Rejected err))) = Some (Suc (nextTimer w)) \<and>
           ((\<forall>x\<in>set (intervals w). tid x \<noteq> Suc (nextTimer w)) \<longrightarrow>
              sent (step (step w (PollSettled e jobId (Rejected err))) (IntervalFires (Suc (nextTimer w)))) = sent w @ [GetJob jobId])) \<and>
        (pollingInterval w = None \<or> pollingInterval w = Some 0 \<longrightarrow>
           intervals (step w (PollSettled e jobId (Rejected err))) = intervals w \<and>
           pollingInterval (step w (PollSettled e jobId (Rejected err))) = pollingInterval w \<and>
           timeouts (step w (PollSettled e jobId (Rejected err))) = timeouts w) \<and>
        (tracked w \<longrightarrow>
           (\<forall>evs. list_all (\<lambda>ev. \<not> starts_loop ev) evs \<longrightarrow>
              (\<forall>x\<in>set (intervals (run (step w (PollSettled e jobId (Rejected err))) evs)). delay x = 5000)))) \<and>
    (\<forall>d. d \<noteq> Undefined \<and> d \<noteq> Null \<longrightarrow>
        retryCount (step w (PollSettled e jobId (Fulfilled d))) (toString e jobId) = Some (Count 0)) \<and>
    (tracked v \<longrightarrow>
        intervals (step_App v (PollSettled_App e jobId (Rejected err))) = [] \<and>
        pollingInterval (step_App v (PollSettled_App e jobId (Rejected err))) = None \<and>
        retryCount (step_App v (PollSettled_App e jobId (Rejected err))) = retryCount v \<and>
        (mounted v \<longrightarrow>
           error_state (step_App v (PollSettled_App e jobId (Rejected err))) =
             JStr (''Error: '' @ toString e
               (js_or (detail_of err)
                  (js_or (js_or (message err) (JStr ''Unknown error''))
                     (JStr ''Failed to check job status''))))))"
proof -
  have c0: "(retryCount w (toString e jobId) = None \<longrightarrow> retryCount (step w (PollSettled e jobId (Rejected err))) (toString e jobId) = Some (Count 1))"
    using assms below_step(1) [OF assms, of w 1] by (simp add: next_retry_first)
  have c1: "(\<forall>n. retryCount w (toString e jobId) = Some (Count n) \<longrightarrow>
        retryCount (step w (PollSettled e jobId (Rejected err))) (toString e jobId) = Some (Count (n + 1)))"
  proof (intro allI impI)
    fix n assume n: "retryCount w (toString e jobId) = Some (Count n)"
    then have nx: "next_retry w (toString e jobId) = Count (n + 1)" by (rule next_retry_count)
    show "retryCount (step w (PollSettled e jobId (Rejected err))) (toString e jobId)
            = Some (Count (n + 1))"
    proof (cases "n + 1 < 5")
      case True
      then show ?thesis by (rule below_step(1) [OF assms nx])
    next
      case False
      then have "5 \<le> n + 1" by simp
      then show ?thesis by (rule reached_step(1) [OF assms nx])
    qed
  qed
  have c2: "(retryCount w (toString e jobId) = None \<or> (\<exists>n. retryCount w (toString e jobId) = Some (Count n) \<and> n + 1 < 5) \<longrightarrow>
        timeouts (step w (PollSettled e jobId (Rejected err))) =
          timeouts w @ [\<lparr>tid = Suc (nextTimer w), delay = 2000, target = jobId\<rparr>] \<and>
        intervals (step w (PollSettled e jobId (Rejected err))) = intervals w \<and>
        pollingInterval (step w (PollSettled e jobId (Rejected err))) = pollingInterval w \<and>
        job (step w (PollSettled e jobId (Rejected err))) = job w \<and>
        error_state (step w (PollSettled e jobId (Rejected err))) = error_state w \<and>
        sent (step w (PollSettled e jobId (Rejected err))) = sent w \<and>
        ((\<forall>x\<in>set (timeouts w). tid x \<noteq> Suc (nextTimer w)) \<longrightarrow>
           sent (step (step w (PollSettled e jobId (Rejected err))) (TimeoutFires (Suc (nextTimer w)))) = sent w @ [GetJob jobId] \<and>
           timeouts (step (step w (PollSettled e jobId (Rejected err))) (TimeoutFires (Suc (nextTimer w)))) = timeouts w))"
  proof (intro impI)
    assume "retryCount w (toString e jobId) = None \<or>
            (\<exists>n. retryCount w (toString e jobId) = Some (Count n) \<and> n + 1 < 5)"
    then obtain m where m: "next_retry w (toString e jobId) = Count m" "m < 5"
      using assms(2) by (auto simp: next_retry_first next_retry_count)
    note b = below_step [OF assms m]
    have f: "(\<forall>x\<in>set (timeouts w). tid x \<noteq> Suc (nextTimer w)) \<longrightarrow>
           sent (step (step w (PollSettled e jobId (Rejected err))) (TimeoutFires (Suc (nextTimer w))))
             = sent w @ [GetJob jobId] \<and>
           timeouts (step (step w (PollSettled e jobId (Rejected err))) (TimeoutFires (Suc (nextTimer w))))
             = timeouts w"
      using timeout_fires_fresh [OF b(2)] b(5) by simp
    from b f show "timeouts (step w (PollSettled e jobId (Rejected err))) =
          timeouts w @ [\<lparr>tid = Suc (nextTimer w), delay = 2000, target = jobId\<rparr>] \<and>
        intervals (step w (PollSettled e jobId (Rejected err))) = intervals w \<and>
        pollingInterval (step w (PollSettled e jobId (Rejected err))) = pollingInterval w \<and>
        job (step w (PollSettled e jobId (Rejected err))) = job w \<and>
        error_state (step w (PollSettled e jobId (Rejected err))) = error_state w \<and>
        sent (step w (PollSettled e jobId (Rejected err))) = sent w \<and>
        ((\<forall>x\<in>set (timeouts w). tid x \<noteq> Suc (nextTimer w)) \<longrightarrow>
           sent (step (step w (PollSettled e jobId (Rejected err))) (TimeoutFires (Suc (nextTimer w)))) = sent w @ [GetJob jobId] \<and>
           timeouts (step (step w (PollSettled e jobId (Rejected err))) (TimeoutFires (Suc (nextTimer w)))) = timeouts w)"
      by (simp only: simp_thms)
  qed
  have c3: "((\<exists>n. retryCount w (toString e jobId) = Some (Count n) \<and> 5 \<le> n + 1) \<longrightarrow>
        (mounted w \<longrightarrow>
           job (step w (PollSettled e jobId (Rejected err))) =
             map_option (\<lambda>prev. prev\<lparr>status := JStr ''processing'', openAiStatus := JStr ''Finalizing video... (this may take a few more moments)''\<rparr>) (job w)) \<and>
        (\<not> mounted w \<longrightarrow> job (step w (PollSettled e jobId (Rejected err))) = job w) \<and>
        error_state (step w (PollSettled e jobId (Rejected err))) = error_state w \<and>
        sent (step w (PollSettled e jobId (Rejected err))) = sent w \<and>
        (\<forall>t. pollingInterval w = Some t \<and> t \<noteq> 0 \<longrightarrow>
           intervals (step w (PollSettled e jobId (Rejected err))) =
             filter (\<lambda>x. tid x \<noteq> t) (intervals w)
               @ [\<lparr>tid = Suc (nextTimer w), delay = 5000, target = jobId\<rparr>] \<and>
           pollingInterval (step w (PollSettled e jobId (Rejected err))) = Some (Suc (nextTimer w)) \<and>
           ((\<forall>x\<in>set (intervals w). tid x \<noteq> Suc (nextTimer w)) \<longrightarrow>
              sent (step (step w (PollSettled e jobId (Rejected err))) (IntervalFires (Suc (nextTimer w)))) = sent w @ [GetJob jobId])) \<and>
        (pollingInterval w = None \<or> pollingInterval w = Some 0 \<longrightarrow>
           intervals (step w (PollSettled e jobId (Rejected err))) = intervals w \<and>
           pollingInterval (step w (PollSettled e jobId (Rejected err))) = pollingInterval w \<and>
           timeouts (step w (PollSettled e jobId (Rejected err))) = timeouts w) \<and>
        (tracked w \<longrightarrow>
           (\<forall>evs. list_all (\<lambda>ev. \<not> starts_loop ev) evs \<longrightarrow>
              (\<forall>x\<in>set (intervals (run (step w (PollSettled e jobId (Rejected err))) evs)). delay x = 5000))))"
  proof (intro impI)
    assume "\<exists>n. retryCount w (toString e jobId) = Some (Count n) \<and> 5 \<le> n + 1"
    then obtain m where m: "next_retry w (toString e jobId) = Count m" "5 \<le> m"
      by (auto simp: next_retry_count)
    note r = reached_step [OF assms m]
    have fin: "finalizing = (\<lambda>prev. prev\<lparr>status := JStr ''processing'', openAiStatus := JStr ''Finalizing video... (this may take a few more moments)''\<rparr>)"
      by (rule ext) (simp add: finalizing_def)
    have j1: "mounted w \<longrightarrow> job (step w (PollSettled e jobId (Rejected err))) =
             map_option (\<lambda>prev. prev\<lparr>status := JStr ''processing'', openAiStatus := JStr ''Finalizing video... (this may take a few more moments)''\<rparr>) (job w)"
      using r(4) by (simp add: fin)
    have j2: "\<not> mounted w \<longrightarrow> job (step w (PollSettled e jobId (Rejected err))) = job w"
      using r(5) by simp
    have t1: "\<forall>t. pollingInterval w = Some t \<and> t \<noteq> 0 \<longrightarrow>
           intervals (step w (PollSettled e jobId (Rejected err))) =
             filter (\<lambda>x. tid x \<noteq> t) (intervals w)
               @ [\<lparr>tid = Suc (nextTimer w), delay = 5000, target = jobId\<rparr>] \<and>
           pollingInterval (step w (PollSettled e jobId (Rejected err))) = Some (Suc (nextTimer w)) \<and>
           ((\<forall>x\<in>set (intervals w). tid x \<noteq> Suc (nextTimer w)) \<longrightarrow>
              sent (step (step w (PollSettled e jobId (Rejected err))) (IntervalFires (Suc (nextTimer w)))) = sent w @ [GetJob jobId])"
    proof (intro allI impI)
      fix t assume t: "pollingInterval w = Some t \<and> t \<noteq> 0"
      then have i: "intervals (step w (PollSettled e jobId (Rejected err))) =
             filter (\<lambda>x. tid x \<noteq> t) (intervals w)
               @ [\<lparr>tid = Suc (nextTimer w), delay = 5000, target = jobId\<rparr>]"
        and h: "pollingInterval (step w (PollSettled e jobId (Rejected err))) = Some (Suc (nextTimer w))"
        using r(6) [of t] by simp_all
      have "(\<forall>x\<in>set (intervals w). tid x \<noteq> Suc (nextTimer w)) \<longrightarrow>
              sent (step (step w (PollSettled e jobId (Rejected err))) (IntervalFires (Suc (nextTimer w)))) = sent w @ [GetJob jobId]"
        using interval_fires_fresh [OF i] r(2) by simp
      with i h show "intervals (step w (PollSettled e jobId (Rejected err))) =
             filter (\<lambda>x. tid x \<noteq> t) (intervals w)
               @ [\<lparr>tid = Suc (nextTimer w), delay = 5000, target = jobId\<rparr>] \<and>
           pollingInterval (step w (PollSettled e jobId (Rejected err))) = Some (Suc (nextTimer w)) \<and>
           ((\<forall>x\<in>set (intervals w). tid x \<noteq> Suc (nextTimer w)) \<longrightarrow>
              sent (step (step w (PollSettled e jobId (Rejected err))) (IntervalFires (Suc (nextTimer w)))) = sent w @ [GetJob jobId])"
        by (simp only: simp_thms)
    qed
    have t2: "pollingInterval w = None \<or> pollingInterval w = Some 0 \<longrightarrow>
           intervals (step w (PollSettled e jobId (Rejected err))) = intervals w \<and>
           pollingInterval (step w (PollSettled e jobId (Rejected err))) = pollingInterval w \<and>
           timeouts (step w (PollSettled e jobId (Rejected err))) = timeouts w"
      using r(7) by (intro impI)
    have t3: "tracked w \<longrightarrow>
           (\<forall>evs. list_all (\<lambda>ev. \<not> starts_loop ev) evs \<longrightarrow>
              (\<forall>x\<in>set (intervals (run (step w (PollSettled e jobId (Rejected err))) evs)). delay x = 5000))"
    proof (intro allI impI)
      fix evs assume "tracked w" "list_all (\<lambda>ev. \<not> starts_loop ev) evs"
      then have "slow (run (step w (PollSettled e jobId (Rejected err))) evs)"
        using r(8) slow_run by simp
      then show "\<forall>x\<in>set (intervals (run (step w (PollSettled e jobId (Rejected err))) evs)). delay x = 5000"
        by (simp add: slow_def list_all_iff)
    qed
    from j1 j2 r(3) r(2) t1 t2 t3
    show "(mounted w \<longrightarrow>
           job (step w (PollSettled e jobId (Rejected err))) =
             map_option (\<lambda>prev. prev\<lparr>status := JStr ''processing'', openAiStatus := JStr ''Finalizing video... (this may take a few more moments)''\<rparr>) (job w)) \<and>
        (\<not> mounted w \<longrightarrow> job (step w (PollSettled e jobId (Rejected err))) = job w) \<and>
        error_state (step w (PollSettled e jobId (Rejected err))) = error_state w \<and>
        sent (step w (PollSettled e jobId (Rejected err))) = sent w \<and>
        (\<forall>t. pollingInterval w = Some t \<and> t \<noteq> 0 \<longrightarrow>
           intervals (step w (PollSettled e jobId (Rejected err))) =
             filter (\<lambda>x. tid x \<noteq> t) (intervals w)
               @ [\<lparr>tid = Suc (nextTimer w), delay = 5000, target = jobId\<rparr>] \<and>
           pollingInterval (step w (PollSettled e jobId (Rejected err))) = Some (Suc (nextTimer w)) \<and>
           ((\<forall>x\<in>set (intervals w). tid x \<noteq> Suc (nextTimer w)) \<longrightarrow>
              sent (step (step w (PollSettled e jobId (Rejected err))) (IntervalFires (Suc (nextTimer w)))) = sent w @ [GetJob jobId])) \<and>
        (pollingInterval w = None \<or> pollingInterval w = Some 0 \<longrightarrow>
           intervals (step w (PollSettled e jobId (Rejected err))) = intervals w \<and>
           pollingInterval (step w (PollSettled e jobId (Rejected err))) = pollingInterval w \<and>
           timeouts (step w (PollSettled e jobId (Rejected err))) = timeouts w) \<and>
        (tracked w \<longrightarrow>
           (\<forall>evs. list_all (\<lambda>ev. \<not> starts_loop ev) evs \<longrightarrow>
              (\<forall>x\<in>set (intervals (run (step w (PollSettled e jobId (Rejected err))) evs)). delay x = 5000)))"
      by (intro conjI)
  qed
  have c4: "(\<forall>d. d \<noteq> Undefined \<and> d \<noteq> Null \<longrightarrow>
        retryCount (step w (PollSettled e jobId (Fulfilled d))) (toString e jobId) = Some (Count 0))"
  proof (intro allI impI)
    fix d assume "d \<noteq> Undefined \<and> d \<noteq> Null"
    then show "retryCount (step w (PollSettled e jobId (Fulfilled d))) (toString e jobId)
                 = Some (Count 0)"
      using assms(2) by (simp add: settle_frame retry_reset_on_success not_member_not_proto)
  qed
  have c5: "(tracked v \<longrightarrow>
        intervals (step_App v (PollSettled_App e jobId (Rejected err))) = [] \<and>
        pollingInterval (step_App v (PollSettled_App e jobId (Rejected err))) = None \<and>
        retryCount (step_App v (PollSettled_App e jobId (Rejected err))) = retryCount v \<and>
        (mounted v \<longrightarrow>
           error_state (step_App v (PollSettled_App e jobId (Rejected err))) =
             JStr (''Error: '' @ toString e
               (js_or (detail_of err)
                  (js_or (js_or (message err) (JStr ''Unknown error''))
                     (JStr ''Failed to check job status''))))))"
    using App_any_error [of v e jobId err] by (simp add: poll_errorMsg_def Let_def)
  from c0 c1 c2 c3 c4 c5 show ?thesis by (intro conjI)
qed

lemma job1_key:
  "toString env0 (JStr ''job-1'') = ''job-1'' \<and> toString env0 (JStr ''job-1'') \<notin> set prototype_members"
  by (simp add: prototype_members_def)

lemma polling_world_refs:
  "retryCount polling_world ''job-1'' = None \<and> timeouts polling_world = [] \<and>
   nextTimer polling_world = 1 \<and> mounted polling_world"
  by code_simp

lemma four_not_found_refs:
  "retryCount four_not_found ''job-1'' = Some (Count 4) \<and> mounted four_not_found \<and>
   pollingInterval four_not_found = Some 1 \<and>
   intervals four_not_found = [\<lparr>tid = 1, delay = 2000, target = JStr ''job-1''\<rparr>] \<and>
   nextTimer four_not_found = 5 \<and>
   map_option status (job four_not_found) = Some (JStr ''pending'') \<and>
   error_state four_not_found = Null"
  by code_simp

lemma four_not_found_tracked: "tracked four_not_found"
  by code_simp

lemma polling_world_App_tracked: "tracked polling_world_App \<and> mounted polling_world_App"
  by code_simp

text \<open>
  The theorem at the example job: the first 404 makes the counter 1 and schedules the
  retry 2, which polls the job; the fifth 404 in a row makes the job "processing" and
  replaces timer 1 by the 5000 ms timer 6, which stays through further responses. In the
  App variant the 404 leaves no timer.
\<close>

theorem not_found_retry_then_slow_poll_witness:
  "map_option fst (response not_found) = Some 404 \<and>
   toString env0 (JStr ''job-1'') \<notin> set prototype_members \<and>
   retryCount polling_world ''job-1'' = None \<and>
   retryCount (step polling_world (PollSettled env0 (JStr ''job-1'') (Rejected not_found))) ''job-1''
     = Some (Count 1) \<and>
   timeouts (step polling_world (PollSettled env0 (JStr ''job-1'') (Rejected not_found)))
     = [\<lparr>tid = 2, delay = 2000, target = JStr ''job-1''\<rparr>] \<and>
   sent (step (step polling_world (PollSettled env0 (JStr ''job-1'') (Rejected not_found)))
           (TimeoutFires 2))
     = sent polling_world @ [GetJob (JStr ''job-1'')] \<and>
   retryCount four_not_found ''job-1'' = Some (Count 4) \<and>
   pollingInterval four_not_found = Some 1 \<and> tracked four_not_found \<and>
   retryCount (step four_not_found (PollSettled env0 (JStr ''job-1'') (Rejected not_found))) ''job-1''
     = Some (Count 5) \<and>
   map_option status
     (job (step four_not_found (PollSettled env0 (JStr ''job-1'') (Rejected not_found))))
     = Some (JStr ''processing'') \<and>
   error_state (step four_not_found (PollSettled env0 (JStr ''job-1'') (Rejected not_found))) = Null \<and>
   intervals (step four_not_found (PollSettled env0 (JStr ''job-1'') (Rejected not_found)))
     = [\<lparr>tid = 6, delay = 5000, target = JStr ''job-1''\<rparr>] \<and>
   list_all (\<lambda>x. delay x = 5000)
     (intervals (run (step four_not_found (PollSettled env0 (JStr ''job-1'') (Rejected not_found)))
        [IntervalFires 6, PollSettled env0 (JStr ''job-1'') (Rejected not_found),
         PollSettled env0 (JStr ''job-1'') (Fulfilled (JObj [(''status'', JStr ''processing'')]))])) \<and>
   tracked polling_world_App \<and>
   intervals (step_App polling_world_App (PollSettled_App env0 (JStr ''job-1'') (Rejected not_found)))
     = []"
proof -
  note k = job1_key [THEN conjunct1]
  note nm = job1_key [THEN conjunct2]
  note a = not_found_retry_then_slow_poll
    [OF not_found_404 nm, where w = polling_world and v = polling_world_App, unfolded k]
  note b = not_found_retry_then_slow_poll
    [OF not_found_404 nm, where w = four_not_found and v = polling_world_App, unfolded k]
  note a0 = a [THEN conjunct1]
  note a2 = a [THEN conjunct2, THEN conjunct2, THEN conjunct1]
  note a5 = a [THEN conjunct2, THEN conjunct2, THEN conjunct2, THEN conjunct2, THEN conjunct2]
  note b1 = b [THEN conjunct2, THEN conjunct1]
  note b3 = b [THEN conjunct2, THEN conjunct2, THEN conjunct2, THEN conjunct1]
  let ?w1 = "step polling_world (PollSettled env0 (JStr ''job-1'') (Rejected not_found))"
  let ?w5 = "step four_not_found (PollSettled env0 (JStr ''job-1'') (Rejected not_found))"
  have p1: "retryCount ?w1 ''job-1'' = Some (Count 1)"
    using a0 polling_world_refs by (simp only: simp_thms)
  have none: "retryCount polling_world ''job-1'' = None \<or>
              (\<exists>n. retryCount polling_world ''job-1'' = Some (Count n) \<and> n + 1 < 5)"
    using polling_world_refs by simp
  note a2' = a2 [THEN mp, OF none]
  have p3: "timeouts ?w1 = [\<lparr>tid = 2, delay = 2000, target = JStr ''job-1''\<rparr>]"
    using a2' [THEN conjunct1] polling_world_refs by simp
  have fresh: "\<forall>x\<in>set (timeouts polling_world). tid x \<noteq> Suc (nextTimer polling_world)"
    using polling_world_refs by simp
  have p4: "sent (step ?w1 (TimeoutFires 2)) = sent polling_world @ [GetJob (JStr ''job-1'')]"
    using a2' [THEN conjunct2, THEN conjunct2, THEN conjunct2, THEN conjunct2, THEN conjunct2,
        THEN conjunct2, THEN mp, OF fresh, THEN conjunct1] polling_world_refs
    by (simp add: numeral_2_eq_2)
  have q1: "retryCount ?w5 ''job-1'' = Some (Count 5)"
    using b1 [THEN spec, of 4] four_not_found_refs by simp
  have ex: "\<exists>n. retryCount four_not_found ''job-1'' = Some (Count n) \<and> 5 \<le> n + 1"
    using four_not_found_refs by simp
  note b3' = b3 [THEN mp, OF ex]
  have q2: "job ?w5 = map_option (\<lambda>prev. prev\<lparr>status := JStr ''processing'', openAiStatus := JStr ''Finalizing video... (this may take a few more moments)''\<rparr>) (job four_not_found)"
    using b3' [THEN conjunct1] four_not_found_refs by (simp only: simp_thms)
  have q3: "map_option status (job ?w5) = Some (JStr ''processing'')"
    using four_not_found_refs unfolding q2 by (cases "job four_not_found") simp_all
  have q4: "error_state ?w5 = Null"
    using b3' [THEN conjunct2, THEN conjunct2, THEN conjunct1] four_not_found_refs
    by (simp only: simp_thms)
  have q5: "intervals ?w5 = [\<lparr>tid = 6, delay = 5000, target = JStr ''job-1''\<rparr>]"
    using b3' [THEN conjunct2, THEN conjunct2, THEN conjunct2, THEN conjunct2, THEN conjunct1,
        THEN spec, of 1] four_not_found_refs
    by simp
  have q6: "\<forall>x\<in>set (intervals (run ?w5
        [IntervalFires 6, PollSettled env0 (JStr ''job-1'') (Rejected not_found),
         PollSettled env0 (JStr ''job-1'') (Fulfilled (JObj [(''status'', JStr ''processing'')]))])).
        delay x = 5000"
    using b3' [THEN conjunct2, THEN conjunct2, THEN conjunct2, THEN conjunct2, THEN conjunct2,
        THEN conjunct2, THEN mp, OF four_not_found_tracked, THEN spec,
        of "[IntervalFires 6, PollSettled env0 (JStr ''job-1'') (Rejected not_found),
         PollSettled env0 (JStr ''job-1'') (Fulfilled (JObj [(''status'', JStr ''processing'')]))]"]
    by simp
  have q7: "intervals (step_App polling_world_App
               (PollSettled_App env0 (JStr ''job-1'') (Rejected not_found))) = []"
    using a5 polling_world_App_tracked by (simp only: simp_thms)
  from not_found_404 nm polling_world_refs p1 p3 p4 four_not_found_refs four_not_found_tracked
    q1 q3 q4 q5 q6 q7 polling_world_App_tracked
  show ?thesis by (simp only: simp_thms list_all_iff)
qed

text \<open>
  The claim as stated fails in three ways. In the App variant the first 404 of the
  example job stops the recurring timer, schedules no retry and shows an error. In
  part_000, for a job that the server named "constructor", the counter is not a number,
  so after five 404s in a row the timer still has the 2000 ms cadence and the status is
  still "pending". And in part_000 after a polling error with status 500, which nulls
  the handle and leaves timer 1 running, the fifth 404 in a row makes the job
  "processing" but the timer keeps the 2000 ms cadence.
\<close>

theorem not_found_is_not_always_retried:
  "map delay (intervals polling_world_App) = [2000] \<and>
   intervals first_not_found_App = [] \<and> timeouts first_not_found_App = [] \<and>
   error_state first_not_found_App = JStr ''Error: Request failed with status code 404'' \<and>
   retryCount not_found_constructor ''constructor'' = Some NotANumber \<and>
   map delay (intervals not_found_constructor) = [2000] \<and>
   map_option status (job not_found_constructor) = Some (JStr ''pending'') \<and>
   retryCount not_found_after_error ''job-1'' = Some (Count 5) \<and>
   map_option status (job not_found_after_error) = Some (JStr ''processing'') \<and>
   pollingInterval not_found_after_error = None \<and>
   map delay (intervals not_found_after_error) = [2000]"
  by code_simp

section \<open>C2: the derived file name\<close>

text \<open>
  C2, as the source has it. \<open>getVideoFilename\<close> reads nothing but its argument. For
  every prompt it takes the first two white-space separated tokens, joins them with an
  underscore in lower case, replaces (it does not strip) each character outside
  \<^verbatim>\<open>[a-z0-9_]\<close> by an underscore and appends \<^verbatim>\<open>.mp4\<close>; a prompt without tokens gives
  \<^verbatim>\<open>video.mp4\<close>. So "A beautiful sunset" gives \<^verbatim>\<open>a_beautiful.mp4\<close>, the empty prompt
  \<^verbatim>\<open>video.mp4\<close>, and "Hello, World!!" gives \<^verbatim>\<open>hello__world__.mp4\<close>.
\<close>

theorem getVideoFilename_replaces_unsafe:
  "getVideoFilename p = deriveFilename_replacing p \<and>
   getVideoFilename ''A beautiful sunset'' = ''a_beautiful.mp4'' \<and>
   getVideoFilename [] = ''video.mp4'' \<and>
   getVideoFilename ''Hello, World!!'' = ''hello__world__.mp4''"
  using getVideoFilename_eq getVideoFilename_sunset getVideoFilename_empty getVideoFilename_hello
  by simp

text \<open>
  The claim as stated fails on "Hello, World!!": stripping gives \<^verbatim>\<open>hello_world.mp4\<close>,
  the source gives \<^verbatim>\<open>hello__world__.mp4\<close>.
\<close>

theorem getVideoFilename_does_not_strip:
  "deriveFilename ''Hello, World!!'' = ''hello_world.mp4'' \<and>
   getVideoFilename ''Hello, World!!'' = ''hello__world__.mp4'' \<and>
   getVideoFilename ''Hello, World!!'' \<noteq> deriveFilename ''Hello, World!!''"
  using deriveFilename_hello getVideoFilename_hello by simp

section \<open>C3: the merge is additive\<close>

lemma merge_example:
  "status (mergeJob (destructure (JObj [(''progress'', JNum 55)]))
             (prev\<lparr>status := JStr ''processing'', progress := JNum 40\<rparr>)) = JStr ''processing'' \<and>
   progress (mergeJob (destructure (JObj [(''progress'', JNum 55)]))
             (prev\<lparr>status := JStr ''processing'', progress := JNum 40\<rparr>)) = JNum 55"
  by (simp add: merge_fields destructure_def)

lemma merge_App_example:
  "status (mergeJob_App e (destructure (JObj [(''progress'', JNum 55)]))
             (prev\<lparr>status := JStr ''processing'', progress := JNum 40\<rparr>)) = JStr ''processing'' \<and>
   progress (mergeJob_App e (destructure (JObj [(''progress'', JNum 55)]))
             (prev\<lparr>status := JStr ''processing'', progress := JNum 40\<rparr>)) = JNum 55"
  by (simp add: merge_App_fields destructure_def)

text \<open>
  C3. In both variants, when a poll response \<open>d\<close> arrives while a job \<open>prev\<close> exists, the
  job afterwards is \<open>prev\<close> merged field by field with the response: every field the
  response does not carry (it reads as \<open>Undefined\<close>) keeps its previous value, and the
  fields no response carries (id, request parameters, creation time) are never changed.
  Merging \<^verbatim>\<open>{progress: 55}\<close> into a job with status "processing" and progress 40 leaves
  the status "processing" and sets the progress to 55.
\<close>

theorem merge_keeps_absent_fields:
  assumes "d \<noteq> Undefined" "d \<noteq> Null" "job w = Some prev"
  shows
   "(\<exists>j. job (checkJobStatus_settled e jobId (Fulfilled d) w) = Some j \<and>
      j = mergeJob (destructure d) prev \<and>
      (opt_prop d ''status'' = Undefined \<longrightarrow> status j = status prev) \<and>
      (opt_prop d ''progress'' = Undefined \<longrightarrow> progress j = progress prev) \<and>
      (opt_prop d ''error'' = Undefined \<longrightarrow> error j = error prev) \<and>
      (opt_prop d ''openai_status'' = Undefined \<longrightarrow> openAiStatus j = openAiStatus prev) \<and>
      (opt_prop d ''openai_response'' = Undefined \<longrightarrow> openAiResponse j = openAiResponse prev) \<and>
      (opt_prop d ''result'' = Undefined \<longrightarrow> result j = result prev \<and> videoUrl j = videoUrl prev) \<and>
      jid j = jid prev \<and> generationDetails j = generationDetails prev \<and>
      prompt j = prompt prev \<and> duration j = duration prev \<and>
      resolution j = resolution prev \<and> createdAt j = createdAt prev) \<and>
    (\<exists>j. job (poll_settled e jobId (Fulfilled (Some d)) w) = Some j \<and>
      j = mergeJob_App e (destructure d) prev \<and>
      (opt_prop d ''status'' = Undefined \<longrightarrow> status j = status prev) \<and>
      (opt_prop d ''progress'' = Undefined \<longrightarrow> progress j = progress prev) \<and>
      (opt_prop d ''error'' = Undefined \<longrightarrow> error j = error prev) \<and>
      (opt_prop d ''openai_status'' = Undefined \<longrightarrow> openAiStatus j = openAiStatus prev) \<and>
      (opt_prop d ''openai_response'' = Undefined \<longrightarrow> openAiResponse j = openAiResponse prev) \<and>
      (opt_prop d ''result'' = Undefined \<longrightarrow> videoUrl j = videoUrl prev) \<and>
      jid j = jid prev \<and> generationDetails j = generationDetails prev \<and> result j = result prev \<and>
      prompt j = prompt prev \<and> duration j = duration prev \<and>
      resolution j = resolution prev \<and> createdAt j = createdAt prev) \<and>
    status (mergeJob (destructure (JObj [(''progress'', JNum 55)]))
             (prev\<lparr>status := JStr ''processing'', progress := JNum 40\<rparr>)) = JStr ''processing'' \<and>
    progress (mergeJob (destructure (JObj [(''progress'', JNum 55)]))
             (prev\<lparr>status := JStr ''processing'', progress := JNum 40\<rparr>)) = JNum 55 \<and>
    status (mergeJob_App e (destructure (JObj [(''progress'', JNum 55)]))
             (prev\<lparr>status := JStr ''processing'', progress := JNum 40\<rparr>)) = JStr ''processing'' \<and>
    progress (mergeJob_App e (destructure (JObj [(''progress'', JNum 55)]))
             (prev\<lparr>status := JStr ''processing'', progress := JNum 40\<rparr>)) = JNum 55"
proof -
  have a: "\<exists>j. job (checkJobStatus_settled e jobId (Fulfilled d) w) = Some j \<and>
      j = mergeJob (destructure d) prev \<and>
      (opt_prop d ''status'' = Undefined \<longrightarrow> status j = status prev) \<and>
      (opt_prop d ''progress'' = Undefined \<longrightarrow> progress j = progress prev) \<and>
      (opt_prop d ''error'' = Undefined \<longrightarrow> error j = error prev) \<and>
      (opt_prop d ''openai_status'' = Undefined \<longrightarrow> openAiStatus j = openAiStatus prev) \<and>
      (opt_prop d ''openai_response'' = Undefined \<longrightarrow> openAiResponse j = openAiResponse prev) \<and>
      (opt_prop d ''result'' = Undefined \<longrightarrow> result j = result prev \<and> videoUrl j = videoUrl prev) \<and>
      jid j = jid prev \<and> generationDetails j = generationDetails prev \<and>
      prompt j = prompt prev \<and> duration j = duration prev \<and>
      resolution j = resolution prev \<and> createdAt j = createdAt prev"
    using assms
    by (simp add: settled_fulfilled job_checkJobStatus_try merge_fields destructure_def)
  have b: "\<exists>j. job (poll_settled e jobId (Fulfilled (Some d)) w) = Some j \<and>
      j = mergeJob_App e (destructure d) prev \<and>
      (opt_prop d ''status'' = Undefined \<longrightarrow> status j = status prev) \<and>
      (opt_prop d ''progress'' = Undefined \<longrightarrow> progress j = progress prev) \<and>
      (opt_prop d ''error'' = Undefined \<longrightarrow> error j = error prev) \<and>
      (opt_prop d ''openai_status'' = Undefined \<longrightarrow> openAiStatus j = openAiStatus prev) \<and>
      (opt_prop d ''openai_response'' = Undefined \<longrightarrow> openAiResponse j = openAiResponse prev) \<and>
      (opt_prop d ''result'' = Undefined \<longrightarrow> videoUrl j = videoUrl prev) \<and>
      jid j = jid prev \<and> generationDetails j = generationDetails prev \<and> result j = result prev \<and>
      prompt j = prompt prev \<and> duration j = duration prev \<and>
      resolution j = resolution prev \<and> createdAt j = createdAt prev"
    using assms
    by (simp add: poll_settled_fulfilled job_poll_try setJob_App_def merge_App_fields
        destructure_def videoUrl_App_def)
  from a b merge_example [of prev] merge_App_example [of e prev] show ?thesis
    by (intro conjI) blast+
qed

text \<open>
  The theorem at the job of the example state and the response \<^verbatim>\<open>{progress: 55}\<close>: the
  status, absent from the response, is kept.
\<close>

theorem merge_keeps_absent_fields_witness:
  "JObj [(''progress'', JNum 55)] \<noteq> Undefined \<and> JObj [(''progress'', JNum 55)] \<noteq> Null \<and>
   (\<exists>prev. job polling_world = Some prev \<and>
      (\<exists>j. job (checkJobStatus_settled env0 (JStr ''job-1'')
                 (Fulfilled (JObj [(''progress'', JNum 55)])) polling_world) = Some j \<and>
           opt_prop (JObj [(''progress'', JNum 55)]) ''status'' = Undefined \<and>
           status j = status prev \<and> status j = JStr ''pending'' \<and> progress j = JNum 55))"
proof -
  have "map_option status (job polling_world) = Some (JStr ''pending'')"
    by code_simp
  then obtain prev where p: "job polling_world = Some prev" "status prev = JStr ''pending''"
    by (cases "job polling_world") auto
  have nn: "JObj [(''progress'', JNum 55)] \<noteq> Undefined" "JObj [(''progress'', JNum 55)] \<noteq> Null"
    by simp_all
  have ab: "opt_prop (JObj [(''progress'', JNum 55)]) ''status'' = Undefined" by simp
  from merge_keeps_absent_fields [OF nn p(1), where e = env0 and jobId = "JStr ''job-1''"]
  obtain j where j: "job (checkJobStatus_settled env0 (JStr ''job-1'')
                 (Fulfilled (JObj [(''progress'', JNum 55)])) polling_world) = Some j"
     "j = mergeJob (destructure (JObj [(''progress'', JNum 55)])) prev"
     "status j = status prev"
    using ab by blast
  have "progress j = JNum 55" using j(2) by (simp add: merge_fields destructure_def)
  with p j nn ab show ?thesis by simp
qed

section \<open>C4: a terminal status stops the polling\<close>

lemma error_state_clear_if_not_null: "error_state (clear_if_not_null w) = error_state w"
  by (simp add: clear_if_not_null_def clearInterval_def split: option.splits)

lemma error_state_clear_if_truthy: "error_state (clear_if_truthy w) = error_state w"
  by (simp add: clear_if_truthy_def clearInterval_def split: option.splits)

lemma setJob_App_status:
  "truthy (r_status r) \<Longrightarrow>
   \<exists>j. setJob_App e jobId r prev = Some j \<and> status j = r_status r \<and>
     (truthy (opt_prop (r_result r) ''video_url'') \<longrightarrow>
        videoUrl j = opt_prop (r_result r) ''video_url'')"
  by (cases prev)
     (simp_all add: setJob_App_def newJob_App_def merge_App_fields js_or_def videoUrl_App_def)

subsection \<open>Without a timer the App variant sends no status request\<close>

lemma idle_poll_settled: "idle w \<Longrightarrow> idle (poll_settled e jobId outcome w)"
  by (auto simp add: idle_def poll_settled_def poll_catch_def poll_try_def Let_def
      merged_App_frame clear_if_not_null_def clear_if_truthy_def
      split: settled.splits option.splits)

lemma sent_poll_settled: "sent (poll_settled e jobId outcome w) = sent w"
  by (simp add: poll_settled_def poll_catch_def poll_try_def Let_def merged_App_frame
      sent_clear_if_not_null sent_clear_if_truthy split: settled.splits option.splits)

lemma idle_step_App:
  "idle w \<Longrightarrow> \<not> starts_loop_App ev \<Longrightarrow>
   idle (step_App w ev) \<and> polls (sent (step_App w ev)) = polls (sent w)"
proof (cases ev)
  case (CreateSettled_App e vs outcome)
  assume "idle w" "\<not> starts_loop_App ev"
  with CreateSettled_App show ?thesis
    by (cases outcome)
       (auto simp: settle_frame handleGenerate_settled_def handleGenerate_catch_def Let_def
          idle_def)
next
  case (PollSettled_App e jobId outcome)
  assume "idle w"
  then have "idle (poll_settled e jobId outcome w)" by (rule idle_poll_settled)
  with PollSettled_App show ?thesis
    by (simp add: idle_def settle_frame sent_poll_settled)
qed (auto simp: idle_def onSubmit_App_def handleGenerate_call_def Let_def polls_append
      interval_fires_App_def unmount_App_def clear_if_not_null_def)

lemma idle_run_App:
  "idle w \<Longrightarrow> list_all (\<lambda>ev. \<not> starts_loop_App ev) evs \<Longrightarrow>
   idle (run_App w evs) \<and> polls (sent (run_App w evs)) = polls (sent w)"
  unfolding run_App_def
proof (induction evs arbitrary: w)
  case Nil
  then show ?case by simp
next
  case (Cons ev evs)
  from Cons.prems have s: "idle (step_App w ev)" "polls (sent (step_App w ev)) = polls (sent w)"
    using idle_step_App [of w ev] by simp_all
  from Cons.IH [OF s(1)] Cons.prems(2) s(2) show ?case by simp
qed

subsection \<open>The terminal branches\<close>

lemma completed_App:
  assumes "r_status (destructure d) = JStr ''completed''" "tracked w"
  shows "idle (poll_settled e jobId (Fulfilled (Some d)) w)"
    "\<exists>j. job (poll_settled e jobId (Fulfilled (Some d)) w) = Some j \<and>
       status j = JStr ''completed'' \<and>
       (truthy (opt_prop (opt_prop d ''result'') ''video_url'') \<longrightarrow>
          videoUrl j = opt_prop (opt_prop d ''result'') ''video_url'')"
    "showDownloadModal (poll_settled e jobId (Fulfilled (Some d)) w)"
    "\<not> isLoading (poll_settled e jobId (Fulfilled (Some d)) w)"
    "error_state (poll_settled e jobId (Fulfilled (Some d)) w) = error_state w"
proof -
  from assms(1) have nn: "d \<noteq> Undefined" "d \<noteq> Null" using status_not_null by blast+
  have eq: "poll_settled e jobId (Fulfilled (Some d)) w =
     (clear_if_not_null (merged_App e jobId d w))
       \<lparr>isLoading := False, statusEmoji := CheckMark,
        openAiStatus_state := JStr ''Video generation completed successfully!'',
        showDownloadModal := True\<rparr>"
    using nn assms(1) by (simp add: poll_settled_def poll_try_completed)
  from cleared_not_null [OF tracked_merged_App [OF assms(2)], of e jobId d]
  show "idle (poll_settled e jobId (Fulfilled (Some d)) w)"
    by (simp add: eq idle_def)
  have "truthy (r_status (destructure d))" using assms(1) by simp
  from setJob_App_status [OF this, of e jobId "job w"] assms(1)
  show "\<exists>j. job (poll_settled e jobId (Fulfilled (Some d)) w) = Some j \<and>
       status j = JStr ''completed'' \<and>
       (truthy (opt_prop (opt_prop d ''result'') ''video_url'') \<longrightarrow>
          videoUrl j = opt_prop (opt_prop d ''result'') ''video_url'')"
    by (simp add: eq job_clear_if_not_null merged_App_frame destructure_def)
  show "showDownloadModal (poll_settled e jobId (Fulfilled (Some d)) w)"
    "\<not> isLoading (poll_settled e jobId (Fulfilled (Some d)) w)"
    "error_state (poll_settled e jobId (Fulfilled (Some d)) w) = error_state w"
    by (simp_all add: eq error_state_clear_if_not_null merged_App_frame)
qed

lemma failed_App:
  assumes "r_status (destructure d) = JStr ''failed''" "tracked w"
  shows "idle (poll_settled e jobId (Fulfilled (Some d)) w)"
    "\<exists>j. job (poll_settled e jobId (Fulfilled (Some d)) w) = Some j \<and> status j = JStr ''failed''"
    "\<not> isLoading (poll_settled e jobId (Fulfilled (Some d)) w)"
    "error_state (poll_settled e jobId (Fulfilled (Some d)) w) =
       js_or (opt_prop d ''error'') (JStr ''Video generation failed'')"
proof -
  from assms(1) have nn: "d \<noteq> Undefined" "d \<noteq> Null" using status_not_null by blast+
  have eq: "poll_settled e jobId (Fulfilled (Some d)) w =
     (clear_if_not_null (merged_App e jobId d w))
       \<lparr>isLoading := False, statusEmoji := CrossMark,
        error_state := js_or (r_error (destructure d)) (JStr ''Video generation failed''),
        openAiStatus_state :=
          JStr (''Error: '' @ toString e
                  (js_or (r_error (destructure d)) (JStr ''Video generation failed'')))\<rparr>"
    using nn assms(1) by (simp add: poll_settled_def poll_try_failed)
  from cleared_not_null [OF tracked_merged_App [OF assms(2)], of e jobId d]
  show "idle (poll_settled e jobId (Fulfilled (Some d)) w)"
    by (simp add: eq idle_def)
  have "truthy (r_status (destructure d))" using assms(1) by simp
  from setJob_App_status [OF this, of e jobId "job w"] assms(1)
  show "\<exists>j. job (poll_settled e jobId (Fulfilled (Some d)) w) = Some j \<and> status j = JStr ''failed''"
    by (auto simp add: eq job_clear_if_not_null merged_App_frame)
  show "\<not> isLoading (poll_settled e jobId (Fulfilled (Some d)) w)"
    "error_state (poll_settled e jobId (Fulfilled (Some d)) w) =
       js_or (opt_prop d ''error'') (JStr ''Video generation failed'')"
    by (simp_all add: eq destructure_def)
qed

text \<open>
  In the App variant, in every state the component can reach, a poll response whose
  status is "completed" or "failed" clears the recurring timer and the handle, and no
  status request is sent afterwards, whatever happens, until a create response starts a
  new poll loop.
\<close>

lemma App_terminal_status_stops_polling:
  assumes "r_status (destructure d) = JStr ''completed'' \<or> r_status (destructure d) = JStr ''failed''"
    and "list_all (\<lambda>ev. \<not> starts_loop_App ev) evs'"
  shows "intervals (run_App (step_App (run_App initial_world evs)
                      (PollSettled_App e jobId (Fulfilled (Some d)))) evs') = []"
    "polls (sent (run_App (step_App (run_App initial_world evs)
                      (PollSettled_App e jobId (Fulfilled (Some d)))) evs'))
       = polls (sent (run_App initial_world evs))"
proof -
  have t: "tracked (run_App initial_world evs)"
    by (rule tracked_run_App [OF tracked_initial])
  have "idle (poll_settled e jobId (Fulfilled (Some d)) (run_App initial_world evs))"
    using assms(1) completed_App(1) [OF _ t] failed_App(1) [OF _ t] by blast
  then have i: "idle (step_App (run_App initial_world evs) (PollSettled_App e jobId (Fulfilled (Some d))))"
    by (simp add: idle_def settle_frame)
  from idle_run_App [OF i assms(2)]
  show "intervals (run_App (step_App (run_App initial_world evs)
                      (PollSettled_App e jobId (Fulfilled (Some d)))) evs') = []"
    "polls (sent (run_App (step_App (run_App initial_world evs)
                      (PollSettled_App e jobId (Fulfilled (Some d)))) evs'))
       = polls (sent (run_App initial_world evs))"
    by (simp_all add: idle_def settle_frame sent_poll_settled)
qed

text \<open>
  C4, at the failing inputs. part_000 polls the job "job-1" with the recurring timer 1.
  First input: a tick is answered with 404, which schedules the one-off retry 2, and the
  next tick is answered with the completed job. The job gets the status "completed" and
  the video URL, the download dialog opens and timer 1 is cleared, but the retry is not
  cancelled: it fires and sends a third status request after the terminal status. The
  same happens with the status "failed", whose default error message is shown. Second
  input: a tick is answered with a status 500, which nulls the handle and leaves timer 1
  running, and the next tick with the completed job: nothing is cleared and timer 1
  goes on polling. The App variant, where a tick is answered with the completed job,
  has no timer left and sends nothing when the old timer id fires.
\<close>

theorem terminal_status_leaves_polls_running:
  "map_option status (job completed_before_retry) = Some (JStr ''completed'') \<and>
   map_option videoUrl (job completed_before_retry) = Some (JStr ''https://x/y.mp4'') \<and>
   showDownloadModal completed_before_retry \<and>
   intervals completed_before_retry = [] \<and> pollingInterval completed_before_retry = None \<and>
   timeouts completed_before_retry = [\<lparr>tid = 2, delay = 2000, target = JStr ''job-1''\<rparr>] \<and>
   polls (sent completed_before_retry) = [JStr ''job-1'', JStr ''job-1''] \<and>
   polls (sent (run completed_before_retry [TimeoutFires 2]))
     = [JStr ''job-1'', JStr ''job-1'', JStr ''job-1''] \<and>
   map_option status (job failed_before_retry) = Some (JStr ''failed'') \<and>
   error_state failed_before_retry = JStr ''Video generation failed'' \<and>
   intervals failed_before_retry = [] \<and>
   polls (sent (run failed_before_retry [TimeoutFires 2]))
     = [JStr ''job-1'', JStr ''job-1'', JStr ''job-1''] \<and>
   map_option status (job completed_after_error) = Some (JStr ''completed'') \<and>
   showDownloadModal completed_after_error \<and>
   pollingInterval completed_after_error = None \<and>
   intervals completed_after_error = [\<lparr>tid = 1, delay = 2000, target = JStr ''job-1''\<rparr>] \<and>
   polls (sent completed_after_error) = [JStr ''job-1'', JStr ''job-1''] \<and>
   polls (sent (run completed_after_error [IntervalFires 1]))
     = [JStr ''job-1'', JStr ''job-1'', JStr ''job-1''] \<and>
   map_option status (job completed_tick_App) = Some (JStr ''completed'') \<and>
   map_option videoUrl (job completed_tick_App) = Some (JStr ''https://x/y.mp4'') \<and>
   showDownloadModal completed_tick_App \<and>
   intervals completed_tick_App = [] \<and> timeouts completed_tick_App = [] \<and>
   pollingInterval completed_tick_App = None \<and>
   polls (sent completed_tick_App) = [JStr ''job-1'', JStr ''job-1''] \<and>
   polls (sent (run_App completed_tick_App [IntervalFires_App 1]))
     = [JStr ''job-1'', JStr ''job-1'']"
  by code_simp
section \<open>C5: one recurring timer\<close>

lemma one_timer_App: "length (intervals (run_App initial_world evs)) \<le> 1"
proof -
  have "tracked (run_App initial_world evs)"
    by (rule tracked_run_App [OF tracked_initial])
  then show ?thesis unfolding tracked_def by (rule tracks_length)
qed

lemma resubmitted_timers:
  "intervals polling_world = [\<lparr>tid = 1, delay = 2000, target = JStr ''job-1''\<rparr>] \<and>
   intervals submitted_twice = [\<lparr>tid = 2, delay = 2000, target = JStr ''job-1''\<rparr>] \<and>
   intervals after_server_error = [\<lparr>tid = 1, delay = 2000, target = JStr ''job-1''\<rparr>] \<and>
   pollingInterval after_server_error = None \<and>
   intervals resubmitted_after_error =
     [\<lparr>tid = 1, delay = 2000, target = JStr ''job-1''\<rparr>,
      \<lparr>tid = 2, delay = 2000, target = JStr ''job-1''\<rparr>] \<and>
   pollingInterval resubmitted_after_error = Some 2"
  by code_simp

lemma resubmitted_polls:
  "polls (sent resubmitted_after_error) = [JStr ''job-1''] \<and>
   polls (sent (run resubmitted_after_error [IntervalFires 1, IntervalFires 2]))
     = [JStr ''job-1'', JStr ''job-1'', JStr ''job-1'']"
  by code_simp

lemma resubmitted_App_timers:
  "intervals resubmitted_after_error_App = [\<lparr>tid = 2, delay = 2000, target = JStr ''job-1''\<rparr>] \<and>
   pollingInterval resubmitted_after_error_App = Some 2"
  by code_simp

text \<open>
  C5, at the failing input. Every start of a poll loop, in both variants, removes the
  timer that the handle names before it sets the new one, and the App variant has at most
  one recurring timer in every state it can reach. In part_000 a second submission while
  "job-1" is polled leaves the one timer 2. But when a tick was answered with a status
  500, which nulls the handle and leaves timer 1 running, the start that follows a second
  submission has no handle to cancel: two recurring timers of 2000 ms are then active
  for "job-1", and both fire and poll it. The App variant at the same input has the one
  timer 2.
\<close>

theorem resubmission_after_error_leaves_two_timers:
  "intervals (startJobPolling e jobId ij fv v) =
     without_handle v @ [\<lparr>tid = Suc (nextTimer v), delay = 2000, target = jobId\<rparr>] \<and>
   intervals (startJobPolling_App jobId v) =
     without_handle v @ [\<lparr>tid = Suc (nextTimer v), delay = 2000, target = jobId\<rparr>] \<and>
   length (intervals (run_App initial_world evs)) \<le> 1 \<and>
   intervals polling_world = [\<lparr>tid = 1, delay = 2000, target = JStr ''job-1''\<rparr>] \<and>
   intervals submitted_twice = [\<lparr>tid = 2, delay = 2000, target = JStr ''job-1''\<rparr>] \<and>
   intervals after_server_error = [\<lparr>tid = 1, delay = 2000, target = JStr ''job-1''\<rparr>] \<and>
   pollingInterval after_server_error = None \<and>
   intervals resubmitted_after_error =
     [\<lparr>tid = 1, delay = 2000, target = JStr ''job-1''\<rparr>,
      \<lparr>tid = 2, delay = 2000, target = JStr ''job-1''\<rparr>] \<and>
   pollingInterval resubmitted_after_error = Some 2 \<and>
   polls (sent resubmitted_after_error) = [JStr ''job-1''] \<and>
   polls (sent (run resubmitted_after_error [IntervalFires 1, IntervalFires 2]))
     = [JStr ''job-1'', JStr ''job-1'', JStr ''job-1''] \<and>
   intervals resubmitted_after_error_App = [\<lparr>tid = 2, delay = 2000, target = JStr ''job-1''\<rparr>] \<and>
   pollingInterval resubmitted_after_error_App = Some 2"
proof -
  note a = start_cancels_first [of e jobId ij fv v, THEN conjunct1]
  note b = start_App_cancels_first [of jobId v, THEN conjunct1]
  from a b one_timer_App [of evs] resubmitted_timers resubmitted_polls resubmitted_App_timers
  show ?thesis by (simp only: simp_thms)
qed

section \<open>C6: a polling error other than not-found\<close>

lemma settled_rejected_other:
  "map_option fst (response err) \<noteq> Some 404 \<Longrightarrow>
   checkJobStatus_settled e jobId (Rejected err) w =
     w\<lparr>job := map_option (record_error err) (job w), pollingInterval := None,
       isLoading := False\<rparr>"
  by (simp add: checkJobStatus_settled_def catch_other)

text \<open>
  In part_000 every polling error other than a 404 records its message on the job and
  leaves the job's status alone, and it sets the handle to null; the browser's timers are
  not touched.
\<close>

lemma other_error_keeps_timers:
  assumes "map_option fst (response err) \<noteq> Some 404"
  shows "intervals (checkJobStatus_settled e jobId (Rejected err) w) = intervals w \<and>
         pollingInterval (checkJobStatus_settled e jobId (Rejected err) w) = None \<and>
         map_option status (job (checkJobStatus_settled e jobId (Rejected err) w))
           = map_option status (job w) \<and>
         map_option error (job (checkJobStatus_settled e jobId (Rejected err) w))
           = map_option (\<lambda>prev. js_or (message err) (JStr ''Failed to check job status'')) (job w)"
  using assms
  by (cases "job w") (simp_all add: settled_rejected_other record_error_def)

lemma polling_world_timer:
  "intervals polling_world = [\<lparr>tid = 1, delay = 2000, target = JStr ''job-1''\<rparr>] \<and>
   pollingInterval polling_world = Some 1"
  by code_simp

lemma server_error_other: "map_option fst (response server_error) \<noteq> Some 404"
  by (simp add: server_error_def)

lemma after_server_error:
  "intervals (checkJobStatus_settled env0 (JStr ''job-1'') (Rejected server_error) polling_world)
     = [\<lparr>tid = 1, delay = 2000, target = JStr ''job-1''\<rparr>] \<and>
   pollingInterval (checkJobStatus_settled env0 (JStr ''job-1'') (Rejected server_error) polling_world)
     = None \<and>
   map_option error
     (job (checkJobStatus_settled env0 (JStr ''job-1'') (Rejected server_error) polling_world))
     = Some (JStr ''Request failed with status code 500'') \<and>
   map_option status
     (job (checkJobStatus_settled env0 (JStr ''job-1'') (Rejected server_error) polling_world))
     = Some (JStr ''pending'')"
  by code_simp

lemma timer_fires_after_server_error:
  "polls (sent (run polling_world
       [PollSettled env0 (JStr ''job-1'') (Rejected server_error), IntervalFires 1, Unmount,
        IntervalFires 1]))
   = [JStr ''job-1'', JStr ''job-1'']"
  by code_simp

lemma App_clears_on_server_error:
  "intervals (poll_settled env0 (JStr ''job-1'') (Rejected server_error) polling_world_App) = [] \<and>
   pollingInterval (poll_settled env0 (JStr ''job-1'') (Rejected server_error) polling_world_App)
     = None"
  by code_simp

text \<open>
  C6, at the failing input. part_000 polls job "job-1" with the recurring timer 1 and the
  poll fails with status 500. The message is recorded on the job and the status stays
  "pending", but the recurring timer is not stopped: the handle is set to null without
  \<^verbatim>\<open>clearInterval\<close>, so timer 1 stays active, fires again and sends further status
  requests, also after the component's cleanup, which no longer knows the timer. The catch
  block of the App variant clears the timer at the same input.
\<close>

theorem other_poll_error_leaves_timer_running:
  "intervals polling_world = [\<lparr>tid = 1, delay = 2000, target = JStr ''job-1''\<rparr>] \<and>
   pollingInterval polling_world = Some 1 \<and>
   intervals (checkJobStatus_settled env0 (JStr ''job-1'') (Rejected server_error) polling_world)
     = [\<lparr>tid = 1, delay = 2000, target = JStr ''job-1''\<rparr>] \<and>
   pollingInterval (checkJobStatus_settled env0 (JStr ''job-1'') (Rejected server_error) polling_world)
     = None \<and>
   map_option error
     (job (checkJobStatus_settled env0 (JStr ''job-1'') (Rejected server_error) polling_world))
     = Some (JStr ''Request failed with status code 500'') \<and>
   map_option status
     (job (checkJobStatus_settled env0 (JStr ''job-1'') (Rejected server_error) polling_world))
     = Some (JStr ''pending'') \<and>
   polls (sent (run polling_world
       [PollSettled env0 (JStr ''job-1'') (Rejected server_error), IntervalFires 1, Unmount,
        IntervalFires 1]))
     = [JStr ''job-1'', JStr ''job-1''] \<and>
   intervals (poll_settled env0 (JStr ''job-1'') (Rejected server_error) polling_world_App) = [] \<and>
   pollingInterval (poll_settled env0 (JStr ''job-1'') (Rejected server_error) polling_world_App)
     = None"
  using polling_world_timer after_server_error timer_fires_after_server_error
    App_clears_on_server_error
  by simp

section \<open>C7: validation before submission\<close>

lemma trim_empty_iff: "trim s = [] \<longleftrightarrow> list_all isWhiteSpace s"
proof
  assume "trim s = []"
  then have "dropWhile isWhiteSpace (rev (dropWhile isWhiteSpace s)) = []"
    by (simp add: trim_def)
  then have all: "\<forall>x \<in> set (dropWhile isWhiteSpace s). isWhiteSpace x"
    by (simp add: dropWhile_eq_Nil_conv)
  have "dropWhile isWhiteSpace s = []"
  proof (rule ccontr)
    assume ne: "dropWhile isWhiteSpace s \<noteq> []"
    then have "\<not> isWhiteSpace (hd (dropWhile isWhiteSpace s))" by (rule hd_dropWhile)
    moreover from ne have "hd (dropWhile isWhiteSpace s) \<in> set (dropWhile isWhiteSpace s)"
      by simp
    ultimately show False using all by blast
  qed
  then show "list_all isWhiteSpace s"
    by (simp add: dropWhile_eq_Nil_conv list_all_iff)
next
  assume "list_all isWhiteSpace s"
  then show "trim s = []"
    by (auto simp: trim_def list_all_iff dropWhile_eq_Nil_conv dest: set_dropWhileD)
qed

lemma resolution_listed:
  "list_ex (\<lambda>res. fst res = v) supportedResolutions \<longleftrightarrow> v \<in> fst ` set supportedResolutions"
  by (force simp: list_ex_iff)

lemma validate_empty_iff:
  "validate v = [] \<longleftrightarrow>
     \<not> list_all isWhiteSpace (fv_prompt v) \<and> 1 \<le> fv_duration v \<and> fv_duration v \<le> 10 \<and>
     fv_resolution v \<in> fst ` set supportedResolutions"
  by (auto simp: validate_def field_error_def validate_prompt_def validate_duration_def
      validate_resolution_def Let_def trim_empty_iff MIN_VIDEO_DURATION_def
      MAX_VIDEO_DURATION_def resolution_listed split: option.splits if_splits)

lemma validate_App_empty_iff:
  "validate_App v = [] \<longleftrightarrow>
     \<not> list_all isWhiteSpace (fv_prompt v) \<and> 1 \<le> fv_duration v \<and> fv_duration v \<le> 10"
  by (auto simp: validate_App_def field_error_def validate_prompt_def validate_duration_def
      Let_def trim_empty_iff MIN_VIDEO_DURATION_def
      MAX_VIDEO_DURATION_def split: option.splits if_splits)

lemma onSubmit_rejected:
  "validate (form w) \<noteq> [] \<Longrightarrow> onSubmit e w = w\<lparr>formErrors := validate (form w)\<rparr>"
  by (simp add: onSubmit_def Let_def)

lemma onSubmit_accepted:
  "validate (form w) = [] \<Longrightarrow>
   sent (onSubmit e w) =
     sent w @ [PostGenerate (fv_prompt (form w)) (fv_resolution (form w)) (fv_duration (form w))]"
  by (simp add: onSubmit_def Let_def handleSubmit_call_def)

lemma onSubmit_App_rejected:
  "validate_App (form w) \<noteq> [] \<Longrightarrow> onSubmit_App w = w\<lparr>formErrors := validate_App (form w)\<rparr>"
  by (simp add: onSubmit_App_def Let_def)

text \<open>No handler of the App variant writes the form; its select offers the listed values only.\<close>

lemma form_clear_if_not_null: "form (clear_if_not_null w) = form w"
  by (simp add: clear_if_not_null_def clearInterval_def split: option.splits)

lemma form_clear_if_truthy: "form (clear_if_truthy w) = form w"
  by (simp add: clear_if_truthy_def clearInterval_def split: option.splits)

lemma form_poll_settled: "form (poll_settled e jobId outcome w) = form w"
  by (simp add: poll_settled_def poll_catch_def poll_try_def Let_def form_clear_if_not_null
      form_clear_if_truthy merged_App_frame split: settled.splits option.splits)

lemma form_startJobPolling_App: "form (startJobPolling_App jobId w) = form w"
  by (simp add: startJobPolling_App_def Let_def setInterval_def poll_call_def form_clear_if_not_null)

lemma form_handleGenerate_settled: "form (handleGenerate_settled e vs outcome w) = form w"
  by (simp add: handleGenerate_settled_def handleGenerate_catch_def Let_def
      form_startJobPolling_App split: settled.splits)

lemma form_settle: "form (handler w) = form w \<Longrightarrow> form (settle handler w) = form w"
  by (simp add: settle_def frozen_def)

lemma resolution_step_App:
  "fv_resolution (form w) \<in> fst ` set supportedResolutions_App \<Longrightarrow>
   fv_resolution (form (step_App w ev)) \<in> fst ` set supportedResolutions_App"
  by (cases ev)
     (auto simp: form_settle form_poll_settled form_handleGenerate_settled onSubmit_App_def
        Let_def handleGenerate_call_def interval_fires_App_def poll_call_def unmount_App_def
        form_clear_if_not_null split: option.splits)

lemma resolution_run_App:
  "fv_resolution (form w) \<in> fst ` set supportedResolutions_App \<Longrightarrow>
   fv_resolution (form (run_App w evs)) \<in> fst ` set supportedResolutions_App"
  unfolding run_App_def by (induction evs arbitrary: w) (simp_all add: resolution_step_App)

lemma resolution_initial: "fv_resolution (form initial_world) \<in> fst ` set supportedResolutions_App"
  by (simp add: initial_world_def supportedResolutions_App_def)

text \<open>
  C7. In part_000, submitting a form whose prompt is empty or white space only, whose
  duration is below 1 or above 10, or whose resolution is not a value of
  \<open>supportedResolutions\<close> (such as "999x999") records validation errors and does nothing
  else: the handler is not called and no request is sent. With a prompt that is not
  blank and a listed resolution, the durations 1 and 10 pass and the create request is
  sent. The App variant rejects a blank prompt and a duration out of range in the same
  way; it has no rule for the resolution, and its form never holds a resolution outside
  its own list.
\<close>

theorem validation_fails_closed:
  "((list_all isWhiteSpace (fv_prompt (form w)) \<or> fv_duration (form w) < 1 \<or>
     10 < fv_duration (form w) \<or> fv_resolution (form w) \<notin> fst ` set supportedResolutions) \<longrightarrow>
      validate (form w) \<noteq> [] \<and> onSubmit e w = w\<lparr>formErrors := validate (form w)\<rparr> \<and>
      sent (onSubmit e w) = sent w) \<and>
   ((\<not> list_all isWhiteSpace (fv_prompt (form w)) \<and>
     (fv_duration (form w) = 1 \<or> fv_duration (form w) = 10) \<and>
     fv_resolution (form w) \<in> fst ` set supportedResolutions) \<longrightarrow>
      validate (form w) = [] \<and>
      sent (onSubmit e w) =
        sent w @ [PostGenerate (fv_prompt (form w)) (fv_resolution (form w)) (fv_duration (form w))]) \<and>
   ''999x999'' \<notin> fst ` set supportedResolutions \<and>
   ((list_all isWhiteSpace (fv_prompt (form w)) \<or> fv_duration (form w) < 1 \<or>
     10 < fv_duration (form w)) \<longrightarrow>
      validate_App (form w) \<noteq> [] \<and> onSubmit_App w = w\<lparr>formErrors := validate_App (form w)\<rparr> \<and>
      sent (onSubmit_App w) = sent w) \<and>
   fv_resolution (form (run_App initial_world evs)) \<in> fst ` set supportedResolutions_App \<and>
   ''999x999'' \<notin> fst ` set supportedResolutions_App"
proof (intro conjI impI)
  assume bad: "list_all isWhiteSpace (fv_prompt (form w)) \<or> fv_duration (form w) < 1 \<or>
     10 < fv_duration (form w) \<or> fv_resolution (form w) \<notin> fst ` set supportedResolutions"
  then show v: "validate (form w) \<noteq> []" by (auto simp: validate_empty_iff)
  then show "onSubmit e w = w\<lparr>formErrors := validate (form w)\<rparr>" by (rule onSubmit_rejected)
  then show "sent (onSubmit e w) = sent w" by simp
next
  assume ok: "\<not> list_all isWhiteSpace (fv_prompt (form w)) \<and>
     (fv_duration (form w) = 1 \<or> fv_duration (form w) = 10) \<and>
     fv_resolution (form w) \<in> fst ` set supportedResolutions"
  then show v: "validate (form w) = []" by (auto simp: validate_empty_iff)
  then show "sent (onSubmit e w) =
        sent w @ [PostGenerate (fv_prompt (form w)) (fv_resolution (form w)) (fv_duration (form w))]"
    by (rule onSubmit_accepted)
next
  show "''999x999'' \<notin> fst ` set supportedResolutions"
    by (simp add: supportedResolutions_def)
next
  assume bad: "list_all isWhiteSpace (fv_prompt (form w)) \<or> fv_duration (form w) < 1 \<or>
     10 < fv_duration (form w)"
  then show v: "validate_App (form w) \<noteq> []" by (auto simp: validate_App_empty_iff)
  then show "onSubmit_App w = w\<lparr>formErrors := validate_App (form w)\<rparr>" by (rule onSubmit_App_rejected)
  then show "sent (onSubmit_App w) = sent w" by simp
next
  show "fv_resolution (form (run_App initial_world evs)) \<in> fst ` set supportedResolutions_App"
    by (rule resolution_run_App [OF resolution_initial])
next
  show "''999x999'' \<notin> fst ` set supportedResolutions_App"
    by (simp add: supportedResolutions_App_def)
qed

lemma blank_prompt_initial: "list_all isWhiteSpace (fv_prompt (form initial_world))"
  by (simp add: initial_world_def)

lemma ten_seconds_valid:
  "\<not> list_all isWhiteSpace (fv_prompt (form ten_seconds)) \<and>
   fv_duration (form ten_seconds) = 10 \<and>
   fv_resolution (form ten_seconds) \<in> fst ` set supportedResolutions"
  by (simp add: ten_seconds_def mounted_initial example_values_def supportedResolutions_def
      isWhiteSpace_def)

theorem validation_fails_closed_witness:
  "list_all isWhiteSpace (fv_prompt (form initial_world)) \<and>
   validate (form initial_world) \<noteq> [] \<and>
   onSubmit env0 initial_world = initial_world\<lparr>formErrors := validate (form initial_world)\<rparr> \<and>
   sent (onSubmit env0 initial_world) = sent initial_world \<and>
   validate_App (form initial_world) \<noteq> [] \<and>
   sent (onSubmit_App initial_world) = sent initial_world \<and>
   \<not> list_all isWhiteSpace (fv_prompt (form ten_seconds)) \<and>
   fv_duration (form ten_seconds) = 10 \<and>
   fv_resolution (form ten_seconds) \<in> fst ` set supportedResolutions \<and>
   validate (form ten_seconds) = [] \<and>
   sent (onSubmit env0 ten_seconds) =
     sent ten_seconds @ [PostGenerate ''cat on a skateboard'' ''854x480'' 10]"
proof -
  note a = validation_fails_closed [of initial_world env0 "[]"]
  note b = validation_fails_closed [of ten_seconds env0 "[]"]
  have p: "PostGenerate (fv_prompt (form ten_seconds)) (fv_resolution (form ten_seconds))
             (fv_duration (form ten_seconds)) = PostGenerate ''cat on a skateboard'' ''854x480'' 10"
    by (simp add: ten_seconds_def mounted_initial example_values_def)
  from a blank_prompt_initial have
    "validate (form initial_world) \<noteq> []"
    "onSubmit env0 initial_world = initial_world\<lparr>formErrors := validate (form initial_world)\<rparr>"
    "sent (onSubmit env0 initial_world) = sent initial_world"
    "validate_App (form initial_world) \<noteq> []"
    "sent (onSubmit_App initial_world) = sent initial_world"
    by blast+
  moreover from b ten_seconds_valid have
    "validate (form ten_seconds) = []"
    "sent (onSubmit env0 ten_seconds) =
       sent ten_seconds @ [PostGenerate (fv_prompt (form ten_seconds))
         (fv_resolution (form ten_seconds)) (fv_duration (form ten_seconds))]"
    by blast+
  ultimately show ?thesis
    using blank_prompt_initial ten_seconds_valid p by (simp only: simp_thms)
qed

section \<open>C8: the create response\<close>

lemma job_startJobPolling:
  "\<exists>j. job (startJobPolling e jobId ij fv w) = Some j \<and> jid j = jobId \<and>
       status j = JStr ''pending'' \<and> openAiStatus j = openAiStatus ij"
  by (simp add: startJobPolling_def Let_def setInterval_def split: prod.splits)

lemma job_startJobPolling_App: "job (startJobPolling_App jobId w) = job w"
  by (simp add: startJobPolling_App_def Let_def setInterval_def poll_call_def
      job_clear_if_not_null)

lemma sent_startJobPolling_App: "sent (startJobPolling_App jobId w) = sent w @ [GetJob jobId]"
  by (simp add: startJobPolling_App_def Let_def setInterval_def poll_call_def
      sent_clear_if_not_null)

lemma nextTimer_update:
  "nextTimer (w\<lparr>job := j, openAiStatus_state := s\<rparr>) = nextTimer w"
  "without_handle (w\<lparr>job := j, openAiStatus_state := s\<rparr>) = without_handle w"
  by (simp_all add: without_handle_def split: option.splits)

lemma created_App:
  assumes "truthy body \<and> truthy (opt_prop body ''id'')"
  shows "\<exists>j. job (handleGenerate_settled e vs (Fulfilled body) w) = Some j \<and>
            jid j = opt_prop body ''id'' \<and> status j = JStr ''pending''"
    "intervals (handleGenerate_settled e vs (Fulfilled body) w) =
       without_handle w @ [\<lparr>tid = Suc (nextTimer w), delay = 2000, target = opt_prop body ''id''\<rparr>]"
    "pollingInterval (handleGenerate_settled e vs (Fulfilled body) w) = Some (Suc (nextTimer w))"
    "sent (handleGenerate_settled e vs (Fulfilled body) w) = sent w @ [GetJob (opt_prop body ''id'')]"
  using assms
  by (simp_all add: handleGenerate_settled_def job_startJobPolling_App createdJob_App_def
      start_App_cancels_first sent_startJobPolling_App nextTimer_update)

lemma created_part_000:
  assumes "truthy body \<and> truthy (opt_prop body ''id'')"
  shows "\<exists>j. job (handleSubmit_settled e0 e vs (Fulfilled body) w) = Some j \<and>
            jid j = opt_prop body ''id'' \<and> status j = JStr ''pending''"
    "intervals (handleSubmit_settled e0 e vs (Fulfilled body) w) =
       without_handle w @ [\<lparr>tid = Suc (nextTimer w), delay = 2000, target = opt_prop body ''id''\<rparr>]"
    "pollingInterval (handleSubmit_settled e0 e vs (Fulfilled body) w) = Some (Suc (nextTimer w))"
proof -
  have eq: "handleSubmit_settled e0 e vs (Fulfilled body) w =
      startJobPolling e (opt_prop body ''id'')
        ((initialJob e0 vs)
           \<lparr>openAiStatus := JStr ''Request received. Processing video generation...''\<rparr>) vs w"
    using assms by (simp add: handleSubmit_settled_def)
  from job_startJobPolling
    [of e "opt_prop body ''id''"
       "(initialJob e0 vs)\<lparr>openAiStatus := JStr ''Request received. Processing video generation...''\<rparr>" vs w]
  show "\<exists>j. job (handleSubmit_settled e0 e vs (Fulfilled body) w) = Some j \<and>
            jid j = opt_prop body ''id'' \<and> status j = JStr ''pending''"
    unfolding eq by blast
  show "intervals (handleSubmit_settled e0 e vs (Fulfilled body) w) =
       without_handle w @ [\<lparr>tid = Suc (nextTimer w), delay = 2000, target = opt_prop body ''id''\<rparr>]"
    "pollingInterval (handleSubmit_settled e0 e vs (Fulfilled body) w) = Some (Suc (nextTimer w))"
    unfolding eq by (simp_all add: start_cancels_first)
qed

lemma failed_create_App:
  "create_failure outcome = Some err \<Longrightarrow>
   handleGenerate_settled e vs outcome w =
     w\<lparr>error_state := JStr (''Error: '' @ toString e (submit_errorMsg err)), isLoading := False,
       statusEmoji := CrossMark\<rparr>"
  by (cases outcome)
     (auto simp: handleGenerate_settled_def handleGenerate_catch_def Let_def split: if_splits)

lemma failed_create_part_000:
  "create_failure outcome = Some err \<Longrightarrow>
   handleSubmit_settled e0 e vs outcome w =
     w\<lparr>error_state := submit_errorMsg err, statusEmoji := CrossMark, isLoading := False,
       job := map_option (annotate_error e (submit_errorMsg err)) (job w)\<rparr>"
  by (cases outcome)
     (auto simp: handleSubmit_settled_def handleSubmit_catch_def Let_def split: if_splits)

lemma failed_submission_part_000:
  assumes "create_failure outcome = Some err"
  shows "job (handleSubmit_settled e0 e vs outcome (handleSubmit_call e0 vs w)) =
           Some ((initialJob e0 vs)
                   \<lparr>openAiStatus := JStr (''Error: '' @ toString e (submit_errorMsg err))\<rparr>)"
  by (simp add: failed_create_part_000 [OF assms] handleSubmit_call_def annotate_error_def)

lemma create_failed_values:
  "map_option status (job create_failed) = Some (JStr ''pending'') \<and>
   map_option prompt (job create_failed) = Some (JStr ''cat on a skateboard'') \<and>
   error_state create_failed = JStr ''Network Error'' \<and>
   \<not> isLoading create_failed \<and> intervals create_failed = [] \<and>
   polls (sent create_failed) = []"
  by code_simp

lemma create_failed_App_values:
  "map_option status (job create_failed_App) = None \<and>
   error_state create_failed_App = JStr ''Error: Network Error'' \<and>
   \<not> isLoading create_failed_App \<and> intervals create_failed_App = [] \<and>
   polls (sent create_failed_App) = [] \<and>
   fv_prompt (form create_failed_App) = ''cat on a skateboard''"
  by code_simp

text \<open>
  C8, as the source has it. On a create response that carries a job id both variants set
  a job with that id and status "pending" and start the poll loop: the handle's old timer
  is removed and a recurring timer of 2000 ms for the id is set (the App variant also
  sends the first status request at once). On a rejected create request or a response
  without an id, the error is shown (error state set, loading flag cleared, cross mark)
  and no timer is touched; the job is not marked failed. In part_000 the provisional job
  keeps status "pending" and the captured prompt, duration and resolution, and gets the
  diagnostic "Error: ..."; in the App variant no job is created or changed and the form
  keeps its values.
\<close>

theorem create_response_starts_polling_or_shows_error:
  "(truthy body \<and> truthy (opt_prop body ''id'') \<longrightarrow>
      (let w' = handleGenerate_settled e vs (Fulfilled body) w
       in (\<exists>j. job w' = Some j \<and> jid j = opt_prop body ''id'' \<and> status j = JStr ''pending'') \<and>
          intervals w' = without_handle w
             @ [\<lparr>tid = Suc (nextTimer w), delay = 2000, target = opt_prop body ''id''\<rparr>] \<and>
          pollingInterval w' = Some (Suc (nextTimer w)) \<and>
          sent w' = sent w @ [GetJob (opt_prop body ''id'')]) \<and>
      (let v' = handleSubmit_settled e0 e vs (Fulfilled body) v
       in (\<exists>j. job v' = Some j \<and> jid j = opt_prop body ''id'' \<and> status j = JStr ''pending'') \<and>
          intervals v' = without_handle v
             @ [\<lparr>tid = Suc (nextTimer v), delay = 2000, target = opt_prop body ''id''\<rparr>] \<and>
          pollingInterval v' = Some (Suc (nextTimer v)))) \<and>
   (create_failure outcome = Some err \<longrightarrow>
      handleGenerate_settled e vs outcome w =
        w\<lparr>error_state := JStr (''Error: '' @ toString e (submit_errorMsg err)),
          isLoading := False, statusEmoji := CrossMark\<rparr> \<and>
      handleSubmit_settled e0 e vs outcome v =
        v\<lparr>error_state := submit_errorMsg err, statusEmoji := CrossMark, isLoading := False,
          job := map_option (annotate_error e (submit_errorMsg err)) (job v)\<rparr> \<and>
      (let v' = handleSubmit_settled e0 e vs outcome (handleSubmit_call e0 vs v)
       in (\<exists>j. job v' = Some j \<and> status j = JStr ''pending'' \<and>
               prompt j = JStr (fv_prompt vs) \<and> duration j = JNum (fv_duration vs) \<and>
               resolution j = JStr (fv_resolution vs) \<and>
               openAiStatus j = JStr (''Error: '' @ toString e (submit_errorMsg err))) \<and>
          error_state v' = submit_errorMsg err \<and> \<not> isLoading v' \<and>
          intervals v' = intervals v \<and> pollingInterval v' = pollingInterval v) \<and>
      (let w' = handleGenerate_settled e vs outcome (handleGenerate_call vs w)
       in job w' = job w \<and> form w' = form w \<and> \<not> isLoading w' \<and>
          error_state w' = JStr (''Error: '' @ toString e (submit_errorMsg err)) \<and>
          intervals w' = intervals w \<and> pollingInterval w' = pollingInterval w))"
proof (intro conjI impI)
  assume ok: "truthy body \<and> truthy (opt_prop body ''id'')"
  from created_App [OF ok, of e vs w]
  show "let w' = handleGenerate_settled e vs (Fulfilled body) w
       in (\<exists>j. job w' = Some j \<and> jid j = opt_prop body ''id'' \<and> status j = JStr ''pending'') \<and>
          intervals w' = without_handle w
             @ [\<lparr>tid = Suc (nextTimer w), delay = 2000, target = opt_prop body ''id''\<rparr>] \<and>
          pollingInterval w' = Some (Suc (nextTimer w)) \<and>
          sent w' = sent w @ [GetJob (opt_prop body ''id'')]"
    unfolding Let_def by blast
  from created_part_000 [OF ok, of e0 e vs v]
  show "let v' = handleSubmit_settled e0 e vs (Fulfilled body) v
       in (\<exists>j. job v' = Some j \<and> jid j = opt_prop body ''id'' \<and> status j = JStr ''pending'') \<and>
          intervals v' = without_handle v
             @ [\<lparr>tid = Suc (nextTimer v), delay = 2000, target = opt_prop body ''id''\<rparr>] \<and>
          pollingInterval v' = Some (Suc (nextTimer v))"
    unfolding Let_def by blast
next
  assume f: "create_failure outcome = Some err"
  show "handleGenerate_settled e vs outcome w =
        w\<lparr>error_state := JStr (''Error: '' @ toString e (submit_errorMsg err)),
          isLoading := False, statusEmoji := CrossMark\<rparr>"
    by (rule failed_create_App [OF f])
  show "handleSubmit_settled e0 e vs outcome v =
        v\<lparr>error_state := submit_errorMsg err, statusEmoji := CrossMark, isLoading := False,
          job := map_option (annotate_error e (submit_errorMsg err)) (job v)\<rparr>"
    by (rule failed_create_part_000 [OF f])
  show "let v' = handleSubmit_settled e0 e vs outcome (handleSubmit_call e0 vs v)
       in (\<exists>j. job v' = Some j \<and> status j = JStr ''pending'' \<and>
               prompt j = JStr (fv_prompt vs) \<and> duration j = JNum (fv_duration vs) \<and>
               resolution j = JStr (fv_resolution vs) \<and>
               openAiStatus j = JStr (''Error: '' @ toString e (submit_errorMsg err))) \<and>
          error_state v' = submit_errorMsg err \<and> \<not> isLoading v' \<and>
          intervals v' = intervals v \<and> pollingInterval v' = pollingInterval v"
    unfolding Let_def failed_submission_part_000 [OF f]
    by (simp add: failed_create_part_000 [OF f] handleSubmit_call_def initialJob_def)
  show "let w' = handleGenerate_settled e vs outcome (handleGenerate_call vs w)
       in job w' = job w \<and> form w' = form w \<and> \<not> isLoading w' \<and>
          error_state w' = JStr (''Error: '' @ toString e (submit_errorMsg err)) \<and>
          intervals w' = intervals w \<and> pollingInterval w' = pollingInterval w"
    unfolding Let_def
    by (simp add: failed_create_App [OF f] handleGenerate_call_def)
qed

text \<open>
  The claim as stated fails where it says that the job is marked failed: after a create
  request that failed with a network error the job of part_000 still has status
  "pending", and the App variant has no job at all.
\<close>

theorem failed_submission_is_not_marked_failed:
  "map_option status (job create_failed) = Some (JStr ''pending'') \<and>
   map_option status (job create_failed) \<noteq> Some (JStr ''failed'') \<and>
   error_state create_failed = JStr ''Network Error'' \<and>
   map_option status (job create_failed_App) = None \<and>
   error_state create_failed_App = JStr ''Error: Network Error''"
  using create_failed_values create_failed_App_values by auto

lemma created_truthy:
  "truthy (JObj [(''id'', JStr ''job-1'')]) \<and>
   truthy (opt_prop (JObj [(''id'', JStr ''job-1'')]) ''id'') \<and>
   opt_prop (JObj [(''id'', JStr ''job-1'')]) ''id'' = JStr ''job-1''"
  by simp

lemma network_error_failure:
  "create_failure (Rejected network_error) = Some network_error \<and>
   submit_errorMsg network_error = JStr ''Network Error''"
  by (simp add: network_error_def submit_errorMsg_def detail_of_def js_or_def)

text \<open>
  The theorem at the first state with the form filled in: the response
  \<^verbatim>\<open>{id: "job-1"}\<close> starts the poll loop for "job-1", a network error does not.
\<close>

theorem create_response_starts_polling_or_shows_error_witness:
  "truthy (JObj [(''id'', JStr ''job-1'')]) \<and>
   truthy (opt_prop (JObj [(''id'', JStr ''job-1'')]) ''id'') \<and>
   create_failure (Rejected network_error) = Some network_error \<and>
   (let v' = handleSubmit_settled env0 env0 example_values
               (Fulfilled (JObj [(''id'', JStr ''job-1'')])) initial_world
    in (\<exists>j. job v' = Some j \<and> jid j = JStr ''job-1'' \<and> status j = JStr ''pending'') \<and>
       pollingInterval v' = Some (Suc (nextTimer initial_world))) \<and>
   (let v' = handleSubmit_settled env0 env0 example_values (Rejected network_error)
               (handleSubmit_call env0 example_values initial_world)
    in (\<exists>j. job v' = Some j \<and> status j = JStr ''pending'' \<and>
            prompt j = JStr (fv_prompt example_values)) \<and>
       error_state v' = JStr ''Network Error'' \<and> \<not> isLoading v' \<and>
       intervals v' = intervals initial_world)"
proof -
  note a = create_response_starts_polling_or_shows_error
    [of "JObj [(''id'', JStr ''job-1'')]" env0 example_values initial_world env0 initial_world
        "Rejected network_error" network_error]
  from a created_truthy network_error_failure show ?thesis
    unfolding Let_def by (intro conjI) (simp, simp, simp, metis, metis, metis, metis, metis, metis)
qed
section \<open>C9: a response that arrives after the timer was cleared\<close>

lemma stale_is_merged:
  assumes "d \<noteq> Undefined" "d \<noteq> Null" "mounted w"
  shows "job (step_App w (PollSettled_App e jobId (Fulfilled (Some d)))) =
           setJob_App e jobId (destructure d) (job w)"
    "job (step w (PollSettled e jobId (Fulfilled d))) =
           map_option (mergeJob (destructure d)) (job w)"
  using assms
  by (simp_all add: settle_mounted poll_settled_fulfilled settled_fulfilled job_poll_try
      job_checkJobStatus_try)

subsection \<open>An unmounted component keeps its state\<close>

lemma unmounted_step:
  "\<not> mounted w \<Longrightarrow>
   \<not> mounted (step w ev) \<and> job (step w ev) = job w \<and> error_state (step w ev) = error_state w"
  by (cases ev)
     (simp_all add: settle_unmounted frozen_frame interval_fires_def timeout_fires_def
        checkJobStatus_call_def split: option.splits)

lemma unmounted_step_App:
  "\<not> mounted w \<Longrightarrow>
   \<not> mounted (step_App w ev) \<and> job (step_App w ev) = job w \<and>
   error_state (step_App w ev) = error_state w"
  by (cases ev)
     (simp_all add: settle_unmounted frozen_frame interval_fires_App_def poll_call_def
        split: option.splits)

lemma unmounted_run:
  "\<not> mounted w \<Longrightarrow>
   \<not> mounted (run w evs) \<and> job (run w evs) = job w \<and> error_state (run w evs) = error_state w"
  unfolding run_def
proof (induction evs arbitrary: w)
  case Nil
  then show ?case by simp
next
  case (Cons ev evs)
  from unmounted_step [OF Cons.prems, of ev] Cons.IH [of "step w ev"]
  show ?case by simp
qed

lemma unmounted_run_App:
  "\<not> mounted w \<Longrightarrow>
   \<not> mounted (run_App w evs) \<and> job (run_App w evs) = job w \<and>
   error_state (run_App w evs) = error_state w"
  unfolding run_App_def
proof (induction evs arbitrary: w)
  case Nil
  then show ?case by simp
next
  case (Cons ev evs)
  from unmounted_step_App [OF Cons.prems, of ev] Cons.IH [of "step_App w ev"]
  show ?case by simp
qed

lemma unmount_step:
  "\<not> mounted (step w Unmount) \<and> job (step w Unmount) = job w \<and>
   pollingInterval (step w Unmount) = pollingInterval w"
  by (simp add: unmount_def clearInterval_def split: option.splits)

lemma unmount_step_App:
  "\<not> mounted (step_App w Unmount_App) \<and> job (step_App w Unmount_App) = job w"
  by (simp add: unmount_App_def job_clear_if_not_null)

text \<open>
  C9, as the source has it. The poll callbacks have no liveness check. While the
  component is mounted, a poll response is merged into the job the component holds,
  whatever the handle and the timers are and whatever job the response belongs to: so
  also after a terminal status cleared the timer, and after a new submission replaced the
  job. Once the component is unmounted its job and the error shown stay as they are,
  whatever happens: React ignores the updates. The callback still runs then; the cleanup
  of part_000 leaves the handle as it is, so a late 404 at the threshold starts a new
  recurring timer of 5000 ms.
\<close>

theorem stale_response_is_merged_unless_unmounted:
  "(mounted w \<and> d \<noteq> Undefined \<and> d \<noteq> Null \<and> job w = Some prev \<longrightarrow>
      (\<exists>j. job (step w (PollSettled e jobId (Fulfilled d))) = Some j \<and>
           status j = (if truthy (opt_prop d ''status'') then opt_prop d ''status'' else status prev) \<and>
           progress j =
             (if opt_prop d ''progress'' \<noteq> Undefined then opt_prop d ''progress'' else progress prev) \<and>
           jid j = jid prev) \<and>
      (\<exists>j. job (step_App w (PollSettled_App e jobId (Fulfilled (Some d)))) = Some j \<and>
           status j = (if truthy (opt_prop d ''status'') then opt_prop d ''status'' else status prev) \<and>
           progress j =
             (if opt_prop d ''progress'' \<noteq> Undefined then opt_prop d ''progress'' else progress prev) \<and>
           jid j = jid prev)) \<and>
   \<not> mounted (step w Unmount) \<and> job (step w Unmount) = job w \<and>
   pollingInterval (step w Unmount) = pollingInterval w \<and>
   \<not> mounted (step_App w Unmount_App) \<and> job (step_App w Unmount_App) = job w \<and>
   (\<not> mounted w \<longrightarrow>
      job (run w evs) = job w \<and> error_state (run w evs) = error_state w \<and>
      job (run_App w evs_App) = job w \<and> error_state (run_App w evs_App) = error_state w) \<and>
   (\<not> mounted w \<and> map_option fst (response err) = Some 404 \<and>
    toString e jobId \<notin> set prototype_members \<and>
    retryCount w (toString e jobId) = Some (Count n) \<and> 5 \<le> n + 1 \<and>
    pollingInterval w = Some t \<and> t \<noteq> 0 \<longrightarrow>
      intervals (step w (PollSettled e jobId (Rejected err))) =
        filter (\<lambda>x. tid x \<noteq> t) (intervals w)
          @ [\<lparr>tid = Suc (nextTimer w), delay = 5000, target = jobId\<rparr>] \<and>
      job (step w (PollSettled e jobId (Rejected err))) = job w)"
proof -
  have a: "mounted w \<and> d \<noteq> Undefined \<and> d \<noteq> Null \<and> job w = Some prev \<longrightarrow>
      (\<exists>j. job (step w (PollSettled e jobId (Fulfilled d))) = Some j \<and>
           status j = (if truthy (opt_prop d ''status'') then opt_prop d ''status'' else status prev) \<and>
           progress j =
             (if opt_prop d ''progress'' \<noteq> Undefined then opt_prop d ''progress'' else progress prev) \<and>
           jid j = jid prev) \<and>
      (\<exists>j. job (step_App w (PollSettled_App e jobId (Fulfilled (Some d)))) = Some j \<and>
           status j = (if truthy (opt_prop d ''status'') then opt_prop d ''status'' else status prev) \<and>
           progress j =
             (if opt_prop d ''progress'' \<noteq> Undefined then opt_prop d ''progress'' else progress prev) \<and>
           jid j = jid prev)"
  proof (intro impI)
    assume h: "mounted w \<and> d \<noteq> Undefined \<and> d \<noteq> Null \<and> job w = Some prev"
    then have nn: "d \<noteq> Undefined" "d \<noteq> Null" and m: "mounted w" and p: "job w = Some prev"
      by simp_all
    note s = stale_is_merged [OF nn m, of e jobId]
    have 1: "\<exists>j. job (step w (PollSettled e jobId (Fulfilled d))) = Some j \<and>
           status j = (if truthy (opt_prop d ''status'') then opt_prop d ''status'' else status prev) \<and>
           progress j =
             (if opt_prop d ''progress'' \<noteq> Undefined then opt_prop d ''progress'' else progress prev) \<and>
           jid j = jid prev"
      unfolding s(2) p by (simp add: merge_fields destructure_def)
    have 2: "\<exists>j. job (step_App w (PollSettled_App e jobId (Fulfilled (Some d)))) = Some j \<and>
           status j = (if truthy (opt_prop d ''status'') then opt_prop d ''status'' else status prev) \<and>
           progress j =
             (if opt_prop d ''progress'' \<noteq> Undefined then opt_prop d ''progress'' else progress prev) \<and>
           jid j = jid prev"
      unfolding s(1) p by (simp add: setJob_App_def merge_App_fields destructure_def)
    from 1 2 show "(\<exists>j. job (step w (PollSettled e jobId (Fulfilled d))) = Some j \<and>
           status j = (if truthy (opt_prop d ''status'') then opt_prop d ''status'' else status prev) \<and>
           progress j =
             (if opt_prop d ''progress'' \<noteq> Undefined then opt_prop d ''progress'' else progress prev) \<and>
           jid j = jid prev) \<and>
      (\<exists>j. job (step_App w (PollSettled_App e jobId (Fulfilled (Some d)))) = Some j \<and>
           status j = (if truthy (opt_prop d ''status'') then opt_prop d ''status'' else status prev) \<and>
           progress j =
             (if opt_prop d ''progress'' \<noteq> Undefined then opt_prop d ''progress'' else progress prev) \<and>
           jid j = jid prev)"
      by (rule conjI)
  qed
  have b: "\<not> mounted w \<longrightarrow>
      job (run w evs) = job w \<and> error_state (run w evs) = error_state w \<and>
      job (run_App w evs_App) = job w \<and> error_state (run_App w evs_App) = error_state w"
    using unmounted_run [of w evs] unmounted_run_App [of w evs_App] by simp
  have c: "\<not> mounted w \<and> map_option fst (response err) = Some 404 \<and>
    toString e jobId \<notin> set prototype_members \<and>
    retryCount w (toString e jobId) = Some (Count n) \<and> 5 \<le> n + 1 \<and>
    pollingInterval w = Some t \<and> t \<noteq> 0 \<longrightarrow>
      intervals (step w (PollSettled e jobId (Rejected err))) =
        filter (\<lambda>x. tid x \<noteq> t) (intervals w)
          @ [\<lparr>tid = Suc (nextTimer w), delay = 5000, target = jobId\<rparr>] \<and>
      job (step w (PollSettled e jobId (Rejected err))) = job w"
  proof (intro impI)
    assume h: "\<not> mounted w \<and> map_option fst (response err) = Some 404 \<and>
      toString e jobId \<notin> set prototype_members \<and>
      retryCount w (toString e jobId) = Some (Count n) \<and> 5 \<le> n + 1 \<and>
      pollingInterval w = Some t \<and> t \<noteq> 0"
    then have nx: "next_retry w (toString e jobId) = Count (n + 1)"
      by (simp add: next_retry_count)
    from h have h1: "map_option fst (response err) = Some 404"
      and h2: "toString e jobId \<notin> set prototype_members" and h3: "5 \<le> n + 1"
      and h4: "pollingInterval w = Some t" "t \<noteq> 0" and h5: "\<not> mounted w"
      by simp_all
    note r = reached_step [OF h1 h2 nx h3]
    from r(6) [OF h4] r(5) [OF h5]
    show "intervals (step w (PollSettled e jobId (Rejected err))) =
        filter (\<lambda>x. tid x \<noteq> t) (intervals w)
          @ [\<lparr>tid = Suc (nextTimer w), delay = 5000, target = jobId\<rparr>] \<and>
      job (step w (PollSettled e jobId (Rejected err))) = job w"
      by (simp only: simp_thms)
  qed
  note u = unmount_step [of w]
  note v = unmount_step_App [of w]
  from a u v b c show ?thesis by (simp only: simp_thms)
qed

lemma completed_first_values:
  "mounted completed_first \<and>
   map_option status (job completed_first) = Some (JStr ''completed'') \<and>
   intervals completed_first = [] \<and> pollingInterval completed_first = None"
  by code_simp

lemma stale_after_completed:
  "map_option status
     (job (run completed_first [PollSettled env0 (JStr ''job-1'') (Fulfilled stale_response)]))
     = Some (JStr ''processing'') \<and>
   map_option progress
     (job (run completed_first [PollSettled env0 (JStr ''job-1'') (Fulfilled stale_response)]))
     = Some (JNum 10)"
  by code_simp

lemma submitted_next_values:
  "map_option jid (job submitted_next) = Some (JStr ''job-2'') \<and>
   map_option status (job submitted_next) = Some (JStr ''pending'') \<and>
   map target (intervals submitted_next) = [JStr ''job-2'']"
  by code_simp

lemma stale_after_submitted:
  "map_option jid
     (job (run submitted_next [PollSettled env0 (JStr ''job-1'') (Fulfilled stale_response)]))
     = Some (JStr ''job-2'') \<and>
   map_option status
     (job (run submitted_next [PollSettled env0 (JStr ''job-1'') (Fulfilled stale_response)]))
     = Some (JStr ''processing'') \<and>
   map_option progress
     (job (run submitted_next [PollSettled env0 (JStr ''job-1'') (Fulfilled stale_response)]))
     = Some (JNum 10)"
  by code_simp

lemma completed_first_App_values:
  "map_option status (job completed_first_App) = Some (JStr ''completed'') \<and>
   intervals completed_first_App = [] \<and> pollingInterval completed_first_App = None"
  by code_simp

lemma stale_after_completed_App:
  "map_option status
     (job (run_App completed_first_App
        [PollSettled_App env0 (JStr ''job-1'') (Fulfilled (Some stale_response))]))
     = Some (JStr ''processing'') \<and>
   map_option progress
     (job (run_App completed_first_App
        [PollSettled_App env0 (JStr ''job-1'') (Fulfilled (Some stale_response))]))
     = Some (JNum 10)"
  by code_simp

lemma submitted_next_App_values:
  "map_option jid (job submitted_next_App) = Some (JStr ''job-2'') \<and>
   map_option status (job submitted_next_App) = Some (JStr ''pending'') \<and>
   map target (intervals submitted_next_App) = [JStr ''job-2'']"
  by code_simp

lemma stale_after_submitted_App:
  "map_option jid
     (job (run_App submitted_next_App
        [PollSettled_App env0 (JStr ''job-1'') (Fulfilled (Some stale_response))]))
     = Some (JStr ''job-2'') \<and>
   map_option status
     (job (run_App submitted_next_App
        [PollSettled_App env0 (JStr ''job-1'') (Fulfilled (Some stale_response))]))
     = Some (JStr ''processing'') \<and>
   map_option progress
     (job (run_App submitted_next_App
        [PollSettled_App env0 (JStr ''job-1'') (Fulfilled (Some stale_response))]))
     = Some (JNum 10)"
  by code_simp

lemma unmounted_polling_values:
  "\<not> mounted unmounted_polling \<and> intervals unmounted_polling = [] \<and>
   pollingInterval unmounted_polling = Some 1 \<and>
   retryCount unmounted_polling ''job-1'' = Some (Count 4) \<and>
   nextTimer unmounted_polling = 5 \<and>
   length (polls (sent unmounted_polling)) = 5"
  by code_simp

lemma late_not_found_unmounted:
  "intervals (run unmounted_polling [PollSettled env0 (JStr ''job-1'') (Rejected not_found)])
     = [\<lparr>tid = 6, delay = 5000, target = JStr ''job-1''\<rparr>] \<and>
   length (polls (sent (run unmounted_polling
     [PollSettled env0 (JStr ''job-1'') (Rejected not_found), IntervalFires 6]))) = 6"
  by code_simp

text \<open>
  The claim as stated fails in both variants. Two status requests for "job-1" are under
  way; the second is answered first, with the completed job, and the timer is cleared.
  When the answer \<^verbatim>\<open>{status: "processing", progress: 10}\<close> to the first arrives, it is not
  discarded: the job's status goes back to "processing" and its progress becomes 10. When
  the form was submitted again in between and the job is now "job-2", the late answer
  for "job-1" is merged into the record of "job-2". And in part_000, when the component
  unmounts with a status request under way after four 404s in a row, the fifth 404
  arrives after the cleanup and starts the recurring timer 6, which polls on.
\<close>

theorem stale_response_is_not_discarded:
  "map_option status (job completed_first) = Some (JStr ''completed'') \<and>
   intervals completed_first = [] \<and> pollingInterval completed_first = None \<and>
   map_option status
     (job (run completed_first [PollSettled env0 (JStr ''job-1'') (Fulfilled stale_response)]))
     = Some (JStr ''processing'') \<and>
   map_option progress
     (job (run completed_first [PollSettled env0 (JStr ''job-1'') (Fulfilled stale_response)]))
     = Some (JNum 10) \<and>
   map_option jid (job submitted_next) = Some (JStr ''job-2'') \<and>
   map_option status (job submitted_next) = Some (JStr ''pending'') \<and>
   map target (intervals submitted_next) = [JStr ''job-2''] \<and>
   map_option jid
     (job (run submitted_next [PollSettled env0 (JStr ''job-1'') (Fulfilled stale_response)]))
     = Some (JStr ''job-2'') \<and>
   map_option status
     (job (run submitted_next [PollSettled env0 (JStr ''job-1'') (Fulfilled stale_response)]))
     = Some (JStr ''processing'') \<and>
   map_option status (job completed_first_App) = Some (JStr ''completed'') \<and>
   intervals completed_first_App = [] \<and> pollingInterval completed_first_App = None \<and>
   map_option status
     (job (run_App completed_first_App
        [PollSettled_App env0 (JStr ''job-1'') (Fulfilled (Some stale_response))]))
     = Some (JStr ''processing'') \<and>
   map_option progress
     (job (run_App completed_first_App
        [PollSettled_App env0 (JStr ''job-1'') (Fulfilled (Some stale_response))]))
     = Some (JNum 10) \<and>
   map_option jid (job submitted_next_App) = Some (JStr ''job-2'') \<and>
   map_option jid
     (job (run_App submitted_next_App
        [PollSettled_App env0 (JStr ''job-1'') (Fulfilled (Some stale_response))]))
     = Some (JStr ''job-2'') \<and>
   map_option status
     (job (run_App submitted_next_App
        [PollSettled_App env0 (JStr ''job-1'') (Fulfilled (Some stale_response))]))
     = Some (JStr ''processing'') \<and>
   \<not> mounted unmounted_polling \<and> intervals unmounted_polling = [] \<and>
   length (polls (sent unmounted_polling)) = 5 \<and>
   intervals (run unmounted_polling [PollSettled env0 (JStr ''job-1'') (Rejected not_found)])
     = [\<lparr>tid = 6, delay = 5000, target = JStr ''job-1''\<rparr>] \<and>
   length (polls (sent (run unmounted_polling
     [PollSettled env0 (JStr ''job-1'') (Rejected not_found), IntervalFires 6]))) = 6"
  using completed_first_values stale_after_completed submitted_next_values stale_after_submitted
    completed_first_App_values stale_after_completed_App submitted_next_App_values
    stale_after_submitted_App unmounted_polling_values late_not_found_unmounted
  by (simp only: simp_thms)

lemma stale_response_fields:
  "stale_response \<noteq> Undefined \<and> stale_response \<noteq> Null \<and>
   truthy (opt_prop stale_response ''status'') \<and>
   opt_prop stale_response ''status'' = JStr ''processing'' \<and>
   opt_prop stale_response ''progress'' = JNum 10"
  by (simp add: stale_response_def)

text \<open>
  The theorem at the state of part_000 after the job completed, for the late response,
  and at the state after the component unmounted, for the late 404.
\<close>

theorem stale_response_is_merged_unless_unmounted_witness:
  "mounted completed_first \<and> stale_response \<noteq> Undefined \<and> stale_response \<noteq> Null \<and>
   map_option status (job completed_first) = Some (JStr ''completed'') \<and>
   pollingInterval completed_first = None \<and>
   map_option status
     (job (step completed_first (PollSettled env0 (JStr ''job-1'') (Fulfilled stale_response))))
     = Some (JStr ''processing'') \<and>
   map_option progress
     (job (step completed_first (PollSettled env0 (JStr ''job-1'') (Fulfilled stale_response))))
     = Some (JNum 10) \<and>
   \<not> mounted unmounted_polling \<and>
   job (run unmounted_polling
          [PollSettled env0 (JStr ''job-1'') (Fulfilled stale_response), IntervalFires 1])
     = job unmounted_polling \<and>
   map_option fst (response not_found) = Some 404 \<and>
   retryCount unmounted_polling ''job-1'' = Some (Count 4) \<and>
   pollingInterval unmounted_polling = Some 1 \<and>
   intervals (step unmounted_polling (PollSettled env0 (JStr ''job-1'') (Rejected not_found)))
     = [\<lparr>tid = 6, delay = 5000, target = JStr ''job-1''\<rparr>]"
proof -
  obtain prev where p: "job completed_first = Some prev"
    using completed_first_values by (cases "job completed_first") auto
  note a = stale_response_is_merged_unless_unmounted
    [where w = completed_first and d = stale_response and prev = prev and e = env0
       and jobId = "JStr ''job-1''", THEN conjunct1, THEN mp]
  have h: "mounted completed_first \<and> stale_response \<noteq> Undefined \<and> stale_response \<noteq> Null \<and>
           job completed_first = Some prev"
    using completed_first_values stale_response_fields p by simp
  from a [OF h, THEN conjunct1] obtain j where
    j: "job (step completed_first (PollSettled env0 (JStr ''job-1'') (Fulfilled stale_response)))
          = Some j"
      "status j = (if truthy (opt_prop stale_response ''status'')
                   then opt_prop stale_response ''status'' else status prev)"
      "progress j = (if opt_prop stale_response ''progress'' \<noteq> Undefined
                     then opt_prop stale_response ''progress'' else progress prev)"
    by blast
  have s1: "map_option status
     (job (step completed_first (PollSettled env0 (JStr ''job-1'') (Fulfilled stale_response))))
     = Some (JStr ''processing'')"
    unfolding j(1) using j(2) stale_response_fields by simp
  have s2: "map_option progress
     (job (step completed_first (PollSettled env0 (JStr ''job-1'') (Fulfilled stale_response))))
     = Some (JNum 10)"
    unfolding j(1) using j(3) stale_response_fields by simp
  note k = job1_key [THEN conjunct1]
  note b = stale_response_is_merged_unless_unmounted
    [where w = unmounted_polling and e = env0 and jobId = "JStr ''job-1''" and err = not_found
       and n = 4 and t = 1
       and evs = "[PollSettled env0 (JStr ''job-1'') (Fulfilled stale_response), IntervalFires 1]",
     unfolded k]
  note b1 = b [THEN conjunct2, THEN conjunct2, THEN conjunct2, THEN conjunct2, THEN conjunct2,
               THEN conjunct2]
  have u: "\<not> mounted unmounted_polling" using unmounted_polling_values by simp
  have s3: "job (run unmounted_polling
          [PollSettled env0 (JStr ''job-1'') (Fulfilled stale_response), IntervalFires 1])
     = job unmounted_polling"
    using b1 [THEN conjunct1, THEN mp, OF u] by (simp only: simp_thms)
  have h2: "\<not> mounted unmounted_polling \<and> map_option fst (response not_found) = Some 404 \<and>
    ''job-1'' \<notin> set prototype_members \<and>
    retryCount unmounted_polling ''job-1'' = Some (Count 4) \<and> (5::nat) \<le> 4 + 1 \<and>
    pollingInterval unmounted_polling = Some 1 \<and> (1::nat) \<noteq> 0"
    using unmounted_polling_values not_found_404 job1_key by simp
  have s4: "intervals (step unmounted_polling (PollSettled env0 (JStr ''job-1'') (Rejected not_found)))
     = [\<lparr>tid = 6, delay = 5000, target = JStr ''job-1''\<rparr>]"
    using b1 [THEN conjunct2, THEN mp, OF h2, THEN conjunct1] unmounted_polling_values
    by simp
  from completed_first_values stale_response_fields s1 s2 u s3 not_found_404
    unmounted_polling_values s4
  show ?thesis by (simp only: simp_thms)
qed

section \<open>C10: presence for the progress, truthiness for the rest\<close>

text \<open>
  C10. In the merge of both variants a response whose progress is the number 0
  overwrites the previous progress (the test is \<^verbatim>\<open>progress !== undefined\<close>), whereas a
  response whose status or error is the empty string leaves the previous status or error
  (they merge with \<^verbatim>\<open>||\<close>).
\<close>

theorem merge_presence_versus_truthiness:
  "progress (mergeJob (r\<lparr>r_progress := JNum 0\<rparr>) prev) = JNum 0 \<and>
   status (mergeJob (r\<lparr>r_status := JStr []\<rparr>) prev) = status prev \<and>
   error (mergeJob (r\<lparr>r_error := JStr []\<rparr>) prev) = error prev \<and>
   progress (mergeJob_App e (r\<lparr>r_progress := JNum 0\<rparr>) prev) = JNum 0 \<and>
   status (mergeJob_App e (r\<lparr>r_status := JStr []\<rparr>) prev) = status prev \<and>
   error (mergeJob_App e (r\<lparr>r_error := JStr []\<rparr>) prev) = error prev \<and>
   r_progress (destructure (JObj [(''status'', JStr []), (''error'', JStr []), (''progress'', JNum 0)])) = JNum 0 \<and>
   r_status (destructure (JObj [(''status'', JStr []), (''error'', JStr []), (''progress'', JNum 0)])) = JStr [] \<and>
   r_error (destructure (JObj [(''status'', JStr []), (''error'', JStr []), (''progress'', JNum 0)])) = JStr []"
  by (simp add: merge_fields merge_App_fields destructure_def)

end
